theory Spec2Isabelle
  imports Complex_Main "HOL-Library.Stream"
begin

section \<open>New-game character resolution of newgame.cc\<close>

text \<open>
  A shallow embedding of the resolution engine of \<^verbatim>\<open>crawl-ref/source/newgame.cc\<close>:
  the single-field resolvers \<^verbatim>\<open>_resolve_species\<close>, \<^verbatim>\<open>_resolve_job\<close>,
  \<^verbatim>\<open>_resolve_weapon\<close>, the ordering rule of \<^verbatim>\<open>_resolve_species_job\<close>, the
  prompting loop of \<^verbatim>\<open>_choose_species_job\<close>, the weapon stage \<^verbatim>\<open>_choose_weapon\<close>
  and the reroll loop of \<^verbatim>\<open>_choose_char\<close>. The leading underscore of the static
  functions is dropped, since an Isabelle name cannot start with one.
\<close>

subsection \<open>Enumerations\<close>

text \<open>
  The enums \<^verbatim>\<open>species_type\<close>, \<^verbatim>\<open>job_type\<close>, \<^verbatim>\<open>weapon_type\<close> are declared in headers
  outside newgame.cc. Each datatype has one constructor per enumerator that newgame.cc
  names, and one constructor \<open>*_OTHER n\<close> for the enumerators it does not name.
\<close>

datatype species_type =
    SP_HUMAN | SP_DEEP_ELF | SP_DEEP_DWARF | SP_HILL_ORC
  | SP_HALFLING | SP_KOBOLD | SP_SPRIGGAN
  | SP_OGRE | SP_TROLL
  | SP_NAGA | SP_CENTAUR | SP_MERFOLK | SP_MINOTAUR | SP_TENGU | SP_BASE_DRACONIAN
  | SP_GARGOYLE | SP_FORMICID | SP_BARACHI | SP_GNOLL
  | SP_VINE_STALKER
  | SP_DEMIGOD | SP_DEMONSPAWN
  | SP_MUMMY | SP_GHOUL | SP_VAMPIRE
  | SP_FELID | SP_OCTOPODE
  | SP_OTHER nat
  | SP_UNKNOWN | SP_RANDOM | SP_VIABLE

datatype job_type =
    JOB_FIGHTER | JOB_GLADIATOR | JOB_MONK | JOB_HUNTER | JOB_ASSASSIN
  | JOB_ARTIFICER | JOB_WANDERER
  | JOB_BERSERKER | JOB_ABYSSAL_KNIGHT | JOB_CHAOS_KNIGHT
  | JOB_SKALD | JOB_TRANSMUTER | JOB_WARPER | JOB_ARCANE_MARKSMAN | JOB_ENCHANTER
  | JOB_WIZARD | JOB_CONJURER | JOB_SUMMONER | JOB_NECROMANCER
  | JOB_FIRE_ELEMENTALIST | JOB_ICE_ELEMENTALIST | JOB_AIR_ELEMENTALIST
  | JOB_EARTH_ELEMENTALIST | JOB_VENOM_MAGE
  | JOB_OTHER nat
  | JOB_UNKNOWN | JOB_RANDOM | JOB_VIABLE

datatype weapon_type =
    WPN_THROWN | WPN_HUNTING_SLING | WPN_SHORTBOW | WPN_HAND_CROSSBOW
  | WPN_SHORT_SWORD | WPN_MACE | WPN_HAND_AXE | WPN_SPEAR | WPN_FALCHION
  | WPN_QUARTERSTAFF | WPN_UNARMED
  | WPN_RAPIER | WPN_FLAIL | WPN_WAR_AXE | WPN_TRIDENT | WPN_LONG_SWORD
  | WPN_OTHER nat
  | WPN_UNKNOWN | WPN_RANDOM | WPN_VIABLE

datatype game_type =
    GAME_TYPE_NORMAL | GAME_TYPE_TUTORIAL | GAME_TYPE_HINTS | GAME_TYPE_SPRINT
  | GAME_TYPE_OTHER nat

text \<open>
  \<^verbatim>\<open>char_choice_restriction\<close> (ng-restr.h). newgame.cc tests a restriction for truth
  (\<^verbatim>\<open>!job_allowed(...)\<close>, line 406, and the assertion of line 726) where it means
  ``not banned'', so \<open>CC_BANNED\<close> is the enumerator with value 0.
\<close>

datatype char_choice_restriction = CC_BANNED | CC_RESTRICTED | CC_UNRESTRICTED

subsection \<open>The choice record\<close>

text \<open>
  \<^verbatim>\<open>newgame_def\<close> (newgame-def.h), with the fields newgame.cc reads and writes. The
  fields \<^verbatim>\<open>type\<close> and \<^verbatim>\<open>map\<close> are \<open>gtype\<close> and \<open>gmap\<close> here.
\<close>

record newgame_def =
  name :: string
  gtype :: game_type
  filename :: string
  gmap :: string
  species :: species_type
  job :: job_type
  weapon :: weapon_type
  fully_random :: bool
  allowed_species :: "species_type list"
  allowed_jobs :: "job_type list"
  allowed_weapons :: "weapon_type list"
  allowed_combos :: "string list"

text \<open>The constructor \<^verbatim>\<open>newgame_def::newgame_def()\<close>, lines 65-71.\<close>

definition newgame_def0 :: newgame_def where
  "newgame_def0 = \<lparr>name = [], gtype = GAME_TYPE_NORMAL, filename = [], gmap = [],
     species = SP_UNKNOWN, job = JOB_UNKNOWN, weapon = WPN_UNKNOWN, fully_random = False,
     allowed_species = [], allowed_jobs = [], allowed_weapons = [], allowed_combos = []\<rparr>"

definition clear_character :: "newgame_def \<Rightarrow> newgame_def" where
  "clear_character ng = ng\<lparr>species := SP_UNKNOWN, job := JOB_UNKNOWN, weapon := WPN_UNKNOWN\<rparr>"

definition is_random_species :: "species_type \<Rightarrow> bool" where
  "is_random_species sp \<longleftrightarrow> sp = SP_RANDOM \<or> sp = SP_VIABLE"

definition is_random_job :: "job_type \<Rightarrow> bool" where
  "is_random_job j \<longleftrightarrow> j = JOB_RANDOM \<or> j = JOB_VIABLE"

definition is_random_choice :: "newgame_def \<Rightarrow> bool" where
  "is_random_choice choice \<longleftrightarrow> is_random_species (species choice) \<and> is_random_job (job choice)"

definition char_defined :: "newgame_def \<Rightarrow> bool" where
  "char_defined ng \<longleftrightarrow> species ng \<noteq> SP_UNKNOWN \<and> job ng \<noteq> JOB_UNKNOWN"

definition choose_tutorial_character :: "newgame_def \<Rightarrow> newgame_def" where
  "choose_tutorial_character ng_choice =
     ng_choice\<lparr>species := SP_HUMAN, job := JOB_FIGHTER, weapon := WPN_FLAIL\<rparr>"

subsection \<open>Starting species and jobs\<close>

definition species_order :: "species_type list" where
  "species_order =
    [SP_HUMAN, SP_DEEP_ELF, SP_DEEP_DWARF, SP_HILL_ORC,
     SP_HALFLING, SP_KOBOLD, SP_SPRIGGAN,
     SP_OGRE, SP_TROLL,
     SP_NAGA, SP_CENTAUR, SP_MERFOLK, SP_MINOTAUR, SP_TENGU, SP_BASE_DRACONIAN,
     SP_GARGOYLE, SP_FORMICID, SP_BARACHI, SP_GNOLL,
     SP_VINE_STALKER,
     SP_DEMIGOD, SP_DEMONSPAWN,
     SP_MUMMY, SP_GHOUL, SP_VAMPIRE,
     SP_FELID, SP_OCTOPODE]"

definition is_starting_species :: "species_type \<Rightarrow> bool" where
  "is_starting_species sp \<longleftrightarrow> sp \<in> set species_order"

text \<open>\<^verbatim>\<open>jobs_order\<close>: the group names and the jobs of each group (the screen
  coordinates and column widths are layout).\<close>

definition jobs_order :: "(string \<times> job_type list) list" where
  "jobs_order =
    [(''Warrior'', [JOB_FIGHTER, JOB_GLADIATOR, JOB_MONK, JOB_HUNTER, JOB_ASSASSIN]),
     (''Adventurer'', [JOB_ARTIFICER, JOB_WANDERER]),
     (''Zealot'', [JOB_BERSERKER, JOB_ABYSSAL_KNIGHT, JOB_CHAOS_KNIGHT]),
     (''Warrior-mage'', [JOB_SKALD, JOB_TRANSMUTER, JOB_WARPER, JOB_ARCANE_MARKSMAN,
        JOB_ENCHANTER]),
     (''Mage'', [JOB_WIZARD, JOB_CONJURER, JOB_SUMMONER, JOB_NECROMANCER,
        JOB_FIRE_ELEMENTALIST, JOB_ICE_ELEMENTALIST, JOB_AIR_ELEMENTALIST,
        JOB_EARTH_ELEMENTALIST, JOB_VENOM_MAGE])]"

definition is_starting_job :: "job_type \<Rightarrow> bool" where
  "is_starting_job j \<longleftrightarrow> list_ex (\<lambda>group. list_ex (\<lambda>j'. j = j') (snd group)) jobs_order"

subsection \<open>The random source\<close>

text \<open>
  Modelled from the spec: \<^verbatim>\<open>random2\<close>, \<^verbatim>\<open>one_chance_in\<close> and \<^verbatim>\<open>coinflip\<close> are defined
  in random.cc, which is not part of the sources at hand. Specification 4.1, 4.2 and 5:
  all draws come from one shared pseudo-random source, a candidate is taken ``with
  probability \<open>1/k\<close>'', and the order is chosen ``by an unbiased coin flip''. The source
  is a stream of raw draws; \<^verbatim>\<open>random2(max)\<close> takes the next raw draw and reduces it to
  the range \<open>[0, max)\<close>, \<^verbatim>\<open>one_chance_in(n)\<close> is \<^verbatim>\<open>random2(n) == 0\<close>, and \<^verbatim>\<open>coinflip()\<close>
  is \<^verbatim>\<open>random2(2)\<close> read as a truth value.
\<close>

type_synonym rng = "nat stream"

definition random2 :: "nat \<Rightarrow> rng \<Rightarrow> nat \<times> rng" where
  "random2 mx g = (shd g mod mx, stl g)"

definition one_chance_in :: "nat \<Rightarrow> rng \<Rightarrow> bool \<times> rng" where
  "one_chance_in n g = (case random2 n g of (r, g') \<Rightarrow> (r = 0, g'))"

definition coinflip :: "rng \<Rightarrow> bool \<times> rng" where
  "coinflip g = (case random2 2 g of (r, g') \<Rightarrow> (r \<noteq> 0, g'))"

subsection \<open>How the process ends early\<close>

text \<open>
  \<^verbatim>\<open>end(code, ..., message)\<close> terminates the process, \<^verbatim>\<open>game_ended(game_exit::abort)\<close>
  unwinds with the abort signal, a failed \<^verbatim>\<open>ASSERT\<close> crashes, and an index past the end
  of a vector is undefined behaviour. Each is a value of \<open>exit_reason\<close>, and a function
  that can end early returns \<open>exit_reason + result\<close>.
\<close>

datatype exit_reason =
    End int string
  | Game_ended_abort
  | Assert_failed string
  | Out_of_range

subsection \<open>The user interface\<close>

text \<open>
  The prompts block until the player has decided. What the player does is a stream of
  events; a key press is \<open>WME_KEYDOWN\<close>, and \<open>Button_activated id\<close> is the call of a
  menu's \<^verbatim>\<open>on_button_activated\<close> with the id of the button (by click or hot key).
  \<open>CK_ESCAPE\<close> stands for the keys of \<^verbatim>\<open>CASE_ESCAPE\<close> and \<^verbatim>\<open>key_is_escape\<close>.
\<close>

datatype key = CK_ESCAPE | CK_BKSP | CK_ENTER | CK_MOUSE_CMD | CK_TAB | CONTROL_Q | Key char

datatype wm_event = WME_KEYDOWN key | Button_activated int | WME_OTHER

datatype prompt = Prompt_species | Prompt_job | Prompt_weapon | Prompt_reroll

text \<open>
  The world outside the records: the random source, the events still to come, the flag
  \<^verbatim>\<open>crawl_state.seen_hups\<close>, and the list of the prompts shown so far (a ghost field: the
  code keeps no such list).
\<close>

record world =
  gen :: rng
  events :: "wm_event stream"
  seen_hups :: bool
  prompted :: "prompt list"

subsection \<open>External collaborators\<close>

text \<open>
  The functions and constants that newgame.cc calls and that other files define: the
  compatibility oracle of ng-restr.cc, the job and species tables, the string helpers,
  and the enum constants \<^verbatim>\<open>NUM_JOBS\<close>, \<^verbatim>\<open>NUM_SPECIES\<close> with the conversions from
  \<^verbatim>\<open>int\<close> to an enum (\<^verbatim>\<open>job_type(i)\<close>, \<^verbatim>\<open>static_cast<species_type>(i)\<close>). They are
  parameters of the model. \<open>torso_at_most_small sp\<close> is the comparison
  \<^verbatim>\<open>species_size(sp, PSIZE_TORSO) <= SIZE_SMALL\<close>, and \<open>pick_hints\<close> (hints.cc) asks the
  player for the character of a hints game.
\<close>

record ext =
  job_allowed :: "species_type \<Rightarrow> job_type \<Rightarrow> char_choice_restriction"
  species_allowed :: "job_type \<Rightarrow> species_type \<Rightarrow> char_choice_restriction"
  weapon_restriction :: "weapon_type \<Rightarrow> newgame_def \<Rightarrow> char_choice_restriction"
  NUM_JOBS :: nat
  NUM_SPECIES :: nat
  job_of_int :: "int \<Rightarrow> job_type"
  species_of_int :: "int \<Rightarrow> species_type"
  weapon_of_int :: "int \<Rightarrow> weapon_type"
  job_gets_ranged_weapons :: "job_type \<Rightarrow> bool"
  job_gets_good_weapons :: "job_type \<Rightarrow> bool"
  job_has_weapon_choice :: "job_type \<Rightarrow> bool"
  torso_at_most_small :: "species_type \<Rightarrow> bool"
  species_name :: "species_type \<Rightarrow> string"
  get_job_name :: "job_type \<Rightarrow> string"
  get_species_by_abbrev :: "string \<Rightarrow> species_type"
  get_job_by_abbrev :: "string \<Rightarrow> job_type"
  str_to_job :: "string \<Rightarrow> job_type"
  str_to_weapon :: "string \<Rightarrow> weapon_type"
  split_string :: "string \<Rightarrow> string \<Rightarrow> string list"
  trim_string :: "string \<Rightarrow> string"
  pick_hints :: "newgame_def \<Rightarrow> world \<Rightarrow> (exit_reason + newgame_def \<times> world) option"

text \<open>
  Modelled from the spec: \<^verbatim>\<open>is_good_combination(species, job, species_first, good)\<close> is
  defined in ng-restr.cc, which is not part of the sources at hand. Specification 4.2:
  the VIABLE pool (last argument true) holds the values whose restriction level against
  the other field is UNRESTRICTED, the RANDOM pool (last argument false) those whose
  level is not BANNED. The third argument is true where a job is drawn for a known
  species (the oracle is asked \<^verbatim>\<open>job_allowed\<close>) and false where a species is drawn for a
  known job (\<^verbatim>\<open>species_allowed\<close>).
\<close>

definition is_good_combination :: "ext \<Rightarrow> species_type \<Rightarrow> job_type \<Rightarrow> bool \<Rightarrow> bool \<Rightarrow> bool" where
  "is_good_combination env spc jb species_first good =
     (let restrict = (if species_first then job_allowed env spc jb
                      else species_allowed env jb spc)
      in if good then restrict = CC_UNRESTRICTED else restrict \<noteq> CC_BANNED)"

subsection \<open>Size-1 reservoir sampling\<close>

text \<open>
  The loop
  \<^verbatim>\<open>
    int good_choices = 0;
    for (candidate c : candidates)
        if (pred(c) && one_chance_in(++good_choices))
            field = value(c);
  \<close>
  occurs at lines 238-246 and 262-270 (species), 295-304 (jobs) and 1745-1753
  (weapons). The state of the loop is the counter, the field being assigned, and the
  random source. The right operand of \<^verbatim>\<open>&&\<close> runs only for a candidate that satisfies
  the predicate, so only those candidates increment the counter and draw.
\<close>

fun reservoir :: "('c \<Rightarrow> bool) \<Rightarrow> ('c \<Rightarrow> 'v) \<Rightarrow> 'c list \<Rightarrow> nat \<times> 'v \<times> rng \<Rightarrow> nat \<times> 'v \<times> rng" where
  "reservoir pred val [] st = st"
| "reservoir pred val (c # cs) (good_choices, field, g) =
     (if pred c then
        (case one_chance_in (Suc good_choices) g of
           (hit, g') \<Rightarrow> reservoir pred val cs (Suc good_choices, if hit then val c else field, g'))
      else reservoir pred val cs (good_choices, field, g))"

text \<open>
  Lines 322-332: the same loop over the jobs, with
  \<^verbatim>\<open>ASSERT(is_starting_job(job))\<close> in the body of the \<^verbatim>\<open>if\<close>.
\<close>

fun reservoir_jobs :: "(job_type \<Rightarrow> bool) \<Rightarrow> job_type list \<Rightarrow> nat \<times> job_type \<times> rng
    \<Rightarrow> exit_reason + nat \<times> job_type \<times> rng" where
  "reservoir_jobs pred [] st = Inr st"
| "reservoir_jobs pred (c # cs) (good_choices, field, g) =
     (if pred c then
        (case one_chance_in (Suc good_choices) g of
           (hit, g') \<Rightarrow>
             if hit then
               (if \<not> is_starting_job c then Inl (Assert_failed ''is_starting_job(job)'')
                else reservoir_jobs pred cs (Suc good_choices, c, g'))
             else reservoir_jobs pred cs (Suc good_choices, field, g'))
      else reservoir_jobs pred cs (good_choices, field, g))"

subsection \<open>Resolving one field\<close>

text \<open>
  Lines 255-257: \<^verbatim>\<open>do { ng.species = RANDOM_ELEMENT(species_order); }
  while (!is_starting_species(ng.species));\<close>, where \<^verbatim>\<open>RANDOM_ELEMENT(x)\<close> is
  \<^verbatim>\<open>x[random2(ARRAYSZ(x))]\<close>. The result is the species of the last iteration; \<open>None\<close> is
  a loop that never exits.
\<close>

partial_function (option) random_species_loop :: "rng \<Rightarrow> (species_type \<times> rng) option" where
  "random_species_loop g =
     (case random2 (length species_order) g of
        (i, g') \<Rightarrow>
          if \<not> is_starting_species (species_order ! i) then random_species_loop g'
          else Some (species_order ! i, g'))"

text \<open>Lines 313-317: \<^verbatim>\<open>do { ng.job = job_type(random2(NUM_JOBS)); }
  while (!is_starting_job(ng.job));\<close>\<close>

partial_function (option) random_job_loop :: "ext \<Rightarrow> rng \<Rightarrow> (job_type \<times> rng) option" where
  "random_job_loop env g =
     (case random2 (NUM_JOBS env) g of
        (i, g') \<Rightarrow>
          if \<not> is_starting_job (job_of_int env (int i)) then random_job_loop env g'
          else Some (job_of_int env (int i), g'))"

text \<open>The body of \<^verbatim>\<open>case SP_RANDOM:\<close>, lines 251-274, which \<^verbatim>\<open>case SP_VIABLE:\<close>
  falls through to.\<close>

definition resolve_species_random :: "ext \<Rightarrow> newgame_def \<Rightarrow> rng
    \<Rightarrow> (exit_reason + newgame_def \<times> rng) option" where
  "resolve_species_random env ng g =
     (if job ng = JOB_UNKNOWN then
        (case random_species_loop g of
           None \<Rightarrow> None
         | Some (sp, g') \<Rightarrow> Some (Inr (ng\<lparr>species := sp\<rparr>, g')))
      else
        (case reservoir (\<lambda>sp. is_good_combination env sp (job ng) False False) (\<lambda>sp. sp)
                species_order (0, species ng, g) of
           (good_choices, sp, g') \<Rightarrow>
             if good_choices = 0 then Some (Inl (End 1 ''Failed to find legal species.''))
             else Some (Inr (ng\<lparr>species := sp\<rparr>, g'))))"

definition resolve_species :: "ext \<Rightarrow> newgame_def \<Rightarrow> newgame_def \<Rightarrow> rng
    \<Rightarrow> (exit_reason + newgame_def \<times> rng) option" where
  "resolve_species env ng ng_choice g =
     (if species ng \<noteq> SP_UNKNOWN then Some (Inr (ng, g))
      else if species ng_choice = SP_UNKNOWN then Some (Inr (ng\<lparr>species := SP_UNKNOWN\<rparr>, g))
      else if species ng_choice = SP_VIABLE then
        (case reservoir (\<lambda>sp. is_good_combination env sp (job ng) False True) (\<lambda>sp. sp)
                species_order (0, species ng, g) of
           (good_choices, sp, g') \<Rightarrow>
             if good_choices \<noteq> 0 then Some (Inr (ng\<lparr>species := sp\<rparr>, g'))
             else resolve_species_random env (ng\<lparr>species := sp\<rparr>) g')
      else if species ng_choice = SP_RANDOM then resolve_species_random env ng g
      else Some (Inr (ng\<lparr>species := species ng_choice\<rparr>, g)))"

text \<open>The candidates of the job loops: \<^verbatim>\<open>job_type(i)\<close> for \<^verbatim>\<open>i\<close> from 0 below
  \<^verbatim>\<open>NUM_JOBS\<close>.\<close>

definition all_jobs :: "ext \<Rightarrow> job_type list" where
  "all_jobs env = map (\<lambda>i. job_of_int env (int i)) [0..<NUM_JOBS env]"

definition resolve_job_random :: "ext \<Rightarrow> newgame_def \<Rightarrow> rng
    \<Rightarrow> (exit_reason + newgame_def \<times> rng) option" where
  "resolve_job_random env ng g =
     (if species ng = SP_UNKNOWN then
        (case random_job_loop env g of
           None \<Rightarrow> None
         | Some (j, g') \<Rightarrow> Some (Inr (ng\<lparr>job := j\<rparr>, g')))
      else
        (case reservoir_jobs (\<lambda>j. is_good_combination env (species ng) j True False)
                (all_jobs env) (0, job ng, g) of
           Inl e \<Rightarrow> Some (Inl e)
         | Inr (good_choices, j, g') \<Rightarrow>
             if good_choices = 0 then Some (Inl (End 1 ''Failed to find legal background.''))
             else Some (Inr (ng\<lparr>job := j\<rparr>, g'))))"

definition resolve_job :: "ext \<Rightarrow> newgame_def \<Rightarrow> newgame_def \<Rightarrow> rng
    \<Rightarrow> (exit_reason + newgame_def \<times> rng) option" where
  "resolve_job env ng ng_choice g =
     (if job ng \<noteq> JOB_UNKNOWN then Some (Inr (ng, g))
      else if job ng_choice = JOB_UNKNOWN then Some (Inr (ng\<lparr>job := JOB_UNKNOWN\<rparr>, g))
      else if job ng_choice = JOB_VIABLE then
        (case reservoir (\<lambda>j. is_good_combination env (species ng) j True True) (\<lambda>j. j)
                (all_jobs env) (0, job ng, g) of
           (good_choices, j, g') \<Rightarrow>
             if good_choices \<noteq> 0 then Some (Inr (ng\<lparr>job := j\<rparr>, g'))
             else resolve_job_random env (ng\<lparr>job := j\<rparr>) g')
      else if job ng_choice = JOB_RANDOM then resolve_job_random env ng g
      else Some (Inr (ng\<lparr>job := job ng_choice\<rparr>, g)))"

subsection \<open>Resolving species and job together\<close>

text \<open>
  Lines 350-354: the condition \<^verbatim>\<open>spfirst || !jobfirst && coinflip()\<close>. The coin is
  flipped only when the operands before it leave the result open.
\<close>

definition species_first :: "newgame_def \<Rightarrow> rng \<Rightarrow> bool \<times> rng" where
  "species_first ng_choice g =
     (let spfirst = (species ng_choice \<noteq> SP_VIABLE \<and> job ng_choice = JOB_VIABLE);
          jobfirst = (species ng_choice = SP_VIABLE \<and> job ng_choice \<noteq> JOB_VIABLE)
      in if spfirst then (True, g)
         else if \<not> jobfirst then coinflip g
         else (False, g))"

text \<open>Sequencing of two steps, each of which may end the process or never return.\<close>

abbreviation and_then :: "(exit_reason + 'a) option \<Rightarrow> ('a \<Rightarrow> (exit_reason + 'b) option)
    \<Rightarrow> (exit_reason + 'b) option" where
  "and_then m f \<equiv> Option.bind m (\<lambda>r. case r of Inl e \<Rightarrow> Some (Inl e) | Inr x \<Rightarrow> f x)"

text \<open>Lines 356-357 and 361-362: the two orders.\<close>

definition species_then_job :: "ext \<Rightarrow> newgame_def \<Rightarrow> newgame_def \<Rightarrow> rng
    \<Rightarrow> (exit_reason + newgame_def \<times> rng) option" where
  "species_then_job env ng ng_choice g =
     and_then (resolve_species env ng ng_choice g)
       (\<lambda>(ng1, g1). resolve_job env ng1 ng_choice g1)"

definition job_then_species :: "ext \<Rightarrow> newgame_def \<Rightarrow> newgame_def \<Rightarrow> rng
    \<Rightarrow> (exit_reason + newgame_def \<times> rng) option" where
  "job_then_species env ng ng_choice g =
     and_then (resolve_job env ng ng_choice g)
       (\<lambda>(ng1, g1). resolve_species env ng1 ng_choice g1)"

definition resolve_species_job :: "ext \<Rightarrow> newgame_def \<Rightarrow> newgame_def \<Rightarrow> rng
    \<Rightarrow> (exit_reason + newgame_def \<times> rng) option" where
  "resolve_species_job env ng ng_choice g =
     (case species_first ng_choice g of
        (True, g1) \<Rightarrow> species_then_job env ng ng_choice g1
      | (False, g1) \<Rightarrow> job_then_species env ng ng_choice g1)"

subsection \<open>The weapon candidates\<close>

text \<open>\<^verbatim>\<open>typedef pair<weapon_type, char_choice_restriction> weapon_choice\<close>\<close>

type_synonym weapon_choice = "weapon_type \<times> char_choice_restriction"

definition fixup_weapon :: "weapon_type \<Rightarrow> weapon_choice list \<Rightarrow> weapon_type" where
  "fixup_weapon wp weapons =
     (if wp = WPN_UNKNOWN \<or> wp = WPN_RANDOM \<or> wp = WPN_VIABLE then wp
      else if list_ex (\<lambda>choice. wp = fst choice) weapons then wp
      else WPN_UNKNOWN)"

definition starting_weapon_upgrade :: "ext \<Rightarrow> weapon_type \<Rightarrow> job_type \<Rightarrow> species_type \<Rightarrow> weapon_type" where
  "starting_weapon_upgrade env wp jb sp =
     (let fighter = (jb = JOB_FIGHTER) in
      if wp = WPN_SHORT_SWORD then WPN_RAPIER
      else if wp = WPN_MACE then WPN_FLAIL
      else if wp = WPN_HAND_AXE then WPN_WAR_AXE
      else if wp = WPN_SPEAR then (if fighter \<and> torso_at_most_small env sp then wp else WPN_TRIDENT)
      else if wp = WPN_FALCHION then WPN_LONG_SWORD
      else wp)"

text \<open>
  \<^verbatim>\<open>_get_weapons\<close>: each loop runs over a fixed array, computes the restriction of the
  weapon and appends the pair unless it is banned.
\<close>

definition get_weapons :: "ext \<Rightarrow> newgame_def \<Rightarrow> weapon_choice list" where
  "get_weapons env ng =
     (if job_gets_ranged_weapons env (job ng) then
        filter (\<lambda>wp. snd wp \<noteq> CC_BANNED)
          (map (\<lambda>w. (w, weapon_restriction env w ng))
             [WPN_THROWN, WPN_HUNTING_SLING, WPN_SHORTBOW, WPN_HAND_CROSSBOW])
      else
        filter (\<lambda>wp. snd wp \<noteq> CC_BANNED)
          (map (\<lambda>w0. let w = (if job_gets_good_weapons env (job ng)
                               then starting_weapon_upgrade env w0 (job ng) (species ng)
                               else w0)
                      in (w, weapon_restriction env w ng))
             [WPN_SHORT_SWORD, WPN_MACE, WPN_HAND_AXE, WPN_SPEAR, WPN_FALCHION,
              WPN_QUARTERSTAFF, WPN_UNARMED]))"

text \<open>
  \<^verbatim>\<open>case WPN_RANDOM:\<close> of \<^verbatim>\<open>_resolve_weapon\<close>, line 1759, which \<^verbatim>\<open>case WPN_VIABLE:\<close>
  falls through to. Indexing an empty vector is \<open>Out_of_range\<close>.
\<close>

definition resolve_weapon_random :: "newgame_def \<Rightarrow> weapon_choice list \<Rightarrow> rng
    \<Rightarrow> exit_reason + newgame_def \<times> rng" where
  "resolve_weapon_random ng weapons g =
     (case random2 (length weapons) g of
        (i, g') \<Rightarrow>
          if i < length weapons then Inr (ng\<lparr>weapon := fst (weapons ! i)\<rparr>, g')
          else Inl Out_of_range)"

text \<open>The \<^verbatim>\<open>switch (weapon)\<close> of \<^verbatim>\<open>_resolve_weapon\<close>, lines 1741-1767. The default
  case reads \<^verbatim>\<open>ng_choice.weapon\<close>, not the local \<^verbatim>\<open>weapon\<close>.\<close>

definition resolve_weapon_switch :: "weapon_type \<Rightarrow> newgame_def \<Rightarrow> newgame_def
    \<Rightarrow> weapon_choice list \<Rightarrow> rng \<Rightarrow> exit_reason + newgame_def \<times> rng" where
  "resolve_weapon_switch wpn ng ng_choice weapons g =
     (if wpn = WPN_VIABLE then
        (case reservoir (\<lambda>choice. snd choice = CC_UNRESTRICTED) fst weapons (0, weapon ng, g) of
           (good_choices, wp, g') \<Rightarrow>
             if good_choices \<noteq> 0 then Inr (ng\<lparr>weapon := wp\<rparr>, g')
             else resolve_weapon_random (ng\<lparr>weapon := wp\<rparr>) weapons g')
      else if wpn = WPN_RANDOM then resolve_weapon_random ng weapons g
      else Inr (ng\<lparr>weapon := fixup_weapon (weapon ng_choice) weapons\<rparr>, g))"

text \<open>\<^verbatim>\<open>_resolve_weapon\<close>, lines 1729-1768.\<close>

definition resolve_weapon :: "newgame_def \<Rightarrow> newgame_def \<Rightarrow> weapon_choice list \<Rightarrow> rng
    \<Rightarrow> exit_reason + newgame_def \<times> rng" where
  "resolve_weapon ng ng_choice weapons g =
     (if allowed_weapons ng_choice \<noteq> [] then
        (case random2 (length (allowed_weapons ng_choice)) g of
           (i, g') \<Rightarrow> resolve_weapon_switch (allowed_weapons ng_choice ! i) ng ng_choice weapons g')
      else resolve_weapon_switch (weapon ng_choice) ng ng_choice weapons g)"

subsection \<open>The prompts\<close>

text \<open>
  Modelled from the spec: \<^verbatim>\<open>ui::run_layout\<close> and \<^verbatim>\<open>ui::pump_events\<close> are defined in
  ui.cc, which is not part of the sources at hand. Specification 5: a prompt is a
  blocking call that returns only when the user supplies a choice or cancels. So
  \<^verbatim>\<open>ui::run_layout(popup, done)\<close> and \<^verbatim>\<open>while (!done) ui::pump_events();\<close> hand the events
  to the handler one by one until the handler sets the flag. \<open>None\<close> is a player who
  never decides.
\<close>

partial_function (option) run_layout :: "('s \<Rightarrow> wm_event \<Rightarrow> 's) \<Rightarrow> ('s \<Rightarrow> bool) \<Rightarrow> 's
    \<Rightarrow> wm_event stream \<Rightarrow> ('s \<times> wm_event stream) option" where
  "run_layout handler finished st evs =
     (if finished st then Some (st, evs)
      else run_layout handler finished (handler st (shd evs)) (stl evs))"

text \<open>\<^verbatim>\<open>enum MenuOptions\<close> and \<^verbatim>\<open>enum MenuChoices\<close>, lines 81-99.\<close>

definition M_QUIT :: int where "M_QUIT = - 1"
definition M_ABORT :: int where "M_ABORT = - 2"
definition M_APTITUDES :: int where "M_APTITUDES = - 3"
definition M_HELP :: int where "M_HELP = - 4"
definition M_VIABLE :: int where "M_VIABLE = - 5"
definition M_RANDOM :: int where "M_RANDOM = - 6"
definition M_VIABLE_CHAR :: int where "M_VIABLE_CHAR = - 7"
definition M_RANDOM_CHAR :: int where "M_RANDOM_CHAR = - 8"
definition M_DEFAULT_CHOICE :: int where "M_DEFAULT_CHOICE = - 9"

datatype menu_choice = C_SPECIES | C_JOB

definition set_default_choice :: "newgame_def \<Rightarrow> newgame_def \<Rightarrow> newgame_def
    \<Rightarrow> newgame_def \<times> newgame_def" where
  "set_default_choice ng ng_choice defaults =
     (clear_character ng, defaults\<lparr>name := name ng_choice, gtype := gtype ng_choice\<rparr>)"

definition mark_fully_random :: "newgame_def \<Rightarrow> newgame_def \<Rightarrow> bool \<Rightarrow> newgame_def \<times> newgame_def" where
  "mark_fully_random ng ng_choice viable =
     (clear_character ng,
      if viable then ng_choice\<lparr>fully_random := True, species := SP_VIABLE, job := JOB_VIABLE\<rparr>
      else ng_choice\<lparr>fully_random := True, species := SP_RANDOM, job := JOB_RANDOM\<rparr>)"

text \<open>The members of \<^verbatim>\<open>UINewGameMenu\<close> that its handlers write.\<close>

record menu_state =
  m_done :: bool
  m_end_game :: bool
  m_cancel :: bool
  m_ng :: newgame_def
  m_ng_choice :: newgame_def

text \<open>\<^verbatim>\<open>UINewGameMenu::menu_item_activated\<close>, lines 1205-1274.\<close>

definition menu_item_activated :: "ext \<Rightarrow> menu_choice \<Rightarrow> newgame_def \<Rightarrow> int \<Rightarrow> menu_state
    \<Rightarrow> menu_state" where
  "menu_item_activated env m_choice_type m_defaults ident st =
     (if ident = M_VIABLE_CHAR \<or> ident = M_RANDOM_CHAR then
        (case mark_fully_random (m_ng st) (m_ng_choice st) (ident = M_VIABLE_CHAR) of
           (ng, ng_choice) \<Rightarrow> st\<lparr>m_ng := ng, m_ng_choice := ng_choice, m_done := True\<rparr>)
      else if ident = M_DEFAULT_CHOICE then
        (if char_defined m_defaults then
           (case set_default_choice (m_ng st) (m_ng_choice st) m_defaults of
              (ng, ng_choice) \<Rightarrow> st\<lparr>m_ng := ng, m_ng_choice := ng_choice, m_done := True\<rparr>)
         else st)
      else if ident = M_ABORT then
        st\<lparr>m_ng := (m_ng st)\<lparr>species := SP_UNKNOWN, job := JOB_UNKNOWN\<rparr>,
           m_ng_choice := (m_ng_choice st)\<lparr>species := SP_UNKNOWN, job := JOB_UNKNOWN\<rparr>,
           m_done := True\<rparr>
      else if ident = M_HELP then st
      else if ident = M_APTITUDES then st
      else if ident = M_VIABLE then
        (if m_choice_type = C_JOB
         then st\<lparr>m_ng_choice := (m_ng_choice st)\<lparr>job := JOB_VIABLE\<rparr>, m_done := True\<rparr>
         else st\<lparr>m_ng_choice := (m_ng_choice st)\<lparr>species := SP_VIABLE\<rparr>, m_done := True\<rparr>)
      else if ident = M_RANDOM then
        (if m_choice_type = C_JOB
         then st\<lparr>m_ng_choice := (m_ng_choice st)\<lparr>job := JOB_RANDOM\<rparr>, m_done := True\<rparr>
         else st\<lparr>m_ng_choice := (m_ng_choice st)\<lparr>species := SP_RANDOM\<rparr>, m_done := True\<rparr>)
      else if m_choice_type = C_JOB then
        (let jb = job_of_int env ident in
         if species (m_ng st) = SP_UNKNOWN \<or> job_allowed env (species (m_ng st)) jb \<noteq> CC_BANNED
         then st\<lparr>m_ng_choice := (m_ng_choice st)\<lparr>job := jb\<rparr>, m_done := True\<rparr>
         else st)
      else
        (let sp = species_of_int env ident in
         if job (m_ng st) = JOB_UNKNOWN \<or> species_allowed env (job (m_ng st)) sp \<noteq> CC_BANNED
         then st\<lparr>m_ng_choice := (m_ng_choice st)\<lparr>species := sp\<rparr>, m_done := True\<rparr>
         else st))"

text \<open>\<^verbatim>\<open>UINewGameMenu::on_event\<close>, lines 1166-1203, for a key-down event.\<close>

definition on_event :: "menu_choice \<Rightarrow> key \<Rightarrow> menu_state \<Rightarrow> menu_state" where
  "on_event m_choice_type keyn st =
     (if keyn \<noteq> CK_ENTER then
        (if keyn = Key CHR ''X'' \<or> keyn = CONTROL_Q then st\<lparr>m_done := True, m_end_game := True\<rparr>
         else if keyn = CK_ESCAPE \<or> keyn = CK_MOUSE_CMD then st\<lparr>m_done := True, m_cancel := True\<rparr>
         else if keyn = CK_BKSP then
           (if m_choice_type = C_JOB
            then st\<lparr>m_ng_choice := (m_ng_choice st)\<lparr>job := JOB_UNKNOWN\<rparr>, m_done := True\<rparr>
            else st\<lparr>m_ng_choice := (m_ng_choice st)\<lparr>species := SP_UNKNOWN\<rparr>, m_done := True\<rparr>)
         else st)
      else st)"

definition choice_menu_handler :: "ext \<Rightarrow> menu_choice \<Rightarrow> newgame_def \<Rightarrow> menu_state \<Rightarrow> wm_event
    \<Rightarrow> menu_state" where
  "choice_menu_handler env m_choice_type m_defaults st ev =
     (case ev of
        WME_KEYDOWN keyn \<Rightarrow> on_event m_choice_type keyn st
      | Button_activated ident \<Rightarrow> menu_item_activated env m_choice_type m_defaults ident st
      | WME_OTHER \<Rightarrow> st)"

text \<open>\<^verbatim>\<open>_prompt_choice\<close>, lines 1373-1389.\<close>

definition prompt_choice :: "ext \<Rightarrow> menu_choice \<Rightarrow> newgame_def \<Rightarrow> newgame_def \<Rightarrow> newgame_def
    \<Rightarrow> world \<Rightarrow> (exit_reason + newgame_def \<times> newgame_def \<times> world) option" where
  "prompt_choice env choice_type ng ng_choice defaults w =
     (case run_layout (choice_menu_handler env choice_type defaults) m_done
             \<lparr>m_done = False, m_end_game = False, m_cancel = False, m_ng = ng,
              m_ng_choice = ng_choice\<rparr> (events w) of
        None \<Rightarrow> None
      | Some (st, evs) \<Rightarrow>
          if m_end_game st then Some (Inl (End 0 []))
          else if m_cancel st \<or> seen_hups w then Some (Inl Game_ended_abort)
          else Some (Inr (m_ng st, m_ng_choice st,
                 w\<lparr>events := evs,
                   prompted := prompted w @
                     [if choice_type = C_JOB then Prompt_job else Prompt_species]\<rparr>)))"

text \<open>The state of \<^verbatim>\<open>_prompt_weapon\<close>, lines 1564-1661: the flags \<^verbatim>\<open>done\<close> and
  \<^verbatim>\<open>ret\<close>, whether the key filter has called \<^verbatim>\<open>end(0)\<close>, and \<^verbatim>\<open>ng_choice\<close>.\<close>

record weapon_menu_state =
  wm_done :: bool
  wm_ret :: bool
  wm_ended :: bool
  wm_ng_choice :: newgame_def

definition weapon_menu_handler :: "ext \<Rightarrow> weapon_type \<Rightarrow> weapon_menu_state \<Rightarrow> wm_event
    \<Rightarrow> weapon_menu_state" where
  "weapon_menu_handler env defweapon st ev =
     (case ev of
        WME_KEYDOWN keyn \<Rightarrow>
          if keyn = Key CHR ''X'' \<or> keyn = CONTROL_Q then st\<lparr>wm_ended := True, wm_done := True\<rparr>
          else if keyn = Key CHR '' '' \<or> keyn = CK_ESCAPE \<or> keyn = CK_MOUSE_CMD
            then st\<lparr>wm_ret := False, wm_done := True\<rparr>
          else st
      | Button_activated ident \<Rightarrow>
          if ident = M_ABORT then st\<lparr>wm_ret := False, wm_done := True\<rparr>
          else if ident = M_APTITUDES then st
          else if ident = M_HELP then st
          else if ident = M_DEFAULT_CHOICE then
            (if defweapon \<noteq> WPN_UNKNOWN
             then st\<lparr>wm_ng_choice := (wm_ng_choice st)\<lparr>weapon := defweapon\<rparr>,
                    wm_ret := True, wm_done := True\<rparr>
             else st)
          else if ident = M_VIABLE
            then st\<lparr>wm_ng_choice := (wm_ng_choice st)\<lparr>weapon := WPN_VIABLE\<rparr>,
                   wm_ret := True, wm_done := True\<rparr>
          else if ident = M_RANDOM
            then st\<lparr>wm_ng_choice := (wm_ng_choice st)\<lparr>weapon := WPN_RANDOM\<rparr>,
                   wm_ret := True, wm_done := True\<rparr>
          else st\<lparr>wm_ng_choice := (wm_ng_choice st)\<lparr>weapon := weapon_of_int env ident\<rparr>,
                 wm_ret := True, wm_done := True\<rparr>
      | WME_OTHER \<Rightarrow> st)"

definition prompt_weapon :: "ext \<Rightarrow> newgame_def \<Rightarrow> newgame_def \<Rightarrow> newgame_def
    \<Rightarrow> weapon_choice list \<Rightarrow> world \<Rightarrow> (exit_reason + bool \<times> newgame_def \<times> world) option" where
  "prompt_weapon env ng ng_choice defaults weapons w =
     (case run_layout (weapon_menu_handler env (fixup_weapon (weapon defaults) weapons)) wm_done
             \<lparr>wm_done = False, wm_ret = False, wm_ended = False, wm_ng_choice = ng_choice\<rparr>
             (events w) of
        None \<Rightarrow> None
      | Some (st, evs) \<Rightarrow>
          if wm_ended st then Some (Inl (End 0 []))
          else Some (Inr (wm_ret st, wm_ng_choice st,
                 w\<lparr>events := evs, prompted := prompted w @ [Prompt_weapon]\<rparr>)))"

text \<open>
  \<^verbatim>\<open>_reroll_random\<close>, lines 417-450: the first key pressed is the answer.
  \<^verbatim>\<open>toalower(c) == 'q'\<close> holds for \<^verbatim>\<open>q\<close> and \<^verbatim>\<open>Q\<close>.
\<close>

definition reroll_handler :: "key option \<Rightarrow> wm_event \<Rightarrow> key option" where
  "reroll_handler c ev = (case ev of WME_KEYDOWN keyn \<Rightarrow> Some keyn | _ \<Rightarrow> c)"

definition reroll_random :: "newgame_def \<Rightarrow> world \<Rightarrow> (exit_reason + bool \<times> world) option" where
  "reroll_random ng w =
     (case run_layout reroll_handler (\<lambda>c. c \<noteq> None) None (events w) of
        None \<Rightarrow> None
      | Some (None, evs) \<Rightarrow> None
      | Some (Some c, evs) \<Rightarrow>
          if c = CK_ESCAPE \<or> c = Key CHR ''q'' \<or> c = Key CHR ''Q'' \<or> seen_hups w
          then Some (Inl Game_ended_abort)
          else Some (Inr (c = Key CHR ''n'' \<or> c = Key CHR ''N'' \<or> c = CK_TAB
                            \<or> c = Key CHR ''!'' \<or> c = Key CHR ''#'',
                 w\<lparr>events := evs, prompted := prompted w @ [Prompt_reroll]\<rparr>)))"

subsection \<open>Choosing species and job\<close>

definition is_random_viable_choice :: "newgame_def \<Rightarrow> bool" where
  "is_random_viable_choice choice \<longleftrightarrow>
     is_random_choice choice \<and> (job choice = JOB_VIABLE \<or> species choice = SP_VIABLE)"

definition char_description :: "ext \<Rightarrow> newgame_def \<Rightarrow> string" where
  "char_description env ng =
     (if is_random_viable_choice ng then ''Recommended character''
      else if is_random_choice ng then ''Random character''
      else if is_random_job (job ng) then
        (if job ng = JOB_RANDOM then ''Random '' else ''Recommended '') @ species_name env (species ng)
      else if is_random_species (species ng) then
        (if species ng = SP_RANDOM then ''Random '' else ''Recommended '') @ get_job_name env (job ng)
      else species_name env (species ng) @ '' '' @ get_job_name env (job ng))"

text \<open>\<^verbatim>\<open>_resolve_species_job\<close> on the random source of the world.\<close>

definition resolve_species_job_w :: "ext \<Rightarrow> newgame_def \<Rightarrow> newgame_def \<Rightarrow> world
    \<Rightarrow> (exit_reason + newgame_def \<times> world) option" where
  "resolve_species_job_w env ng ng_choice w =
     and_then (resolve_species_job env ng ng_choice (gen w))
       (\<lambda>(ng', g'). Some (Inr (ng', w\<lparr>gen := g'\<rparr>)))"

text \<open>The \<^verbatim>\<open>while\<close> loop of \<^verbatim>\<open>_choose_species_job\<close>, lines 392-404.\<close>

partial_function (option) choose_species_job_loop :: "ext \<Rightarrow> newgame_def \<Rightarrow> newgame_def
    \<Rightarrow> newgame_def \<Rightarrow> world \<Rightarrow> (exit_reason + newgame_def \<times> newgame_def \<times> world) option" where
  "choose_species_job_loop env defaults ng ng_choice w =
     (if species ng_choice = SP_UNKNOWN \<or> job ng_choice = JOB_UNKNOWN then
        and_then (if species ng_choice = SP_UNKNOWN
                  then prompt_choice env C_SPECIES ng ng_choice defaults w
                  else Some (Inr (ng, ng_choice, w)))
          (\<lambda>(ng1, ng_choice1, w1).
        and_then (resolve_species_job_w env ng1 ng_choice1 w1)
          (\<lambda>(ng2, w2).
        and_then (if job ng_choice1 = JOB_UNKNOWN
                  then prompt_choice env C_JOB ng2 ng_choice1 defaults w2
                  else Some (Inr (ng2, ng_choice1, w2)))
          (\<lambda>(ng3, ng_choice3, w3).
        and_then (resolve_species_job_w env ng3 ng_choice3 w3)
          (\<lambda>(ng4, w4). choose_species_job_loop env defaults ng4 ng_choice3 w4))))
      else Some (Inr (ng, ng_choice, w)))"

text \<open>\<^verbatim>\<open>_choose_species_job\<close> up to the end of its loop, and the check that follows
  (lines 406-412).\<close>

definition choose_species_job_resolved :: "ext \<Rightarrow> newgame_def \<Rightarrow> newgame_def \<Rightarrow> newgame_def
    \<Rightarrow> world \<Rightarrow> (exit_reason + newgame_def \<times> newgame_def \<times> world) option" where
  "choose_species_job_resolved env ng ng_choice defaults w =
     and_then (resolve_species_job_w env ng ng_choice w)
       (\<lambda>(ng1, w1). choose_species_job_loop env defaults ng1 ng_choice w1)"

definition choose_species_job :: "ext \<Rightarrow> newgame_def \<Rightarrow> newgame_def \<Rightarrow> newgame_def
    \<Rightarrow> world \<Rightarrow> (exit_reason + newgame_def \<times> newgame_def \<times> world) option" where
  "choose_species_job env ng ng_choice defaults w =
     and_then (choose_species_job_resolved env ng ng_choice defaults w)
       (\<lambda>(ng1, ng_choice1, w1).
          if job_allowed env (species ng1) (job ng1) = CC_BANNED then
            Some (Inl (End 1 (''Incompatible species and background ('' @
                              char_description env ng1 @ '') selected.'')))
          else Some (Inr (ng1, ng_choice1, w1)))"

subsection \<open>Choosing the weapon\<close>

text \<open>\<^verbatim>\<open>_resolve_weapon\<close> on the random source of the world.\<close>

definition resolve_weapon_w :: "newgame_def \<Rightarrow> newgame_def \<Rightarrow> weapon_choice list \<Rightarrow> world
    \<Rightarrow> (exit_reason + newgame_def \<times> world) option" where
  "resolve_weapon_w ng ng_choice weapons w =
     (case resolve_weapon ng ng_choice weapons (gen w) of
        Inl e \<Rightarrow> Some (Inl e)
      | Inr (ng', g') \<Rightarrow> Some (Inr (ng', w\<lparr>gen := g'\<rparr>)))"

text \<open>\<^verbatim>\<open>_choose_weapon\<close>, lines 1773-1801. The result carries the returned flag, the two
  records and the world.\<close>

definition choose_weapon :: "ext \<Rightarrow> newgame_def \<Rightarrow> newgame_def \<Rightarrow> newgame_def \<Rightarrow> world
    \<Rightarrow> (exit_reason + bool \<times> newgame_def \<times> newgame_def \<times> world) option" where
  "choose_weapon env ng ng_choice defaults w =
     (if species ng = SP_FELID then Some (Inr (True, ng, ng_choice, w))
      else if \<not> job_has_weapon_choice env (job ng) then Some (Inr (True, ng, ng_choice, w))
      else
        (let weapons = get_weapons env ng in
         if weapons = [] then Some (Inl (Assert_failed ''!weapons.empty()''))
         else if length weapons = 1 then
           Some (Inr (True, ng\<lparr>weapon := fst (weapons ! 0)\<rparr>,
                      ng_choice\<lparr>weapon := fst (weapons ! 0)\<rparr>, w))
         else
           and_then (resolve_weapon_w ng ng_choice weapons w)
             (\<lambda>(ng1, w1).
                if weapon ng1 = WPN_UNKNOWN then
                  and_then (prompt_weapon env ng1 ng_choice defaults weapons w1)
                    (\<lambda>(ret, ng_choice2, w2).
                       if \<not> ret then Some (Inr (False, ng1, ng_choice2, w2))
                       else
                         and_then (resolve_weapon_w ng1 ng_choice2 weapons w2)
                           (\<lambda>(ng3, w3). Some (Inr (True, ng3, ng_choice2, w3))))
                else Some (Inr (True, ng1, ng_choice, w1)))))"

subsection \<open>Choosing the character\<close>

text \<open>
  Lines 513-525 of \<^verbatim>\<open>_choose_char\<close>: the loop that looks for the first species whose name
  is a prefix of the combo string. It returns the last value of \<^verbatim>\<open>sp\<close> and whether the
  loop left by \<^verbatim>\<open>break\<close>.
\<close>

fun species_prefix_loop :: "ext \<Rightarrow> string \<Rightarrow> nat list \<Rightarrow> species_type \<Rightarrow> species_type \<times> bool" where
  "species_prefix_loop env character [] sp = (sp, False)"
| "species_prefix_loop env character (i # is) sp =
     (let sp' = species_of_int env (int i) in
      if length (species_name env sp') \<le> length character
         \<and> take (length (species_name env sp')) character = species_name env sp'
      then (sp', True)
      else species_prefix_loop env character is sp')"

text \<open>
  Lines 497-539: reading one combo string into the choice. \<^verbatim>\<open>substr(pos)\<close> with
  \<^verbatim>\<open>pos\<close> past the end of the string throws.
\<close>

definition parse_combo :: "ext \<Rightarrow> string \<Rightarrow> newgame_def \<Rightarrow> exit_reason + newgame_def" where
  "parse_combo env combo choice =
     (let parts = split_string env ''.'' combo in
      if 0 < length parts then
        (let character = trim_string env (parts ! 0) in
         case
           (if length character = 4 then
              Inr (choice\<lparr>species := get_species_by_abbrev env (take 2 character),
                          job := get_job_by_abbrev env (take 2 (drop 2 character))\<rparr>)
            else
              (case species_prefix_loop env character [0..<NUM_SPECIES env] SP_UNKNOWN of
                 (sp, found) \<Rightarrow>
                   let choice1 = (if found then choice\<lparr>species := sp\<rparr> else choice) in
                   if sp \<noteq> SP_UNKNOWN then
                     (if length character < length (species_name env sp) then Inl Out_of_range
                      else Inr (choice1\<lparr>job := str_to_job env (trim_string env
                                  (drop (length (species_name env sp)) character))\<rparr>))
                   else Inr choice1))
         of
           Inl e \<Rightarrow> Inl e
         | Inr choice2 \<Rightarrow>
             if 1 < length parts
             then Inr (choice2\<lparr>weapon := str_to_weapon env (trim_string env (parts ! 1))\<rparr>)
             else Inr choice2)
      else Inr choice)"

text \<open>Lines 489-560: the allow-lists overwrite the choice at the start of each pass.\<close>

definition apply_allowed :: "ext \<Rightarrow> newgame_def \<Rightarrow> rng \<Rightarrow> exit_reason + newgame_def \<times> rng" where
  "apply_allowed env choice g =
     (if allowed_combos choice \<noteq> [] then
        (case random2 (length (allowed_combos choice)) g of
           (i, g') \<Rightarrow>
             (case parse_combo env (allowed_combos choice ! i)
                     (choice\<lparr>species := SP_UNKNOWN, job := JOB_UNKNOWN, weapon := WPN_UNKNOWN\<rparr>) of
                Inl e \<Rightarrow> Inl e
              | Inr choice1 \<Rightarrow> Inr (choice1, g')))
      else
        (case (if allowed_species choice \<noteq> [] then
                 (case random2 (length (allowed_species choice)) g of
                    (i, g') \<Rightarrow> (choice\<lparr>species := allowed_species choice ! i\<rparr>, g'))
               else (choice, g)) of
           (choice1, g1) \<Rightarrow>
        (case (if allowed_jobs choice1 \<noteq> [] then
                 (case random2 (length (allowed_jobs choice1)) g1 of
                    (i, g') \<Rightarrow> (choice1\<lparr>job := allowed_jobs choice1 ! i\<rparr>, g'))
               else (choice1, g1)) of
           (choice2, g2) \<Rightarrow>
        (case (if allowed_weapons choice2 \<noteq> [] then
                 (case random2 (length (allowed_weapons choice2)) g2 of
                    (i, g') \<Rightarrow> (choice2\<lparr>weapon := allowed_weapons choice2 ! i\<rparr>, g'))
               else (choice2, g2)) of
           (choice3, g3) \<Rightarrow> Inr (choice3, g3)))))"

text \<open>
  One pass of the \<^verbatim>\<open>while (true)\<close> loop of \<^verbatim>\<open>_choose_char\<close> in two parts: lines
  489-562, from the allow-lists to the return of \<^verbatim>\<open>_choose_species_job\<close>, and the
  condition \<^verbatim>\<open>choice.fully_random && _reroll_random(ng)\<close> of line 564, which asks the
  player only in fully-random mode.
\<close>

definition resolve_pass :: "ext \<Rightarrow> newgame_def \<Rightarrow> newgame_def \<Rightarrow> newgame_def \<Rightarrow> world
    \<Rightarrow> (exit_reason + newgame_def \<times> newgame_def \<times> world) option" where
  "resolve_pass env ng choice defaults w =
     (case apply_allowed env choice (gen w) of
        Inl e \<Rightarrow> Some (Inl e)
      | Inr (choice1, g1) \<Rightarrow> choose_species_job env ng choice1 defaults (w\<lparr>gen := g1\<rparr>))"

definition reroll_pass :: "ext \<Rightarrow> newgame_def \<Rightarrow> newgame_def \<Rightarrow> newgame_def \<Rightarrow> world
    \<Rightarrow> (exit_reason + newgame_def \<times> newgame_def \<times> bool \<times> world) option" where
  "reroll_pass env ng choice defaults w =
     and_then (resolve_pass env ng choice defaults w)
       (\<lambda>(ng2, choice2, w2).
          and_then (if fully_random choice2 then reroll_random ng2 w2
                    else Some (Inr (False, w2)))
            (\<lambda>(reroll, w3). Some (Inr (ng2, choice2, reroll, w3))))"

text \<open>
  The \<^verbatim>\<open>while (true)\<close> loop of \<^verbatim>\<open>_choose_char\<close>, lines 487-580. \<open>ng_reset\<close> is the copy
  of \<open>ng\<close> taken on entry. The loop returns the two records it writes through its
  reference parameters; \<open>defaults\<close> is a local copy.
\<close>

partial_function (option) choose_char_loop :: "ext \<Rightarrow> newgame_def \<Rightarrow> newgame_def
    \<Rightarrow> newgame_def \<Rightarrow> newgame_def \<Rightarrow> world
    \<Rightarrow> (exit_reason + newgame_def \<times> newgame_def \<times> world) option" where
  "choose_char_loop env ng_reset ng choice defaults w =
     and_then (reroll_pass env ng choice defaults w)
       (\<lambda>(ng2, choice2, reroll, w3).
          if reroll then choose_char_loop env ng_reset ng_reset choice2 defaults w3
          else
            and_then (choose_weapon env ng2 choice2 defaults w3)
              (\<lambda>(chosen, ng4, choice4, w4).
                 if chosen then Some (Inr (ng4, choice4, w4))
                 else choose_char_loop env ng_reset ng_reset ng_reset choice4 w4))"

text \<open>
  \<^verbatim>\<open>_choose_char\<close>, lines 452-581, in a build without \<^verbatim>\<open>DGAMELAUNCH\<close> and
  \<^verbatim>\<open>TOURNEY\<close>.
\<close>

definition choose_char :: "ext \<Rightarrow> newgame_def \<Rightarrow> newgame_def \<Rightarrow> newgame_def \<Rightarrow> world
    \<Rightarrow> (exit_reason + newgame_def \<times> newgame_def \<times> world) option" where
  "choose_char env ng choice defaults w =
     and_then
       (if gtype ng = GAME_TYPE_TUTORIAL then
          Some (Inr ((choose_tutorial_character choice)
                       \<lparr>allowed_jobs := [], allowed_species := [], allowed_weapons := []\<rparr>, w))
        else if gtype ng = GAME_TYPE_HINTS then
          and_then (pick_hints env choice w)
            (\<lambda>(choice1, w1).
               Some (Inr (choice1\<lparr>allowed_jobs := [], allowed_species := [],
                                  allowed_weapons := []\<rparr>, w1)))
        else Some (Inr (choice, w)))
       (\<lambda>(choice1, w1). choose_char_loop env ng ng choice1 defaults w1)"

subsection \<open>Counting the outcomes of random draws\<close>

text \<open>
  The \<open>m\<close> successive calls \<^verbatim>\<open>random2(k + 1)\<close>, \<^verbatim>\<open>random2(k + 2)\<close>, \<dots>, 
  \<^verbatim>\<open>random2(k + m)\<close> of a reservoir loop that starts with the counter at \<open>k\<close> have
  \<open>(k + 1) \<cdot> (k + 2) \<cdots> (k + m)\<close> equally likely sequences of results. \<open>outcomes k m\<close>
  lists them, and the probability of an event is the share of the sequences in which it
  holds.
\<close>

fun outcomes :: "nat \<Rightarrow> nat \<Rightarrow> nat list list" where
  "outcomes k 0 = [[]]"
| "outcomes k (Suc m) = concat (map (\<lambda>r. map ((#) r) (outcomes (Suc k) m)) [0..<Suc k])"

definition prob :: "'a list \<Rightarrow> ('a \<Rightarrow> bool) \<Rightarrow> rat" where
  "prob space ev = of_nat (length (filter ev space)) / of_nat (length space)"

text \<open>The number of outcome sequences after which the loop has assigned \<open>v\<close>.\<close>

definition hits :: "('c \<Rightarrow> bool) \<Rightarrow> ('c \<Rightarrow> 'v) \<Rightarrow> 'c list \<Rightarrow> nat \<Rightarrow> 'v \<Rightarrow> rng \<Rightarrow> 'v \<Rightarrow> nat" where
  "hits pred val cs k s t v =
     length (filter (\<lambda>rs. fst (snd (reservoir pred val cs (k, s, rs @- t))) = v)
       (outcomes k (length (filter pred cs))))"


subsection \<open>Which field is resolved last\<close>

text \<open>The two fields of the pair, the field that \<^verbatim>\<open>_resolve_species_job\<close> resolves
  second, and whether a field of the request carries the VIABLE placeholder.\<close>

datatype field = Species | Job

definition resolved_last :: "newgame_def \<Rightarrow> rng \<Rightarrow> field" where
  "resolved_last ng_choice g = (if fst (species_first ng_choice g) then Job else Species)"

fun carries_viable :: "newgame_def \<Rightarrow> field \<Rightarrow> bool" where
  "carries_viable ng_choice Species = (species ng_choice = SP_VIABLE)"
| "carries_viable ng_choice Job = (job ng_choice = JOB_VIABLE)"

text \<open>The job that pass \<open>n\<close> (from 0) of the loop of lines 313-317 draws.\<close>

definition drawn_job :: "ext \<Rightarrow> rng \<Rightarrow> nat \<Rightarrow> job_type" where
  "drawn_job env g n = job_of_int env (int (fst (random2 (NUM_JOBS env) (sdrop n g))))"

text \<open>
  The records and the world at the start of the pass that follows \<open>n\<close> rejections in a
  row, from the records and the world at the start of a pass. \<open>None\<close>: some pass among
  the \<open>n\<close> did not end with a rejection.
\<close>

fun after_rejections :: "ext \<Rightarrow> newgame_def \<Rightarrow> newgame_def \<Rightarrow> nat
    \<Rightarrow> newgame_def \<times> newgame_def \<times> world \<Rightarrow> (newgame_def \<times> newgame_def \<times> world) option" where
  "after_rejections env ng_reset defaults 0 st = Some st"
| "after_rejections env ng_reset defaults (Suc n) st =
     (case after_rejections env ng_reset defaults n st of
        None \<Rightarrow> None
      | Some (ng, choice, w) \<Rightarrow>
          (case reroll_pass env ng choice defaults w of
             Some (Inr (ng2, choice2, True, w3)) \<Rightarrow> Some (ng_reset, choice2, w3)
           | _ \<Rightarrow> None))"

subsection \<open>Concrete collaborators and inputs\<close>

text \<open>
  A small instance of the external collaborators: three job enumerators, of which the
  first is no starting job, two species enumerators, an oracle that bans the jobs that
  are no starting jobs and recommends every other combination, and a weapon choice for
  fighters only.
\<close>

definition ext0 :: ext where
  "ext0 = \<lparr>job_allowed = (\<lambda>sp jb. if is_starting_job jb then CC_UNRESTRICTED else CC_BANNED),
           species_allowed = (\<lambda>jb sp. if is_starting_job jb then CC_UNRESTRICTED else CC_BANNED),
           weapon_restriction = (\<lambda>wp ng. CC_UNRESTRICTED),
           NUM_JOBS = 3,
           NUM_SPECIES = 2,
           job_of_int = (\<lambda>i. if i = 0 then JOB_OTHER 0 else if i = 1 then JOB_FIGHTER else JOB_WIZARD),
           species_of_int = (\<lambda>i. if i = 0 then SP_HUMAN else SP_FELID),
           weapon_of_int = (\<lambda>i. if i = 0 then WPN_MACE else WPN_SPEAR),
           job_gets_ranged_weapons = (\<lambda>jb. False),
           job_gets_good_weapons = (\<lambda>jb. False),
           job_has_weapon_choice = (\<lambda>jb. jb = JOB_FIGHTER),
           torso_at_most_small = (\<lambda>sp. False),
           species_name = (\<lambda>sp. if sp = SP_HUMAN then ''Human'' else ''Felid''),
           get_job_name = (\<lambda>jb. if jb = JOB_FIGHTER then ''Fighter'' else ''Wizard''),
           get_species_by_abbrev = (\<lambda>s. if s = ''Hu'' then SP_HUMAN else SP_UNKNOWN),
           get_job_by_abbrev = (\<lambda>s. if s = ''Fi'' then JOB_FIGHTER else JOB_UNKNOWN),
           str_to_job = (\<lambda>s. if s = ''Fighter'' then JOB_FIGHTER else JOB_UNKNOWN),
           str_to_weapon = (\<lambda>s. if s = ''mace'' then WPN_MACE else WPN_UNKNOWN),
           split_string = (\<lambda>sep s. [s]),
           trim_string = (\<lambda>s. s),
           pick_hints = (\<lambda>choice w. Some (Inr (choice, w)))\<rparr>"

text \<open>The same with an oracle that bans every combination.\<close>

definition ext_banned :: ext where
  "ext_banned = ext0\<lparr>job_allowed := (\<lambda>sp jb. CC_BANNED),
                      species_allowed := (\<lambda>jb sp. CC_BANNED)\<rparr>"

text \<open>The same with an oracle under which no combination is unrestricted and only
  trolls are banned from being fighters.\<close>

definition ext_restricted :: ext where
  "ext_restricted = ext0\<lparr>
     job_allowed := (\<lambda>sp jb. if sp = SP_TROLL \<and> jb = JOB_FIGHTER then CC_BANNED else CC_RESTRICTED),
     species_allowed := (\<lambda>jb sp. if sp = SP_TROLL \<and> jb = JOB_FIGHTER then CC_BANNED else CC_RESTRICTED)\<rparr>"

text \<open>The same with a graded oracle: trolls and nagas are recommended for every job,
  humans are allowed, every other species is banned; fighters are recommended for every
  species, wizards are allowed, every other job is banned.\<close>

definition ext_graded :: ext where
  "ext_graded = ext0\<lparr>
     job_allowed := (\<lambda>sp jb. if jb = JOB_FIGHTER then CC_UNRESTRICTED
                           else if jb = JOB_WIZARD then CC_RESTRICTED else CC_BANNED),
     species_allowed := (\<lambda>jb sp. if sp = SP_TROLL \<or> sp = SP_NAGA then CC_UNRESTRICTED
                               else if sp = SP_HUMAN then CC_RESTRICTED else CC_BANNED)\<rparr>"

text \<open>The same with an oracle that bans the jobs that are no starting jobs and
  allows, without recommending it, every other combination.\<close>

definition ext_allowed :: ext where
  "ext_allowed = ext0\<lparr>
     job_allowed := (\<lambda>sp jb. if is_starting_job jb then CC_RESTRICTED else CC_BANNED),
     species_allowed := (\<lambda>jb sp. if is_starting_job jb then CC_RESTRICTED else CC_BANNED)\<rparr>"

text \<open>A world whose random source yields 0 for ever and in which nobody touches the
  keyboard.\<close>

definition world0 :: world where
  "world0 = \<lparr>gen = sconst 0, events = sconst WME_OTHER, seen_hups = False, prompted = []\<rparr>"

text \<open>A fully random request, a fully-random request that leaves the species open, and
  a world whose random source yields 1 for ever.\<close>

definition random_request :: newgame_def where
  "random_request = newgame_def0\<lparr>species := SP_RANDOM, job := JOB_RANDOM, fully_random := True\<rparr>"

definition open_species_request :: newgame_def where
  "open_species_request = newgame_def0\<lparr>job := JOB_RANDOM, fully_random := True\<rparr>"

definition world1 :: "wm_event stream \<Rightarrow> prompt list \<Rightarrow> world" where
  "world1 evs ps = \<lparr>gen = sconst 1, events = evs, seen_hups = False, prompted = ps\<rparr>"

section \<open>Properties\<close>

subsection \<open>The reservoir loop\<close>

lemma reservoir_none:
  "\<forall>c\<in>set cs. \<not> pred c \<Longrightarrow> reservoir pred val cs st = st"
  by (induction cs arbitrary: st) (auto split: prod.splits)

lemma reservoir_jobs_none:
  "\<forall>c\<in>set cs. \<not> pred c \<Longrightarrow> reservoir_jobs pred cs st = Inr st"
  by (induction cs arbitrary: st) (auto split: prod.splits)

lemma reservoir_jobs_plain:
  "\<forall>j\<in>set cs. pred j \<longrightarrow> is_starting_job j \<Longrightarrow>
   reservoir_jobs pred cs st = Inr (reservoir pred (\<lambda>j. j) cs st)"
proof (induction cs arbitrary: st)
  case Nil
  then show ?case by simp
next
  case (Cons c cs)
  obtain k s g where st: "st = (k, s, g)" by (cases st)
  from Cons show ?case unfolding st by (auto split: prod.splits)
qed

lemma reservoir_count:
  "fst (reservoir pred val cs (k, s, g)) = k + length (filter pred cs)"
  by (induction cs arbitrary: k s g) (auto split: prod.splits)

lemma reservoir_selected_in:
  "fst (snd (reservoir pred val cs (k, s, g))) \<in> insert s (val ` set (filter pred cs))"
  by (induction cs arbitrary: k s g) (auto split: prod.splits)

lemma reservoir_selected_first:
  "\<exists>c\<in>set cs. pred c \<Longrightarrow>
   fst (snd (reservoir pred val cs (0, s, g))) \<in> val ` set (filter pred cs)"
proof (induction cs)
  case Nil
  then show ?case by simp
next
  case (Cons c cs)
  show ?case
  proof (cases "pred c")
    case True
    then show ?thesis
      using reservoir_selected_in[of pred val cs "Suc 0" "val c" "stl g"]
      by (auto simp add: one_chance_in_def random2_def)
  next
    case False
    with Cons show ?thesis by auto
  qed
qed

lemma length_filter_concat_map:
  "length (filter Q (concat (map (\<lambda>r. map ((#) r) X) rs))) =
   sum_list (map (\<lambda>r. length (filter (\<lambda>xs. Q (r # xs)) X)) rs)"
  by (induction rs) (simp_all add: filter_map o_def)

lemma sum_list_const: "\<forall>r\<in>set rs. f r = (b::nat) \<Longrightarrow> sum_list (map f rs) = length rs * b"
  by (induction rs) simp_all

lemma length_outcomes_Suc: "length (outcomes k (Suc m)) = Suc k * length (outcomes (Suc k) m)"
proof -
  have "length (outcomes k (Suc m)) =
        sum_list (map (\<lambda>r. length (outcomes (Suc k) m)) [0..<Suc k])"
    by (simp add: length_concat o_def del: upt_Suc)
  also have "\<dots> = Suc k * length (outcomes (Suc k) m)"
    by (subst sum_list_const[where b = "length (outcomes (Suc k) m)"]) simp_all
  finally show ?thesis .
qed

lemma length_outcomes_pos: "0 < length (outcomes k m)"
  by (induction m arbitrary: k) (simp_all add: length_outcomes_Suc del: outcomes.simps(2))

lemma hits_skip: "\<not> pred c \<Longrightarrow> hits pred val (c # cs) k s t v = hits pred val cs k s t v"
  by (simp add: hits_def)

text \<open>A candidate that satisfies the predicate is taken by the draw 0 and passed over
  by the other \<open>k\<close> draws.\<close>

lemma hits_take:
  assumes "pred c"
  shows "hits pred val (c # cs) k s t v =
         hits pred val cs (Suc k) (val c) t v + k * hits pred val cs (Suc k) s t v"
proof -
  let ?m = "length (filter pred cs)"
  let ?Q = "\<lambda>rs. fst (snd (reservoir pred val (c # cs) (k, s, rs @- t))) = v"
  let ?f = "\<lambda>r. length (filter (\<lambda>xs. ?Q (r # xs)) (outcomes (Suc k) ?m))"
  have "hits pred val (c # cs) k s t v = sum_list (map ?f [0..<Suc k])"
    using assms unfolding hits_def
    by (simp add: length_filter_concat_map del: upt_Suc reservoir.simps)
  also have "[0..<Suc k] = 0 # [1..<Suc k]" by (simp add: upt_conv_Cons)
  also have "sum_list (map ?f (0 # [1..<Suc k])) = ?f 0 + sum_list (map ?f [1..<Suc k])" by simp
  also have "?f 0 = hits pred val cs (Suc k) (val c) t v"
    using assms by (simp add: hits_def one_chance_in_def random2_def)
  also have "sum_list (map ?f [1..<Suc k]) = length [1..<Suc k] * hits pred val cs (Suc k) s t v"
  proof (rule sum_list_const, rule ballI)
    fix r assume "r \<in> set [1..<Suc k]"
    then have "1 \<le> r" "r < Suc k" by auto
    then have "r mod Suc k \<noteq> 0" by simp
    then show "?f r = hits pred val cs (Suc k) s t v"
      using assms by (simp add: hits_def one_chance_in_def random2_def)
  qed
  finally show ?thesis by simp
qed

lemma hits_zero:
  "v \<noteq> s \<Longrightarrow> v \<notin> val ` set (filter pred cs) \<Longrightarrow> hits pred val cs k s t v = 0"
  using reservoir_selected_in[of pred val cs k s] by (auto simp add: hits_def filter_empty_conv)

text \<open>
  With the counter at \<open>k\<close> and \<open>m\<close> satisfying candidates ahead, each of them ends up
  selected in one of \<open>k + m\<close> parts of the outcomes, and the value held before the loop
  in \<open>k\<close> of \<open>k + m\<close> parts.
\<close>

lemma hits_general:
  "distinct (map val (filter pred cs)) \<Longrightarrow> s \<notin> val ` set (filter pred cs) \<Longrightarrow>
   (\<forall>v \<in> val ` set (filter pred cs).
      hits pred val cs k s t v * (k + length (filter pred cs))
        = length (outcomes k (length (filter pred cs))))
   \<and> hits pred val cs k s t s * (k + length (filter pred cs))
        = k * length (outcomes k (length (filter pred cs)))"
proof (induction cs arbitrary: k s)
  case Nil
  show ?case by (simp add: hits_def)
next
  case (Cons c cs)
  show ?case
  proof (cases "pred c")
    case False
    with Cons show ?thesis by (simp add: hits_skip)
  next
    case True
    let ?m = "length (filter pred cs)"
    let ?V = "val ` set (filter pred cs)"
    let ?T = "length (outcomes (Suc k) ?m)"
    from Cons.prems True have d: "distinct (map val (filter pred cs))" and c: "val c \<notin> ?V"
      and s: "s \<notin> ?V" and sc: "s \<noteq> val c" by auto
    note ihc = Cons.IH[OF d c, of "Suc k"]
    note ihs = Cons.IH[OF d s, of "Suc k"]
    have len: "length (filter pred (c # cs)) = Suc ?m" using True by simp
    have tot: "length (outcomes k (Suc ?m)) = Suc k * ?T" by (rule length_outcomes_Suc)
    have A: "hits pred val (c # cs) k s t (val c) * (k + Suc ?m) = Suc k * ?T"
    proof -
      have "hits pred val cs (Suc k) s t (val c) = 0" using sc c by (intro hits_zero) auto
      then show ?thesis using ihc by (simp add: hits_take[of pred c, OF True])
    qed
    have B: "hits pred val (c # cs) k s t v * (k + Suc ?m) = Suc k * ?T" if "v \<in> ?V" for v
    proof -
      from ihc that have 1: "hits pred val cs (Suc k) (val c) t v * (Suc k + ?m) = ?T" by blast
      from ihs that have 2: "hits pred val cs (Suc k) s t v * (Suc k + ?m) = ?T" by blast
      have "(hits pred val cs (Suc k) (val c) t v + k * hits pred val cs (Suc k) s t v)
              * (Suc k + ?m)
            = hits pred val cs (Suc k) (val c) t v * (Suc k + ?m)
              + k * (hits pred val cs (Suc k) s t v * (Suc k + ?m))"
        by (simp add: algebra_simps)
      also have "\<dots> = ?T + k * ?T" by (simp only: 1 2)
      finally show ?thesis by (simp add: hits_take[of pred c, OF True])
    qed
    have C: "hits pred val (c # cs) k s t s * (k + Suc ?m) = k * (Suc k * ?T)"
    proof -
      have 0: "hits pred val cs (Suc k) (val c) t s = 0" using sc s by (intro hits_zero) auto
      from ihs have 2: "hits pred val cs (Suc k) s t s * (Suc k + ?m) = Suc k * ?T" by blast
      have "(k * hits pred val cs (Suc k) s t s) * (Suc k + ?m)
            = k * (hits pred val cs (Suc k) s t s * (Suc k + ?m))"
        by (simp add: algebra_simps)
      also have "\<dots> = k * (Suc k * ?T)" by (simp only: 2)
      finally show ?thesis by (simp add: hits_take[of pred c, OF True] 0)
    qed
    show ?thesis
      unfolding len tot using True A B C by auto
  qed
qed

lemma hits_uniform:
  "distinct (map val (filter pred cs)) \<Longrightarrow> v \<in> val ` set (filter pred cs) \<Longrightarrow>
   hits pred val cs 0 s t v * length (filter pred cs)
     = length (outcomes 0 (length (filter pred cs)))"
proof (induction cs)
  case Nil
  then show ?case by simp
next
  case (Cons c cs)
  show ?case
  proof (cases "pred c")
    case False
    with Cons show ?thesis by (simp add: hits_skip)
  next
    case True
    let ?m = "length (filter pred cs)"
    from Cons.prems True have d: "distinct (map val (filter pred cs))"
      and c: "val c \<notin> val ` set (filter pred cs)" by auto
    note g = hits_general[OF d c, of 1 t]
    have tot: "length (outcomes 0 (Suc ?m)) = length (outcomes (Suc 0) ?m)"
      by (simp add: length_outcomes_Suc del: outcomes.simps)
    have h: "hits pred val (c # cs) 0 s t v = hits pred val cs (Suc 0) (val c) t v"
      by (simp add: hits_take[of pred c, OF True])
    from Cons.prems True have "v = val c \<or> v \<in> val ` set (filter pred cs)" by auto
    then show ?thesis using g True by (auto simp add: h tot simp del: outcomes.simps)
  qed
qed

lemma prob_selected:
  assumes "distinct (map val (filter pred cs))" and "c \<in> set cs" and "pred c"
  shows "prob (outcomes 0 (length (filter pred cs)))
           (\<lambda>rs. fst (snd (reservoir pred val cs (0, s, rs @- t))) = val c)
         = 1 / of_nat (length (filter pred cs))"
proof -
  let ?M = "length (filter pred cs)"
  have "val c \<in> val ` set (filter pred cs)" using assms by auto
  from hits_uniform[OF assms(1) this, of s t]
  have "hits pred val cs 0 s t (val c) * ?M = length (outcomes 0 ?M)" .
  then have "(of_nat (hits pred val cs 0 s t (val c)) :: rat) * of_nat ?M
             = of_nat (length (outcomes 0 ?M))"
    by (metis of_nat_mult)
  moreover have "0 < ?M" using assms by (auto simp: filter_empty_conv)
  moreover have "0 < length (outcomes 0 ?M)" by (rule length_outcomes_pos)
  ultimately show ?thesis
    unfolding prob_def hits_def[symmetric] by (simp add: field_simps)
qed

lemma prob_cong:
  "(\<And>x. x \<in> set space \<Longrightarrow> P x = Q x) \<Longrightarrow> prob space P = prob space Q"
proof -
  assume "\<And>x. x \<in> set space \<Longrightarrow> P x = Q x"
  then have "filter P space = filter Q space" by (intro filter_cong) auto
  then show ?thesis by (simp add: prob_def)
qed

lemma outcomes_length: "rs \<in> set (outcomes k m) \<Longrightarrow> length rs = m"
  by (induction m arbitrary: k rs) (auto simp del: upt_Suc)

lemma reservoir_rng:
  "length rs = length (filter pred cs) \<Longrightarrow>
   snd (snd (reservoir pred val cs (k, s, rs @- t))) = t"
proof (induction cs arbitrary: k s rs)
  case Nil
  then show ?case by simp
next
  case (Cons c cs)
  show ?case
  proof (cases "pred c")
    case False
    with Cons show ?thesis by simp
  next
    case True
    with Cons.prems obtain r rs' where rs: "rs = r # rs'" and
      l: "length rs' = length (filter pred cs)"
      by (cases rs) auto
    from Cons.IH[OF l] True show ?thesis
      by (simp add: rs one_chance_in_def random2_def)
  qed
qed

lemma reservoir_run:
  assumes "rs \<in> set (outcomes 0 (length (filter pred cs)))"
  shows "reservoir pred val cs (0, s, rs @- t)
         = (length (filter pred cs), fst (snd (reservoir pred val cs (0, s, rs @- t))), t)"
proof -
  from assms have "length rs = length (filter pred cs)" by (rule outcomes_length)
  then have "snd (snd (reservoir pred val cs (0, s, rs @- t))) = t" by (rule reservoir_rng)
  moreover have "fst (reservoir pred val cs (0, s, rs @- t)) = length (filter pred cs)"
    by (simp add: reservoir_count)
  ultimately show ?thesis by (simp add: prod_eq_iff)
qed

lemma prob_resolver:
  assumes "distinct (map val (filter pred cs))" and "c \<in> set cs" and "pred c"
    and "\<And>rs. rs \<in> set (outcomes 0 (length (filter pred cs))) \<Longrightarrow>
           E rs \<longleftrightarrow> fst (snd (reservoir pred val cs (0, s, rs @- t))) = val c"
  shows "prob (outcomes 0 (length (filter pred cs))) E = 1 / of_nat (length (filter pred cs))"
proof -
  have "prob (outcomes 0 (length (filter pred cs))) E
        = prob (outcomes 0 (length (filter pred cs)))
            (\<lambda>rs. fst (snd (reservoir pred val cs (0, s, rs @- t))) = val c)"
    by (rule prob_cong) (rule assms(4))
  also have "\<dots> = 1 / of_nat (length (filter pred cs))"
    using assms(1-3) by (rule prob_selected)
  finally show ?thesis .
qed

lemma distinct_species_order: "distinct species_order"
  by (simp add: species_order_def)

lemma species_update_eq: "ng\<lparr>species := a\<rparr> = ng\<lparr>species := b\<rparr> \<longleftrightarrow> a = b"
  by (metis newgame_def.select_convs(5) newgame_def.surjective newgame_def.update_convs(5))

lemma job_update_eq: "ng\<lparr>job := a\<rparr> = ng\<lparr>job := b\<rparr> \<longleftrightarrow> a = b"
  by (metis newgame_def.select_convs(6) newgame_def.surjective newgame_def.update_convs(6))

lemma weapon_update_eq: "ng\<lparr>weapon := a\<rparr> = ng\<lparr>weapon := b\<rparr> \<longleftrightarrow> a = b"
  by (metis newgame_def.select_convs(7) newgame_def.surjective newgame_def.update_convs(7))

lemma resolve_species_viable_uniform:
  assumes "species ng = SP_UNKNOWN" and "species ng_choice = SP_VIABLE"
    and "sp \<in> set species_order" and "species_allowed env (job ng) sp = CC_UNRESTRICTED"
  shows "prob (outcomes 0 (length (filter (\<lambda>x. species_allowed env (job ng) x = CC_UNRESTRICTED)
                                     species_order)))
           (\<lambda>rs. resolve_species env ng ng_choice (rs @- t) = Some (Inr (ng\<lparr>species := sp\<rparr>, t)))
         = 1 / of_nat (length (filter (\<lambda>x. species_allowed env (job ng) x = CC_UNRESTRICTED)
                                 species_order))"
proof -
  let ?p = "\<lambda>x. is_good_combination env x (job ng) False True"
  have p: "?p = (\<lambda>x. species_allowed env (job ng) x = CC_UNRESTRICTED)"
    by (simp add: is_good_combination_def)
  have pos: "length (filter ?p species_order) \<noteq> 0"
    using assms(3,4) by (auto simp add: p filter_empty_conv)
  have "prob (outcomes 0 (length (filter ?p species_order)))
           (\<lambda>rs. resolve_species env ng ng_choice (rs @- t) = Some (Inr (ng\<lparr>species := sp\<rparr>, t)))
         = 1 / of_nat (length (filter ?p species_order))"
  proof (rule prob_resolver[where val = "\<lambda>sp. sp" and c = sp and s = SP_UNKNOWN and t = t])
    show "distinct (map (\<lambda>sp. sp) (filter ?p species_order))"
      using distinct_species_order by simp
    show "sp \<in> set species_order" by (rule assms(3))
    show "?p sp" using assms(4) by (simp add: is_good_combination_def)
    fix rs assume rs: "rs \<in> set (outcomes 0 (length (filter ?p species_order)))"
    define x where "x = fst (snd (reservoir ?p (\<lambda>sp. sp) species_order (0, SP_UNKNOWN, rs @- t)))"
    from reservoir_run[OF rs, of "\<lambda>sp. sp" SP_UNKNOWN t]
    have r: "reservoir ?p (\<lambda>sp. sp) species_order (0, SP_UNKNOWN, rs @- t)
             = (length (filter ?p species_order), x, t)"
      unfolding x_def .
    show "resolve_species env ng ng_choice (rs @- t) = Some (Inr (ng\<lparr>species := sp\<rparr>, t))
          \<longleftrightarrow> fst (snd (reservoir ?p (\<lambda>sp. sp) species_order (0, SP_UNKNOWN, rs @- t))) = sp"
      using pos assms(1,2) by (simp add: resolve_species_def r species_update_eq)
  qed
  then show ?thesis unfolding p .
qed


lemma resolve_species_random_uniform:
  assumes "species ng = SP_UNKNOWN" and "species ng_choice = SP_RANDOM"
    and "job ng \<noteq> JOB_UNKNOWN"
    and "sp \<in> set species_order" and "species_allowed env (job ng) sp \<noteq> CC_BANNED"
  shows "prob (outcomes 0 (length (filter (\<lambda>x. species_allowed env (job ng) x \<noteq> CC_BANNED)
                                     species_order)))
           (\<lambda>rs. resolve_species env ng ng_choice (rs @- t) = Some (Inr (ng\<lparr>species := sp\<rparr>, t)))
         = 1 / of_nat (length (filter (\<lambda>x. species_allowed env (job ng) x \<noteq> CC_BANNED)
                                 species_order))"
proof -
  let ?p = "\<lambda>x. is_good_combination env x (job ng) False False"
  have p: "?p = (\<lambda>x. species_allowed env (job ng) x \<noteq> CC_BANNED)"
    by (simp add: is_good_combination_def)
  have pos: "length (filter ?p species_order) \<noteq> 0"
    using assms(4,5) by (auto simp add: p filter_empty_conv)
  have "prob (outcomes 0 (length (filter ?p species_order)))
           (\<lambda>rs. resolve_species env ng ng_choice (rs @- t) = Some (Inr (ng\<lparr>species := sp\<rparr>, t)))
         = 1 / of_nat (length (filter ?p species_order))"
  proof (rule prob_resolver[where val = "\<lambda>sp. sp" and c = sp and s = SP_UNKNOWN and t = t])
    show "distinct (map (\<lambda>sp. sp) (filter ?p species_order))"
      using distinct_species_order by simp
    show "sp \<in> set species_order" by (rule assms(4))
    show "?p sp" using assms(5) by (simp add: is_good_combination_def)
    fix rs assume rs: "rs \<in> set (outcomes 0 (length (filter ?p species_order)))"
    define x where "x = fst (snd (reservoir ?p (\<lambda>sp. sp) species_order (0, SP_UNKNOWN, rs @- t)))"
    from reservoir_run[OF rs, of "\<lambda>sp. sp" SP_UNKNOWN t]
    have r: "reservoir ?p (\<lambda>sp. sp) species_order (0, SP_UNKNOWN, rs @- t)
             = (length (filter ?p species_order), x, t)"
      unfolding x_def .
    show "resolve_species env ng ng_choice (rs @- t) = Some (Inr (ng\<lparr>species := sp\<rparr>, t))
          \<longleftrightarrow> fst (snd (reservoir ?p (\<lambda>sp. sp) species_order (0, SP_UNKNOWN, rs @- t))) = sp"
      using pos assms(1,2,3)
      by (simp add: resolve_species_def resolve_species_random_def r species_update_eq)
  qed
  then show ?thesis unfolding p .
qed

lemma resolve_job_viable_uniform:
  assumes "job ng = JOB_UNKNOWN" and "job ng_choice = JOB_VIABLE"
    and "distinct (all_jobs env)"
    and "jb \<in> set (all_jobs env)" and "job_allowed env (species ng) jb = CC_UNRESTRICTED"
  shows "prob (outcomes 0 (length (filter (\<lambda>x. job_allowed env (species ng) x = CC_UNRESTRICTED)
                                     (all_jobs env))))
           (\<lambda>rs. resolve_job env ng ng_choice (rs @- t) = Some (Inr (ng\<lparr>job := jb\<rparr>, t)))
         = 1 / of_nat (length (filter (\<lambda>x. job_allowed env (species ng) x = CC_UNRESTRICTED)
                                 (all_jobs env)))"
proof -
  let ?p = "\<lambda>x. is_good_combination env (species ng) x True True"
  have p: "?p = (\<lambda>x. job_allowed env (species ng) x = CC_UNRESTRICTED)"
    by (simp add: is_good_combination_def)
  have pos: "length (filter ?p (all_jobs env)) \<noteq> 0"
    using assms(4,5) by (auto simp add: p filter_empty_conv)
  have "prob (outcomes 0 (length (filter ?p (all_jobs env))))
           (\<lambda>rs. resolve_job env ng ng_choice (rs @- t) = Some (Inr (ng\<lparr>job := jb\<rparr>, t)))
         = 1 / of_nat (length (filter ?p (all_jobs env)))"
  proof (rule prob_resolver[where val = "\<lambda>j. j" and c = jb and s = JOB_UNKNOWN and t = t])
    show "distinct (map (\<lambda>j. j) (filter ?p (all_jobs env)))"
      using assms(3) by simp
    show "jb \<in> set (all_jobs env)" by (rule assms(4))
    show "?p jb" using assms(5) by (simp add: is_good_combination_def)
    fix rs assume rs: "rs \<in> set (outcomes 0 (length (filter ?p (all_jobs env))))"
    define x where "x = fst (snd (reservoir ?p (\<lambda>j. j) (all_jobs env) (0, JOB_UNKNOWN, rs @- t)))"
    from reservoir_run[OF rs, of "\<lambda>j. j" JOB_UNKNOWN t]
    have r: "reservoir ?p (\<lambda>j. j) (all_jobs env) (0, JOB_UNKNOWN, rs @- t)
             = (length (filter ?p (all_jobs env)), x, t)"
      unfolding x_def .
    show "resolve_job env ng ng_choice (rs @- t) = Some (Inr (ng\<lparr>job := jb\<rparr>, t))
          \<longleftrightarrow> fst (snd (reservoir ?p (\<lambda>j. j) (all_jobs env) (0, JOB_UNKNOWN, rs @- t))) = jb"
      using pos assms(1,2) by (simp add: resolve_job_def r job_update_eq)
  qed
  then show ?thesis unfolding p .
qed

lemma resolve_job_random_uniform:
  assumes "job ng = JOB_UNKNOWN" and "job ng_choice = JOB_RANDOM"
    and "species ng \<noteq> SP_UNKNOWN"
    and "distinct (all_jobs env)"
    and "\<forall>j\<in>set (all_jobs env). job_allowed env (species ng) j \<noteq> CC_BANNED \<longrightarrow> is_starting_job j"
    and "jb \<in> set (all_jobs env)" and "job_allowed env (species ng) jb \<noteq> CC_BANNED"
  shows "prob (outcomes 0 (length (filter (\<lambda>x. job_allowed env (species ng) x \<noteq> CC_BANNED)
                                     (all_jobs env))))
           (\<lambda>rs. resolve_job env ng ng_choice (rs @- t) = Some (Inr (ng\<lparr>job := jb\<rparr>, t)))
         = 1 / of_nat (length (filter (\<lambda>x. job_allowed env (species ng) x \<noteq> CC_BANNED)
                                 (all_jobs env)))"
proof -
  let ?p = "\<lambda>x. is_good_combination env (species ng) x True False"
  have p: "?p = (\<lambda>x. job_allowed env (species ng) x \<noteq> CC_BANNED)"
    by (simp add: is_good_combination_def)
  have pos: "length (filter ?p (all_jobs env)) \<noteq> 0"
    using assms(6,7) by (auto simp add: p filter_empty_conv)
  from assms(5) have a: "\<forall>j\<in>set (all_jobs env). ?p j \<longrightarrow> is_starting_job j"
    by (simp add: is_good_combination_def)
  have "prob (outcomes 0 (length (filter ?p (all_jobs env))))
           (\<lambda>rs. resolve_job env ng ng_choice (rs @- t) = Some (Inr (ng\<lparr>job := jb\<rparr>, t)))
         = 1 / of_nat (length (filter ?p (all_jobs env)))"
  proof (rule prob_resolver[where val = "\<lambda>j. j" and c = jb and s = JOB_UNKNOWN and t = t])
    show "distinct (map (\<lambda>j. j) (filter ?p (all_jobs env)))"
      using assms(4) by simp
    show "jb \<in> set (all_jobs env)" by (rule assms(6))
    show "?p jb" using assms(7) by (simp add: is_good_combination_def)
    fix rs assume rs: "rs \<in> set (outcomes 0 (length (filter ?p (all_jobs env))))"
    define x where "x = fst (snd (reservoir ?p (\<lambda>j. j) (all_jobs env) (0, JOB_UNKNOWN, rs @- t)))"
    from reservoir_run[OF rs, of "\<lambda>j. j" JOB_UNKNOWN t]
    have r: "reservoir ?p (\<lambda>j. j) (all_jobs env) (0, JOB_UNKNOWN, rs @- t)
             = (length (filter ?p (all_jobs env)), x, t)"
      unfolding x_def .
    have rj: "reservoir_jobs ?p (all_jobs env) (0, JOB_UNKNOWN, rs @- t)
             = Inr (length (filter ?p (all_jobs env)), x, t)"
      using reservoir_jobs_plain[OF a, of "(0, JOB_UNKNOWN, rs @- t)"] r by simp
    show "resolve_job env ng ng_choice (rs @- t) = Some (Inr (ng\<lparr>job := jb\<rparr>, t))
          \<longleftrightarrow> fst (snd (reservoir ?p (\<lambda>j. j) (all_jobs env) (0, JOB_UNKNOWN, rs @- t))) = jb"
      using pos assms(1,2,3)
      by (simp add: resolve_job_def resolve_job_random_def r rj job_update_eq)
  qed
  then show ?thesis unfolding p .
qed

lemma resolve_weapon_viable_uniform:
  assumes "distinct (map fst (filter (\<lambda>choice. snd choice = CC_UNRESTRICTED) weapons))"
    and "wc \<in> set weapons" and "snd wc = CC_UNRESTRICTED"
  shows "prob (outcomes 0 (length (filter (\<lambda>choice. snd choice = CC_UNRESTRICTED) weapons)))
           (\<lambda>rs. resolve_weapon_switch WPN_VIABLE ng ng_choice weapons (rs @- t)
                   = Inr (ng\<lparr>weapon := fst wc\<rparr>, t))
         = 1 / of_nat (length (filter (\<lambda>choice. snd choice = CC_UNRESTRICTED) weapons))"
proof -
  let ?p = "\<lambda>choice::weapon_choice. snd choice = CC_UNRESTRICTED"
  have pos: "length (filter ?p weapons) \<noteq> 0"
    using assms(2,3) by (auto simp add: filter_empty_conv)
  show ?thesis
  proof (rule prob_resolver[where val = fst and c = wc and s = "weapon ng" and t = t])
    show "distinct (map fst (filter ?p weapons))" by (rule assms(1))
    show "wc \<in> set weapons" by (rule assms(2))
    show "snd wc = CC_UNRESTRICTED" by (rule assms(3))
    fix rs assume rs: "rs \<in> set (outcomes 0 (length (filter ?p weapons)))"
    define x where "x = fst (snd (reservoir ?p fst weapons (0, weapon ng, rs @- t)))"
    from reservoir_run[OF rs, of fst "weapon ng" t]
    have r: "reservoir ?p fst weapons (0, weapon ng, rs @- t)
             = (length (filter ?p weapons), x, t)"
      unfolding x_def .
    show "resolve_weapon_switch WPN_VIABLE ng ng_choice weapons (rs @- t)
            = Inr (ng\<lparr>weapon := fst wc\<rparr>, t)
          \<longleftrightarrow> fst (snd (reservoir ?p fst weapons (0, weapon ng, rs @- t))) = fst wc"
      using pos by (simp add: resolve_weapon_switch_def r weapon_update_eq)
  qed
qed

lemma resolve_weapon_viable_switch:
  "allowed_weapons ng_choice = [] \<and> weapon ng_choice = WPN_VIABLE \<Longrightarrow>
   resolve_weapon ng ng_choice weapons g
     = resolve_weapon_switch WPN_VIABLE ng ng_choice weapons g"
  by (simp add: resolve_weapon_def)

lemma resolve_species_viable_empty:
  assumes "species ng = SP_UNKNOWN" and "species ng_choice = SP_VIABLE"
    and "\<forall>x\<in>set species_order. species_allowed env (job ng) x \<noteq> CC_UNRESTRICTED"
  shows "resolve_species env ng ng_choice g = resolve_species_random env ng g"
proof -
  have "reservoir (\<lambda>sp. is_good_combination env sp (job ng) False True) (\<lambda>sp. sp)
            species_order (0, SP_UNKNOWN, g) = (0, SP_UNKNOWN, g)"
    using assms(3) by (intro reservoir_none) (simp add: is_good_combination_def)
  moreover have ng: "ng\<lparr>species := SP_UNKNOWN\<rparr> = ng" using assms(1) by simp
  ultimately show ?thesis using assms(1,2) by (simp add: resolve_species_def ng)
qed

lemma resolve_job_viable_empty:
  assumes "job ng = JOB_UNKNOWN" and "job ng_choice = JOB_VIABLE"
    and "\<forall>x\<in>set (all_jobs env). job_allowed env (species ng) x \<noteq> CC_UNRESTRICTED"
  shows "resolve_job env ng ng_choice g = resolve_job_random env ng g"
proof -
  have "reservoir (\<lambda>j. is_good_combination env (species ng) j True True) (\<lambda>j. j)
            (all_jobs env) (0, JOB_UNKNOWN, g) = (0, JOB_UNKNOWN, g)"
    using assms(3) by (intro reservoir_none) (simp add: is_good_combination_def)
  moreover have ng: "ng\<lparr>job := JOB_UNKNOWN\<rparr> = ng" using assms(1) by simp
  ultimately show ?thesis using assms(1,2) by (simp add: resolve_job_def ng)
qed

lemma resolve_weapon_viable_empty:
  assumes "\<forall>x\<in>set weapons. snd x \<noteq> CC_UNRESTRICTED"
  shows "resolve_weapon_switch WPN_VIABLE ng ng_choice weapons g
         = resolve_weapon_random ng weapons g"
proof -
  have "reservoir (\<lambda>choice. snd choice = CC_UNRESTRICTED) fst weapons (0, weapon ng, g)
      = (0, weapon ng, g)"
    using assms by (intro reservoir_none) simp
  then show ?thesis by (simp add: resolve_weapon_switch_def)
qed


lemma ext_graded_simps:
  "job_allowed ext_graded sp jb = (if jb = JOB_FIGHTER then CC_UNRESTRICTED
                                   else if jb = JOB_WIZARD then CC_RESTRICTED else CC_BANNED)"
  "species_allowed ext_graded jb sp = (if sp = SP_TROLL \<or> sp = SP_NAGA then CC_UNRESTRICTED
                                       else if sp = SP_HUMAN then CC_RESTRICTED else CC_BANNED)"
  "all_jobs ext_graded = [JOB_OTHER 0, JOB_FIGHTER, JOB_WIZARD]"
  by (simp_all add: ext_graded_def ext0_def all_jobs_def numeral_3_eq_3)

text \<open>
  Claim C1. Let \<open>M\<close> be the number of candidates of a finite stream that satisfy the
  predicate, told apart by the value the loop assigns for them. If \<open>M \<ge> 1\<close>, the
  reservoir loop of \<^verbatim>\<open>_resolve_species\<close>, \<^verbatim>\<open>_resolve_job\<close> and \<^verbatim>\<open>_resolve_weapon\<close>, started
  with the counter at 0, counts \<open>M\<close> and ends with each satisfying candidate selected
  with probability exactly \<open>1 / M\<close>, whatever the field held before and whatever the
  random source yields after the \<open>M\<close> draws of the loop. If \<open>M = 0\<close>, the loop reports the
  count 0, leaves the field as it was and draws nothing. The loop of lines 322-332 with
  its assertion is the same loop as long as every satisfying job is a starting job.

  The resolvers run that loop and assign what it selects. With the species open,
  \<^verbatim>\<open>_resolve_species\<close> under the request VIABLE returns the record with the species set
  to any given UNRESTRICTED species of \<open>species_order\<close> in exactly one of \<open>M\<close> parts of
  the outcomes of its \<open>M\<close> draws, \<open>M\<close> being the number of UNRESTRICTED species, and hands
  on the random source as it is after those draws; under the request RANDOM with a
  concrete job the same holds over the species that are not banned. With the job open
  and the enumerators \<^verbatim>\<open>job_type(i)\<close> pairwise distinct, \<^verbatim>\<open>_resolve_job\<close> does the same
  over the UNRESTRICTED jobs (VIABLE) and, for a concrete species and as long as the
  assertion of line 329 holds, over the jobs that are not banned (RANDOM). The VIABLE
  case of \<^verbatim>\<open>_resolve_weapon\<close> does the same over the UNRESTRICTED weapons of the candidate
  list, told apart by the weapon. With \<open>M = 0\<close> the VIABLE case selects nothing: the
  resolver does what the RANDOM case does with the record and the random source as they
  were.
\<close>

theorem reservoir_uniform:
  "(distinct (map val (filter pred cs)) \<longrightarrow>
      (\<forall>c\<in>set cs. pred c \<longrightarrow>
         prob (outcomes 0 (length (filter pred cs)))
           (\<lambda>rs. fst (snd (reservoir pred val cs (0, s, rs @- t))) = val c)
         = 1 / of_nat (length (filter pred cs))))
   \<and> fst (reservoir pred val cs (0, s, g)) = length (filter pred cs)
   \<and> (length (filter pred cs) = 0 \<longrightarrow> reservoir pred val cs (0, s, g) = (0, s, g))
   \<and> ((\<forall>j\<in>set js. pred_job j \<longrightarrow> is_starting_job j) \<longrightarrow>
        reservoir_jobs pred_job js st = Inr (reservoir pred_job (\<lambda>j. j) js st))
   \<and> (species ng = SP_UNKNOWN \<and> species ng_choice = SP_VIABLE
        \<and> sp \<in> set species_order \<and> species_allowed env (job ng) sp = CC_UNRESTRICTED \<longrightarrow>
      prob (outcomes 0 (length (filter (\<lambda>x. species_allowed env (job ng) x = CC_UNRESTRICTED)
                                  species_order)))
        (\<lambda>rs. resolve_species env ng ng_choice (rs @- t) = Some (Inr (ng\<lparr>species := sp\<rparr>, t)))
      = 1 / of_nat (length (filter (\<lambda>x. species_allowed env (job ng) x = CC_UNRESTRICTED)
                              species_order)))
   \<and> (species ng = SP_UNKNOWN \<and> species ng_choice = SP_RANDOM \<and> job ng \<noteq> JOB_UNKNOWN
        \<and> sp \<in> set species_order \<and> species_allowed env (job ng) sp \<noteq> CC_BANNED \<longrightarrow>
      prob (outcomes 0 (length (filter (\<lambda>x. species_allowed env (job ng) x \<noteq> CC_BANNED)
                                  species_order)))
        (\<lambda>rs. resolve_species env ng ng_choice (rs @- t) = Some (Inr (ng\<lparr>species := sp\<rparr>, t)))
      = 1 / of_nat (length (filter (\<lambda>x. species_allowed env (job ng) x \<noteq> CC_BANNED)
                              species_order)))
   \<and> (job ng = JOB_UNKNOWN \<and> job ng_choice = JOB_VIABLE \<and> distinct (all_jobs env)
        \<and> jb \<in> set (all_jobs env) \<and> job_allowed env (species ng) jb = CC_UNRESTRICTED \<longrightarrow>
      prob (outcomes 0 (length (filter (\<lambda>x. job_allowed env (species ng) x = CC_UNRESTRICTED)
                                  (all_jobs env))))
        (\<lambda>rs. resolve_job env ng ng_choice (rs @- t) = Some (Inr (ng\<lparr>job := jb\<rparr>, t)))
      = 1 / of_nat (length (filter (\<lambda>x. job_allowed env (species ng) x = CC_UNRESTRICTED)
                              (all_jobs env))))
   \<and> (job ng = JOB_UNKNOWN \<and> job ng_choice = JOB_RANDOM \<and> species ng \<noteq> SP_UNKNOWN
        \<and> distinct (all_jobs env)
        \<and> (\<forall>j\<in>set (all_jobs env). job_allowed env (species ng) j \<noteq> CC_BANNED
              \<longrightarrow> is_starting_job j)
        \<and> jb \<in> set (all_jobs env) \<and> job_allowed env (species ng) jb \<noteq> CC_BANNED \<longrightarrow>
      prob (outcomes 0 (length (filter (\<lambda>x. job_allowed env (species ng) x \<noteq> CC_BANNED)
                                  (all_jobs env))))
        (\<lambda>rs. resolve_job env ng ng_choice (rs @- t) = Some (Inr (ng\<lparr>job := jb\<rparr>, t)))
      = 1 / of_nat (length (filter (\<lambda>x. job_allowed env (species ng) x \<noteq> CC_BANNED)
                              (all_jobs env))))
   \<and> (distinct (map fst (filter (\<lambda>choice. snd choice = CC_UNRESTRICTED) weapons))
        \<and> wc \<in> set weapons \<and> snd wc = CC_UNRESTRICTED \<longrightarrow>
      prob (outcomes 0 (length (filter (\<lambda>choice. snd choice = CC_UNRESTRICTED) weapons)))
        (\<lambda>rs. resolve_weapon_switch WPN_VIABLE ng ng_choice weapons (rs @- t)
                = Inr (ng\<lparr>weapon := fst wc\<rparr>, t))
      = 1 / of_nat (length (filter (\<lambda>choice. snd choice = CC_UNRESTRICTED) weapons))
      \<and> (allowed_weapons ng_choice = [] \<and> weapon ng_choice = WPN_VIABLE \<longrightarrow>
         prob (outcomes 0 (length (filter (\<lambda>choice. snd choice = CC_UNRESTRICTED) weapons)))
           (\<lambda>rs. resolve_weapon ng ng_choice weapons (rs @- t)
                   = Inr (ng\<lparr>weapon := fst wc\<rparr>, t))
         = 1 / of_nat (length (filter (\<lambda>choice. snd choice = CC_UNRESTRICTED) weapons))))
   \<and> (species ng = SP_UNKNOWN \<and> species ng_choice = SP_VIABLE
        \<and> (\<forall>x\<in>set species_order. species_allowed env (job ng) x \<noteq> CC_UNRESTRICTED) \<longrightarrow>
      resolve_species env ng ng_choice g = resolve_species_random env ng g)
   \<and> (job ng = JOB_UNKNOWN \<and> job ng_choice = JOB_VIABLE
        \<and> (\<forall>x\<in>set (all_jobs env). job_allowed env (species ng) x \<noteq> CC_UNRESTRICTED) \<longrightarrow>
      resolve_job env ng ng_choice g = resolve_job_random env ng g)
   \<and> ((\<forall>x\<in>set weapons. snd x \<noteq> CC_UNRESTRICTED) \<longrightarrow>
      resolve_weapon_switch WPN_VIABLE ng ng_choice weapons g
        = resolve_weapon_random ng weapons g)"
proof (intro conjI impI ballI)
  fix c assume "distinct (map val (filter pred cs))" "c \<in> set cs" "pred c"
  then show "prob (outcomes 0 (length (filter pred cs)))
           (\<lambda>rs. fst (snd (reservoir pred val cs (0, s, rs @- t))) = val c)
         = 1 / of_nat (length (filter pred cs))"
    by (rule prob_selected)
next
  show "fst (reservoir pred val cs (0, s, g)) = length (filter pred cs)"
    by (simp add: reservoir_count)
next
  assume "length (filter pred cs) = 0"
  then have "\<forall>c\<in>set cs. \<not> pred c" by (simp add: filter_empty_conv)
  then show "reservoir pred val cs (0, s, g) = (0, s, g)" by (rule reservoir_none)
next
  assume "\<forall>j\<in>set js. pred_job j \<longrightarrow> is_starting_job j"
  then show "reservoir_jobs pred_job js st = Inr (reservoir pred_job (\<lambda>j. j) js st)"
    by (rule reservoir_jobs_plain)
next
  assume "species ng = SP_UNKNOWN \<and> species ng_choice = SP_VIABLE
        \<and> sp \<in> set species_order \<and> species_allowed env (job ng) sp = CC_UNRESTRICTED"
  then show "prob (outcomes 0 (length (filter (\<lambda>x. species_allowed env (job ng) x = CC_UNRESTRICTED)
                                  species_order)))
        (\<lambda>rs. resolve_species env ng ng_choice (rs @- t) = Some (Inr (ng\<lparr>species := sp\<rparr>, t)))
      = 1 / of_nat (length (filter (\<lambda>x. species_allowed env (job ng) x = CC_UNRESTRICTED)
                              species_order))"
    by (intro resolve_species_viable_uniform) simp_all
next
  assume "species ng = SP_UNKNOWN \<and> species ng_choice = SP_RANDOM \<and> job ng \<noteq> JOB_UNKNOWN
        \<and> sp \<in> set species_order \<and> species_allowed env (job ng) sp \<noteq> CC_BANNED"
  then show "prob (outcomes 0 (length (filter (\<lambda>x. species_allowed env (job ng) x \<noteq> CC_BANNED)
                                  species_order)))
        (\<lambda>rs. resolve_species env ng ng_choice (rs @- t) = Some (Inr (ng\<lparr>species := sp\<rparr>, t)))
      = 1 / of_nat (length (filter (\<lambda>x. species_allowed env (job ng) x \<noteq> CC_BANNED)
                              species_order))"
    by (intro resolve_species_random_uniform) simp_all
next
  assume "job ng = JOB_UNKNOWN \<and> job ng_choice = JOB_VIABLE \<and> distinct (all_jobs env)
        \<and> jb \<in> set (all_jobs env) \<and> job_allowed env (species ng) jb = CC_UNRESTRICTED"
  then show "prob (outcomes 0 (length (filter (\<lambda>x. job_allowed env (species ng) x = CC_UNRESTRICTED)
                                  (all_jobs env))))
        (\<lambda>rs. resolve_job env ng ng_choice (rs @- t) = Some (Inr (ng\<lparr>job := jb\<rparr>, t)))
      = 1 / of_nat (length (filter (\<lambda>x. job_allowed env (species ng) x = CC_UNRESTRICTED)
                              (all_jobs env)))"
    by (intro resolve_job_viable_uniform) simp_all
next
  assume "job ng = JOB_UNKNOWN \<and> job ng_choice = JOB_RANDOM \<and> species ng \<noteq> SP_UNKNOWN
        \<and> distinct (all_jobs env)
        \<and> (\<forall>j\<in>set (all_jobs env). job_allowed env (species ng) j \<noteq> CC_BANNED
              \<longrightarrow> is_starting_job j)
        \<and> jb \<in> set (all_jobs env) \<and> job_allowed env (species ng) jb \<noteq> CC_BANNED"
  then show "prob (outcomes 0 (length (filter (\<lambda>x. job_allowed env (species ng) x \<noteq> CC_BANNED)
                                  (all_jobs env))))
        (\<lambda>rs. resolve_job env ng ng_choice (rs @- t) = Some (Inr (ng\<lparr>job := jb\<rparr>, t)))
      = 1 / of_nat (length (filter (\<lambda>x. job_allowed env (species ng) x \<noteq> CC_BANNED)
                              (all_jobs env)))"
    by (intro resolve_job_random_uniform) simp_all
next
  assume w: "distinct (map fst (filter (\<lambda>choice. snd choice = CC_UNRESTRICTED) weapons))
        \<and> wc \<in> set weapons \<and> snd wc = CC_UNRESTRICTED"
  then show sw: "prob (outcomes 0 (length (filter (\<lambda>choice. snd choice = CC_UNRESTRICTED) weapons)))
        (\<lambda>rs. resolve_weapon_switch WPN_VIABLE ng ng_choice weapons (rs @- t)
                = Inr (ng\<lparr>weapon := fst wc\<rparr>, t))
      = 1 / of_nat (length (filter (\<lambda>choice. snd choice = CC_UNRESTRICTED) weapons))"
    by (intro resolve_weapon_viable_uniform) simp_all
  assume "allowed_weapons ng_choice = [] \<and> weapon ng_choice = WPN_VIABLE"
  then have "resolve_weapon ng ng_choice weapons = resolve_weapon_switch WPN_VIABLE ng ng_choice weapons"
    by (intro ext resolve_weapon_viable_switch)
  with sw show "prob (outcomes 0 (length (filter (\<lambda>choice. snd choice = CC_UNRESTRICTED) weapons)))
           (\<lambda>rs. resolve_weapon ng ng_choice weapons (rs @- t)
                   = Inr (ng\<lparr>weapon := fst wc\<rparr>, t))
         = 1 / of_nat (length (filter (\<lambda>choice. snd choice = CC_UNRESTRICTED) weapons))"
    by simp
next
  assume "species ng = SP_UNKNOWN \<and> species ng_choice = SP_VIABLE
        \<and> (\<forall>x\<in>set species_order. species_allowed env (job ng) x \<noteq> CC_UNRESTRICTED)"
  then show "resolve_species env ng ng_choice g = resolve_species_random env ng g"
    by (intro resolve_species_viable_empty) simp_all
next
  assume "job ng = JOB_UNKNOWN \<and> job ng_choice = JOB_VIABLE
        \<and> (\<forall>x\<in>set (all_jobs env). job_allowed env (species ng) x \<noteq> CC_UNRESTRICTED)"
  then show "resolve_job env ng ng_choice g = resolve_job_random env ng g"
    by (intro resolve_job_viable_empty) simp_all
next
  assume "\<forall>x\<in>set weapons. snd x \<noteq> CC_UNRESTRICTED"
  then show "resolve_weapon_switch WPN_VIABLE ng ng_choice weapons g
        = resolve_weapon_random ng weapons g"
    by (rule resolve_weapon_viable_empty)
qed


theorem reservoir_uniform_witness:
  "distinct (map (\<lambda>sp. sp) (filter (\<lambda>sp. sp \<noteq> SP_FELID) [SP_HUMAN, SP_FELID, SP_TROLL, SP_NAGA]))
   \<and> SP_TROLL \<in> set [SP_HUMAN, SP_FELID, SP_TROLL, SP_NAGA] \<and> SP_TROLL \<noteq> SP_FELID
   \<and> prob (outcomes 0 3)
       (\<lambda>rs. fst (snd (reservoir (\<lambda>sp. sp \<noteq> SP_FELID) (\<lambda>sp. sp)
                [SP_HUMAN, SP_FELID, SP_TROLL, SP_NAGA] (0, SP_UNKNOWN, rs @- sconst 0))) = SP_TROLL)
     = 1 / 3
   \<and> length (filter (\<lambda>sp. sp = SP_FELID) [SP_HUMAN, SP_TROLL]) = 0
   \<and> reservoir (\<lambda>sp. sp = SP_FELID) (\<lambda>sp. sp) [SP_HUMAN, SP_TROLL] (0, SP_UNKNOWN, sconst 0)
     = (0, SP_UNKNOWN, sconst 0)
   \<and> list_all (\<lambda>j. j \<noteq> JOB_MONK \<longrightarrow> is_starting_job j) [JOB_FIGHTER, JOB_MONK, JOB_WIZARD]
   \<and> reservoir_jobs (\<lambda>j. j \<noteq> JOB_MONK) [JOB_FIGHTER, JOB_MONK, JOB_WIZARD]
         (0, JOB_UNKNOWN, sconst 0)
     = Inr (reservoir (\<lambda>j. j \<noteq> JOB_MONK) (\<lambda>j. j) [JOB_FIGHTER, JOB_MONK, JOB_WIZARD]
         (0, JOB_UNKNOWN, sconst 0))
   \<and> species (newgame_def0\<lparr>job := JOB_FIGHTER\<rparr>) = SP_UNKNOWN
   \<and> job (newgame_def0\<lparr>job := JOB_FIGHTER\<rparr>) \<noteq> JOB_UNKNOWN
   \<and> SP_NAGA \<in> set species_order
   \<and> species_allowed ext_graded (job (newgame_def0\<lparr>job := JOB_FIGHTER\<rparr>)) SP_NAGA = CC_UNRESTRICTED
   \<and> prob (outcomes 0 2)
       (\<lambda>rs. resolve_species ext_graded (newgame_def0\<lparr>job := JOB_FIGHTER\<rparr>)
                (newgame_def0\<lparr>species := SP_VIABLE\<rparr>) (rs @- sconst 0)
              = Some (Inr (newgame_def0\<lparr>job := JOB_FIGHTER, species := SP_NAGA\<rparr>, sconst 0)))
     = 1 / 2
   \<and> SP_HUMAN \<in> set species_order
   \<and> species_allowed ext_graded (job (newgame_def0\<lparr>job := JOB_FIGHTER\<rparr>)) SP_HUMAN \<noteq> CC_BANNED
   \<and> prob (outcomes 0 3)
       (\<lambda>rs. resolve_species ext_graded (newgame_def0\<lparr>job := JOB_FIGHTER\<rparr>)
                (newgame_def0\<lparr>species := SP_RANDOM\<rparr>) (rs @- sconst 0)
              = Some (Inr (newgame_def0\<lparr>job := JOB_FIGHTER, species := SP_HUMAN\<rparr>, sconst 0)))
     = 1 / 3
   \<and> job (newgame_def0\<lparr>species := SP_HUMAN\<rparr>) = JOB_UNKNOWN
   \<and> species (newgame_def0\<lparr>species := SP_HUMAN\<rparr>) \<noteq> SP_UNKNOWN
   \<and> distinct (all_jobs ext_graded)
   \<and> list_all (\<lambda>j. job_allowed ext_graded (species (newgame_def0\<lparr>species := SP_HUMAN\<rparr>)) j
                     \<noteq> CC_BANNED \<longrightarrow> is_starting_job j) (all_jobs ext_graded)
   \<and> JOB_FIGHTER \<in> set (all_jobs ext_graded)
   \<and> job_allowed ext_graded (species (newgame_def0\<lparr>species := SP_HUMAN\<rparr>)) JOB_FIGHTER
       = CC_UNRESTRICTED
   \<and> prob (outcomes 0 1)
       (\<lambda>rs. resolve_job ext_graded (newgame_def0\<lparr>species := SP_HUMAN\<rparr>)
                (newgame_def0\<lparr>job := JOB_VIABLE\<rparr>) (rs @- sconst 0)
              = Some (Inr (newgame_def0\<lparr>species := SP_HUMAN, job := JOB_FIGHTER\<rparr>, sconst 0)))
     = 1
   \<and> JOB_WIZARD \<in> set (all_jobs ext_graded)
   \<and> job_allowed ext_graded (species (newgame_def0\<lparr>species := SP_HUMAN\<rparr>)) JOB_WIZARD
       \<noteq> CC_BANNED
   \<and> prob (outcomes 0 2)
       (\<lambda>rs. resolve_job ext_graded (newgame_def0\<lparr>species := SP_HUMAN\<rparr>)
                (newgame_def0\<lparr>job := JOB_RANDOM\<rparr>) (rs @- sconst 0)
              = Some (Inr (newgame_def0\<lparr>species := SP_HUMAN, job := JOB_WIZARD\<rparr>, sconst 0)))
     = 1 / 2
   \<and> distinct (map fst (filter (\<lambda>choice. snd choice = CC_UNRESTRICTED)
        [(WPN_MACE, CC_UNRESTRICTED), (WPN_SPEAR, CC_RESTRICTED), (WPN_HAND_AXE, CC_UNRESTRICTED)]))
   \<and> prob (outcomes 0 2)
       (\<lambda>rs. resolve_weapon_switch WPN_VIABLE newgame_def0 (newgame_def0\<lparr>weapon := WPN_VIABLE\<rparr>)
                [(WPN_MACE, CC_UNRESTRICTED), (WPN_SPEAR, CC_RESTRICTED),
                 (WPN_HAND_AXE, CC_UNRESTRICTED)] (rs @- sconst 0)
              = Inr (newgame_def0\<lparr>weapon := WPN_HAND_AXE\<rparr>, sconst 0))
     = 1 / 2
   \<and> prob (outcomes 0 2)
       (\<lambda>rs. resolve_weapon newgame_def0 (newgame_def0\<lparr>weapon := WPN_VIABLE\<rparr>)
                [(WPN_MACE, CC_UNRESTRICTED), (WPN_SPEAR, CC_RESTRICTED),
                 (WPN_HAND_AXE, CC_UNRESTRICTED)] (rs @- sconst 0)
              = Inr (newgame_def0\<lparr>weapon := WPN_HAND_AXE\<rparr>, sconst 0))
     = 1 / 2
   \<and> list_all (\<lambda>x. species_allowed ext_restricted (job (newgame_def0\<lparr>job := JOB_FIGHTER\<rparr>)) x
                     \<noteq> CC_UNRESTRICTED) species_order
   \<and> resolve_species ext_restricted (newgame_def0\<lparr>job := JOB_FIGHTER\<rparr>)
        (newgame_def0\<lparr>species := SP_VIABLE\<rparr>) (sconst 0)
     = resolve_species_random ext_restricted (newgame_def0\<lparr>job := JOB_FIGHTER\<rparr>) (sconst 0)
   \<and> list_all (\<lambda>x. job_allowed ext_allowed (species (newgame_def0\<lparr>species := SP_HUMAN\<rparr>)) x
                     \<noteq> CC_UNRESTRICTED) (all_jobs ext_allowed)
   \<and> resolve_job ext_allowed (newgame_def0\<lparr>species := SP_HUMAN\<rparr>)
        (newgame_def0\<lparr>job := JOB_VIABLE\<rparr>) (sconst 0)
     = resolve_job_random ext_allowed (newgame_def0\<lparr>species := SP_HUMAN\<rparr>) (sconst 0)
   \<and> list_all (\<lambda>x. snd x \<noteq> CC_UNRESTRICTED) [(WPN_MACE, CC_RESTRICTED)]
   \<and> resolve_weapon_switch WPN_VIABLE newgame_def0 newgame_def0 [(WPN_MACE, CC_RESTRICTED)]
        (sconst 0)
     = resolve_weapon_random newgame_def0 [(WPN_MACE, CC_RESTRICTED)] (sconst 0)"
proof -
  let ?ngf = "newgame_def0\<lparr>job := JOB_FIGHTER\<rparr>"
  let ?ngh = "newgame_def0\<lparr>species := SP_HUMAN\<rparr>"
  let ?ws = "[(WPN_MACE, CC_UNRESTRICTED), (WPN_SPEAR, CC_RESTRICTED),
              (WPN_HAND_AXE, CC_UNRESTRICTED)]"
  have j: "\<forall>j\<in>set [JOB_FIGHTER, JOB_MONK, JOB_WIZARD]. j \<noteq> JOB_MONK \<longrightarrow> is_starting_job j"
    by (simp add: is_starting_job_def jobs_order_def)
  then have j': "list_all (\<lambda>j. j \<noteq> JOB_MONK \<longrightarrow> is_starting_job j)
      [JOB_FIGHTER, JOB_MONK, JOB_WIZARD]"
    by (simp add: list_all_iff)
  note t1 = reservoir_uniform[where val = "\<lambda>sp. sp" and pred = "\<lambda>sp. sp \<noteq> SP_FELID"
          and cs = "[SP_HUMAN, SP_FELID, SP_TROLL, SP_NAGA]" and s = SP_UNKNOWN
          and t = "sconst 0" and g = "sconst 0"
          and js = "[JOB_FIGHTER, JOB_MONK, JOB_WIZARD]" and pred_job = "\<lambda>j. j \<noteq> JOB_MONK"
          and st = "(0, JOB_UNKNOWN, sconst 0)"]
  note t2 = reservoir_uniform[where val = "\<lambda>sp. sp" and pred = "\<lambda>sp. sp = SP_FELID"
          and cs = "[SP_HUMAN, SP_TROLL]" and s = SP_UNKNOWN and g = "sconst 0"]
  from t1[THEN conjunct2, THEN conjunct2, THEN conjunct2, THEN conjunct1] j
  have 3: "reservoir_jobs (\<lambda>j. j \<noteq> JOB_MONK) [JOB_FIGHTER, JOB_MONK, JOB_WIZARD]
         (0, JOB_UNKNOWN, sconst 0)
     = Inr (reservoir (\<lambda>j. j \<noteq> JOB_MONK) (\<lambda>j. j) [JOB_FIGHTER, JOB_MONK, JOB_WIZARD]
         (0, JOB_UNKNOWN, sconst 0))"
    by blast
  from t1[THEN conjunct1] t2[THEN conjunct2, THEN conjunct2, THEN conjunct1]
  have 12: "distinct (map (\<lambda>sp. sp)
        (filter (\<lambda>sp. sp \<noteq> SP_FELID) [SP_HUMAN, SP_FELID, SP_TROLL, SP_NAGA]))
   \<and> SP_TROLL \<in> set [SP_HUMAN, SP_FELID, SP_TROLL, SP_NAGA] \<and> SP_TROLL \<noteq> SP_FELID
   \<and> prob (outcomes 0 3)
       (\<lambda>rs. fst (snd (reservoir (\<lambda>sp. sp \<noteq> SP_FELID) (\<lambda>sp. sp)
                [SP_HUMAN, SP_FELID, SP_TROLL, SP_NAGA] (0, SP_UNKNOWN, rs @- sconst 0))) = SP_TROLL)
     = 1 / 3
   \<and> length (filter (\<lambda>sp. sp = SP_FELID) [SP_HUMAN, SP_TROLL]) = 0
   \<and> reservoir (\<lambda>sp. sp = SP_FELID) (\<lambda>sp. sp) [SP_HUMAN, SP_TROLL] (0, SP_UNKNOWN, sconst 0)
     = (0, SP_UNKNOWN, sconst 0)"
    by (simp del: reservoir.simps reservoir_jobs.simps outcomes.simps add: numeral_3_eq_3)
  let ?cv = "newgame_def0\<lparr>species := SP_VIABLE\<rparr>"
  let ?cr = "newgame_def0\<lparr>species := SP_RANDOM\<rparr>"
  let ?jv = "newgame_def0\<lparr>job := JOB_VIABLE\<rparr>"
  let ?jr = "newgame_def0\<lparr>job := JOB_RANDOM\<rparr>"
  have hf: "species ?ngf = SP_UNKNOWN" "job ?ngf \<noteq> JOB_UNKNOWN"
    by (simp_all add: newgame_def0_def)
  have hh: "job ?ngh = JOB_UNKNOWN" "species ?ngh \<noteq> SP_UNKNOWN"
    by (simp_all add: newgame_def0_def)
  have so: "SP_NAGA \<in> set species_order" "SP_HUMAN \<in> set species_order"
    by (simp_all add: species_order_def)
  have lv: "length (filter (\<lambda>x. species_allowed ext_graded (job ?ngf) x = CC_UNRESTRICTED)
                      species_order) = 2"
    and lr: "length (filter (\<lambda>x. species_allowed ext_graded (job ?ngf) x \<noteq> CC_BANNED)
                      species_order) = 3"
    by (simp_all add: ext_graded_simps species_order_def)
  have sv: "species_allowed ext_graded (job ?ngf) SP_NAGA = CC_UNRESTRICTED"
    and sr: "species_allowed ext_graded (job ?ngf) SP_HUMAN \<noteq> CC_BANNED"
    by (simp_all add: ext_graded_simps)
  have h5: "species ?ngf = SP_UNKNOWN \<and> species ?cv = SP_VIABLE
        \<and> SP_NAGA \<in> set species_order
        \<and> species_allowed ext_graded (job ?ngf) SP_NAGA = CC_UNRESTRICTED"
    using hf so sv by simp
  have h6: "species ?ngf = SP_UNKNOWN \<and> species ?cr = SP_RANDOM \<and> job ?ngf \<noteq> JOB_UNKNOWN
        \<and> SP_HUMAN \<in> set species_order
        \<and> species_allowed ext_graded (job ?ngf) SP_HUMAN \<noteq> CC_BANNED"
    using hf so sr by simp
  from reservoir_uniform[where t = "sconst 0" and g = "sconst 0" and env = ext_graded
      and ng = ?ngf and ng_choice = ?cv and sp = SP_NAGA,
      THEN conjunct2, THEN conjunct2, THEN conjunct2, THEN conjunct2, THEN conjunct1,
      THEN mp, OF h5]
  have p5: "prob (outcomes 0 2)
       (\<lambda>rs. resolve_species ext_graded ?ngf ?cv (rs @- sconst 0)
              = Some (Inr (newgame_def0\<lparr>job := JOB_FIGHTER, species := SP_NAGA\<rparr>, sconst 0)))
     = 1 / 2"
    by (simp only: lv of_nat_numeral)
  from reservoir_uniform[where t = "sconst 0" and g = "sconst 0" and env = ext_graded
      and ng = ?ngf and ng_choice = ?cr and sp = SP_HUMAN,
      THEN conjunct2, THEN conjunct2, THEN conjunct2, THEN conjunct2, THEN conjunct2,
      THEN conjunct1, THEN mp, OF h6]
  have p6: "prob (outcomes 0 3)
       (\<lambda>rs. resolve_species ext_graded ?ngf ?cr (rs @- sconst 0)
              = Some (Inr (newgame_def0\<lparr>job := JOB_FIGHTER, species := SP_HUMAN\<rparr>, sconst 0)))
     = 1 / 3"
    by (simp only: lr of_nat_numeral)
  have dj: "distinct (all_jobs ext_graded)"
    and aj: "\<forall>j\<in>set (all_jobs ext_graded). job_allowed ext_graded (species ?ngh) j \<noteq> CC_BANNED
               \<longrightarrow> is_starting_job j"
    and mj: "JOB_FIGHTER \<in> set (all_jobs ext_graded)" "JOB_WIZARD \<in> set (all_jobs ext_graded)"
    and jv: "job_allowed ext_graded (species ?ngh) JOB_FIGHTER = CC_UNRESTRICTED"
    and jr: "job_allowed ext_graded (species ?ngh) JOB_WIZARD \<noteq> CC_BANNED"
    and ljv: "length (filter (\<lambda>x. job_allowed ext_graded (species ?ngh) x = CC_UNRESTRICTED)
                      (all_jobs ext_graded)) = 1"
    and ljr: "length (filter (\<lambda>x. job_allowed ext_graded (species ?ngh) x \<noteq> CC_BANNED)
                      (all_jobs ext_graded)) = 2"
    by (simp_all add: ext_graded_simps is_starting_job_def jobs_order_def)
  from aj have aj': "list_all (\<lambda>j. job_allowed ext_graded (species ?ngh) j \<noteq> CC_BANNED
               \<longrightarrow> is_starting_job j) (all_jobs ext_graded)"
    by (simp only: list_all_iff)
  have h7: "job ?ngh = JOB_UNKNOWN \<and> job ?jv = JOB_VIABLE \<and> distinct (all_jobs ext_graded)
        \<and> JOB_FIGHTER \<in> set (all_jobs ext_graded)
        \<and> job_allowed ext_graded (species ?ngh) JOB_FIGHTER = CC_UNRESTRICTED"
    using hh dj mj jv by simp
  have h8: "job ?ngh = JOB_UNKNOWN \<and> job ?jr = JOB_RANDOM \<and> species ?ngh \<noteq> SP_UNKNOWN
        \<and> distinct (all_jobs ext_graded)
        \<and> (\<forall>j\<in>set (all_jobs ext_graded). job_allowed ext_graded (species ?ngh) j \<noteq> CC_BANNED
              \<longrightarrow> is_starting_job j)
        \<and> JOB_WIZARD \<in> set (all_jobs ext_graded)
        \<and> job_allowed ext_graded (species ?ngh) JOB_WIZARD \<noteq> CC_BANNED"
    using hh dj aj mj jr by simp
  from reservoir_uniform[where t = "sconst 0" and g = "sconst 0" and env = ext_graded
      and ng = ?ngh and ng_choice = ?jv and jb = JOB_FIGHTER,
      THEN conjunct2, THEN conjunct2, THEN conjunct2, THEN conjunct2, THEN conjunct2,
      THEN conjunct2, THEN conjunct1, THEN mp, OF h7]
  have p7: "prob (outcomes 0 1)
       (\<lambda>rs. resolve_job ext_graded ?ngh ?jv (rs @- sconst 0)
              = Some (Inr (newgame_def0\<lparr>species := SP_HUMAN, job := JOB_FIGHTER\<rparr>, sconst 0)))
     = 1"
    by (simp only: ljv of_nat_1 div_by_1)
  from reservoir_uniform[where t = "sconst 0" and g = "sconst 0" and env = ext_graded
      and ng = ?ngh and ng_choice = ?jr and jb = JOB_WIZARD,
      THEN conjunct2, THEN conjunct2, THEN conjunct2, THEN conjunct2, THEN conjunct2,
      THEN conjunct2, THEN conjunct2, THEN conjunct1, THEN mp, OF h8]
  have p8: "prob (outcomes 0 2)
       (\<lambda>rs. resolve_job ext_graded ?ngh ?jr (rs @- sconst 0)
              = Some (Inr (newgame_def0\<lparr>species := SP_HUMAN, job := JOB_WIZARD\<rparr>, sconst 0)))
     = 1 / 2"
    by (simp only: ljr of_nat_numeral)
  let ?wv = "newgame_def0\<lparr>weapon := WPN_VIABLE\<rparr>"
  have dw: "distinct (map fst (filter (\<lambda>choice. snd choice = CC_UNRESTRICTED) ?ws))"
    and lw: "length (filter (\<lambda>choice. snd choice = CC_UNRESTRICTED) ?ws) = 2"
    by simp_all
  have h9: "distinct (map fst (filter (\<lambda>choice. snd choice = CC_UNRESTRICTED) ?ws))
        \<and> (WPN_HAND_AXE, CC_UNRESTRICTED) \<in> set ?ws
        \<and> snd (WPN_HAND_AXE, CC_UNRESTRICTED) = CC_UNRESTRICTED"
    by simp
  have hw: "allowed_weapons ?wv = [] \<and> weapon ?wv = WPN_VIABLE"
    by (simp add: newgame_def0_def)
  note r9 = reservoir_uniform[where t = "sconst 0" and g = "sconst 0" and weapons = ?ws
      and wc = "(WPN_HAND_AXE, CC_UNRESTRICTED)" and ng = newgame_def0 and ng_choice = ?wv,
      THEN conjunct2, THEN conjunct2, THEN conjunct2, THEN conjunct2, THEN conjunct2,
      THEN conjunct2, THEN conjunct2, THEN conjunct2, THEN conjunct1, THEN mp, OF h9]
  from r9[THEN conjunct1]
  have p9a: "prob (outcomes 0 2)
       (\<lambda>rs. resolve_weapon_switch WPN_VIABLE newgame_def0 ?wv ?ws (rs @- sconst 0)
              = Inr (newgame_def0\<lparr>weapon := WPN_HAND_AXE\<rparr>, sconst 0))
     = 1 / 2"
    by (simp only: lw of_nat_numeral fst_conv)
  from r9[THEN conjunct2, THEN mp, OF hw]
  have p9b: "prob (outcomes 0 2)
       (\<lambda>rs. resolve_weapon newgame_def0 ?wv ?ws (rs @- sconst 0)
              = Inr (newgame_def0\<lparr>weapon := WPN_HAND_AXE\<rparr>, sconst 0))
     = 1 / 2"
    by (simp only: lw of_nat_numeral fst_conv)
  have er: "\<forall>x\<in>set species_order. species_allowed ext_restricted (job ?ngf) x \<noteq> CC_UNRESTRICTED"
    and ej: "\<forall>x\<in>set (all_jobs ext_allowed).
                job_allowed ext_allowed (species ?ngh) x \<noteq> CC_UNRESTRICTED"
    by (simp_all add: ext_restricted_def ext_allowed_def ext0_def)
  from er have er': "list_all (\<lambda>x. species_allowed ext_restricted (job ?ngf) x \<noteq> CC_UNRESTRICTED)
      species_order"
    by (simp only: list_all_iff)
  from ej have ej': "list_all (\<lambda>x. job_allowed ext_allowed (species ?ngh) x \<noteq> CC_UNRESTRICTED)
      (all_jobs ext_allowed)"
    by (simp only: list_all_iff)
  have h10: "species ?ngf = SP_UNKNOWN \<and> species ?cv = SP_VIABLE
        \<and> (\<forall>x\<in>set species_order.
              species_allowed ext_restricted (job ?ngf) x \<noteq> CC_UNRESTRICTED)"
    using hf er by simp
  have h11: "job ?ngh = JOB_UNKNOWN \<and> job ?jv = JOB_VIABLE
        \<and> (\<forall>x\<in>set (all_jobs ext_allowed).
              job_allowed ext_allowed (species ?ngh) x \<noteq> CC_UNRESTRICTED)"
    using hh ej by simp
  note p10 = reservoir_uniform[where t = "sconst 0" and g = "sconst 0"
      and env = ext_restricted and ng = ?ngf and ng_choice = ?cv,
      THEN conjunct2, THEN conjunct2, THEN conjunct2, THEN conjunct2, THEN conjunct2,
      THEN conjunct2, THEN conjunct2, THEN conjunct2, THEN conjunct2, THEN conjunct1,
      THEN mp, OF h10]
  note p11 = reservoir_uniform[where t = "sconst 0" and g = "sconst 0"
      and env = ext_allowed and ng = ?ngh and ng_choice = ?jv,
      THEN conjunct2, THEN conjunct2, THEN conjunct2, THEN conjunct2, THEN conjunct2,
      THEN conjunct2, THEN conjunct2, THEN conjunct2, THEN conjunct2, THEN conjunct2,
      THEN conjunct1, THEN mp, OF h11]
  have ew: "\<forall>x\<in>set [(WPN_MACE, CC_RESTRICTED)]. snd x \<noteq> CC_UNRESTRICTED" by simp
  then have ew': "list_all (\<lambda>x. snd x \<noteq> CC_UNRESTRICTED) [(WPN_MACE, CC_RESTRICTED)]" by simp
  note p12 = reservoir_uniform[where t = "sconst 0" and g = "sconst 0"
      and weapons = "[(WPN_MACE, CC_RESTRICTED)]" and ng = newgame_def0
      and ng_choice = newgame_def0,
      THEN conjunct2, THEN conjunct2, THEN conjunct2, THEN conjunct2, THEN conjunct2,
      THEN conjunct2, THEN conjunct2, THEN conjunct2, THEN conjunct2, THEN conjunct2,
      THEN conjunct2, THEN mp, OF ew]
  from 12 j' 3 hf so sv sr p5 p6 hh dj aj' mj jv jr p7 p8 dw p9a p9b er' p10 ej' p11 ew' p12
  show ?thesis by (intro conjI) (simp_all only: simp_thms)
qed


subsection \<open>Single-field resolution\<close>

lemma and_then_Inr:
  "and_then m f = Some (Inr y) \<longleftrightarrow> (\<exists>x. m = Some (Inr x) \<and> f x = Some (Inr y))"
proof (cases m)
  case None
  then show ?thesis by simp
next
  case (Some r)
  then show ?thesis by (cases r) simp_all
qed

lemma resolve_species_frame:
  "resolve_species env ng ng_choice g = Some (Inr (ng', g')) \<Longrightarrow> ng' = ng\<lparr>species := species ng'\<rparr>"
  unfolding resolve_species_def resolve_species_random_def
  by (auto split: if_splits prod.splits option.splits)

lemma resolve_job_frame:
  "resolve_job env ng ng_choice g = Some (Inr (ng', g')) \<Longrightarrow> ng' = ng\<lparr>job := job ng'\<rparr>"
  unfolding resolve_job_def resolve_job_random_def
  by (auto split: if_splits prod.splits option.splits sum.splits)

lemma resolve_species_concrete:
  "species ng \<noteq> SP_UNKNOWN \<Longrightarrow> resolve_species env ng ng_choice g = Some (Inr (ng, g))"
  by (simp add: resolve_species_def)

lemma resolve_job_concrete:
  "job ng \<noteq> JOB_UNKNOWN \<Longrightarrow> resolve_job env ng ng_choice g = Some (Inr (ng, g))"
  by (simp add: resolve_job_def)

lemma species_then_job_keeps:
  assumes "species_then_job env ng ng_choice g = Some (Inr (ng', g'))"
  shows "(species ng \<noteq> SP_UNKNOWN \<longrightarrow> species ng' = species ng)
       \<and> (job ng \<noteq> JOB_UNKNOWN \<longrightarrow> job ng' = job ng)"
proof -
  from assms obtain ng1 g1 where
    1: "resolve_species env ng ng_choice g = Some (Inr (ng1, g1))" and
    2: "resolve_job env ng1 ng_choice g1 = Some (Inr (ng', g'))"
    unfolding species_then_job_def and_then_Inr by auto
  from resolve_species_frame[OF 1] obtain sp where sp: "ng1 = ng\<lparr>species := sp\<rparr>" by blast
  from resolve_job_frame[OF 2] obtain j where j: "ng' = ng1\<lparr>job := j\<rparr>" by blast
  have "species ng \<noteq> SP_UNKNOWN \<longrightarrow> ng1 = ng"
    using 1 by (auto simp add: resolve_species_concrete)
  moreover have "job ng1 \<noteq> JOB_UNKNOWN \<longrightarrow> ng' = ng1"
    using 2 by (auto simp add: resolve_job_concrete)
  ultimately show ?thesis using sp j by auto
qed

lemma job_then_species_keeps:
  assumes "job_then_species env ng ng_choice g = Some (Inr (ng', g'))"
  shows "(species ng \<noteq> SP_UNKNOWN \<longrightarrow> species ng' = species ng)
       \<and> (job ng \<noteq> JOB_UNKNOWN \<longrightarrow> job ng' = job ng)"
proof -
  from assms obtain ng1 g1 where
    1: "resolve_job env ng ng_choice g = Some (Inr (ng1, g1))" and
    2: "resolve_species env ng1 ng_choice g1 = Some (Inr (ng', g'))"
    unfolding job_then_species_def and_then_Inr by auto
  from resolve_job_frame[OF 1] obtain j where j: "ng1 = ng\<lparr>job := j\<rparr>" by blast
  from resolve_species_frame[OF 2] obtain sp where sp: "ng' = ng1\<lparr>species := sp\<rparr>" by blast
  have "job ng \<noteq> JOB_UNKNOWN \<longrightarrow> ng1 = ng"
    using 1 by (auto simp add: resolve_job_concrete)
  moreover have "species ng1 \<noteq> SP_UNKNOWN \<longrightarrow> ng' = ng1"
    using 2 by (auto simp add: resolve_species_concrete)
  ultimately show ?thesis using sp j by auto
qed

lemma resolve_species_job_keeps:
  assumes "resolve_species_job env ng ng_choice g = Some (Inr (ng', g'))"
  shows "(species ng \<noteq> SP_UNKNOWN \<longrightarrow> species ng' = species ng)
       \<and> (job ng \<noteq> JOB_UNKNOWN \<longrightarrow> job ng' = job ng)"
  using assms species_then_job_keeps job_then_species_keeps
  unfolding resolve_species_job_def
  by (fastforce split: prod.splits bool.splits)

text \<open>
  Claim C6. If the species (the job) of the resolved record is already concrete,
  \<^verbatim>\<open>_resolve_species\<close> (\<^verbatim>\<open>_resolve_job\<close>) returns at once: the record and the random source
  are as before, whatever the request. So a second run of the step, under any request,
  changes nothing either, and \<^verbatim>\<open>_resolve_species_job\<close> leaves every field that was
  concrete on entry as it was.
\<close>

theorem resolve_keeps_concrete_field:
  "(species ng \<noteq> SP_UNKNOWN \<longrightarrow>
      resolve_species env ng ng_choice g = Some (Inr (ng, g))
      \<and> and_then (resolve_species env ng ng_choice g)
          (\<lambda>(ng1, g1). resolve_species env ng1 ng_choice' g1) = Some (Inr (ng, g)))
   \<and> (job ng \<noteq> JOB_UNKNOWN \<longrightarrow>
      resolve_job env ng ng_choice g = Some (Inr (ng, g))
      \<and> and_then (resolve_job env ng ng_choice g)
          (\<lambda>(ng1, g1). resolve_job env ng1 ng_choice' g1) = Some (Inr (ng, g)))
   \<and> (resolve_species_job env ng ng_choice g = Some (Inr (ng', g')) \<longrightarrow>
        (species ng \<noteq> SP_UNKNOWN \<longrightarrow> species ng' = species ng)
        \<and> (job ng \<noteq> JOB_UNKNOWN \<longrightarrow> job ng' = job ng))"
  using resolve_species_job_keeps[of env ng ng_choice g ng' g']
  by (simp add: resolve_species_concrete resolve_job_concrete)

theorem resolve_keeps_concrete_field_witness:
  "species (newgame_def0\<lparr>species := SP_TROLL, job := JOB_MONK\<rparr>) \<noteq> SP_UNKNOWN
   \<and> job (newgame_def0\<lparr>species := SP_TROLL, job := JOB_MONK\<rparr>) \<noteq> JOB_UNKNOWN
   \<and> resolve_species ext0 (newgame_def0\<lparr>species := SP_TROLL, job := JOB_MONK\<rparr>)
        (newgame_def0\<lparr>species := SP_RANDOM, job := JOB_VIABLE\<rparr>) (sconst 1)
      = Some (Inr (newgame_def0\<lparr>species := SP_TROLL, job := JOB_MONK\<rparr>, sconst 1))
   \<and> resolve_job ext0 (newgame_def0\<lparr>species := SP_TROLL, job := JOB_MONK\<rparr>)
        (newgame_def0\<lparr>species := SP_RANDOM, job := JOB_VIABLE\<rparr>) (sconst 1)
      = Some (Inr (newgame_def0\<lparr>species := SP_TROLL, job := JOB_MONK\<rparr>, sconst 1))
   \<and> resolve_species_job ext0 (newgame_def0\<lparr>species := SP_TROLL, job := JOB_MONK\<rparr>)
        (newgame_def0\<lparr>species := SP_RANDOM, job := JOB_VIABLE\<rparr>) (sconst 1)
      = Some (Inr (newgame_def0\<lparr>species := SP_TROLL, job := JOB_MONK\<rparr>, sconst 1))"
proof -
  let ?ng = "newgame_def0\<lparr>species := SP_TROLL, job := JOB_MONK\<rparr>"
  let ?c = "newgame_def0\<lparr>species := SP_RANDOM, job := JOB_VIABLE\<rparr>"
  have sp: "species ?ng \<noteq> SP_UNKNOWN" and jb: "job ?ng \<noteq> JOB_UNKNOWN" by simp_all
  have r: "resolve_species_job ext0 ?ng ?c (sconst 1) = Some (Inr (?ng, sconst 1))"
    by (simp add: resolve_species_job_def species_first_def species_then_job_def
        resolve_species_def resolve_job_def newgame_def0_def)
  from resolve_keeps_concrete_field[of ?ng ext0 ?c "sconst 1" ?c ?ng "sconst 1"] sp jb r
  show ?thesis by simp
qed

text \<open>
  Claim C5. A RANDOM draw of the species for a concrete job, or a VIABLE one that has
  fallen through, in which the oracle bans every species of \<open>species_order\<close> for that job
  ends the process with exit code 1 and the message ``Failed to find legal species.'';
  the loop before it has counted 0 and left the species unknown. The same holds for the
  draw of the job for a concrete species, with ``Failed to find legal background.''.
  No record is returned in either case.
\<close>

theorem no_legal_candidate_is_fatal:
  "(species ng = SP_UNKNOWN \<and> job ng \<noteq> JOB_UNKNOWN
      \<and> (species ng_choice = SP_RANDOM \<or> species ng_choice = SP_VIABLE)
      \<and> (\<forall>sp\<in>set species_order. species_allowed env (job ng) sp = CC_BANNED) \<longrightarrow>
        resolve_species env ng ng_choice g = Some (Inl (End 1 ''Failed to find legal species.''))
        \<and> reservoir (\<lambda>sp. is_good_combination env sp (job ng) False False) (\<lambda>sp. sp)
            species_order (0, species ng, g) = (0, SP_UNKNOWN, g))
   \<and> (job ng = JOB_UNKNOWN \<and> species ng \<noteq> SP_UNKNOWN
      \<and> (job ng_choice = JOB_RANDOM \<or> job ng_choice = JOB_VIABLE)
      \<and> (\<forall>j\<in>set (all_jobs env). job_allowed env (species ng) j = CC_BANNED) \<longrightarrow>
        resolve_job env ng ng_choice g = Some (Inl (End 1 ''Failed to find legal background.''))
        \<and> reservoir_jobs (\<lambda>j. is_good_combination env (species ng) j True False)
            (all_jobs env) (0, job ng, g) = Inr (0, JOB_UNKNOWN, g))"
proof (intro conjI impI)
  assume a: "species ng = SP_UNKNOWN \<and> job ng \<noteq> JOB_UNKNOWN
      \<and> (species ng_choice = SP_RANDOM \<or> species ng_choice = SP_VIABLE)
      \<and> (\<forall>sp\<in>set species_order. species_allowed env (job ng) sp = CC_BANNED)"
  then have v: "reservoir (\<lambda>sp. is_good_combination env sp (job ng) False True) (\<lambda>sp. sp)
            species_order (0, SP_UNKNOWN, g) = (0, SP_UNKNOWN, g)"
    by (intro reservoir_none) (simp add: is_good_combination_def)
  from a show r: "reservoir (\<lambda>sp. is_good_combination env sp (job ng) False False) (\<lambda>sp. sp)
            species_order (0, species ng, g) = (0, SP_UNKNOWN, g)"
    by (simp add: reservoir_none is_good_combination_def)
  from a v r show
    "resolve_species env ng ng_choice g = Some (Inl (End 1 ''Failed to find legal species.''))"
    by (auto simp add: resolve_species_def resolve_species_random_def)
next
  assume a: "job ng = JOB_UNKNOWN \<and> species ng \<noteq> SP_UNKNOWN
      \<and> (job ng_choice = JOB_RANDOM \<or> job ng_choice = JOB_VIABLE)
      \<and> (\<forall>j\<in>set (all_jobs env). job_allowed env (species ng) j = CC_BANNED)"
  then have v: "reservoir (\<lambda>j. is_good_combination env (species ng) j True True) (\<lambda>j. j)
            (all_jobs env) (0, JOB_UNKNOWN, g) = (0, JOB_UNKNOWN, g)"
    by (intro reservoir_none) (simp add: is_good_combination_def)
  from a show r: "reservoir_jobs (\<lambda>j. is_good_combination env (species ng) j True False)
            (all_jobs env) (0, job ng, g) = Inr (0, JOB_UNKNOWN, g)"
    by (simp add: reservoir_jobs_none is_good_combination_def)
  from a v r show
    "resolve_job env ng ng_choice g = Some (Inl (End 1 ''Failed to find legal background.''))"
    by (auto simp add: resolve_job_def resolve_job_random_def)
qed

theorem no_legal_candidate_is_fatal_witness:
  "list_all (\<lambda>sp. species_allowed ext_banned JOB_FIGHTER sp = CC_BANNED) species_order
   \<and> resolve_species ext_banned (newgame_def0\<lparr>job := JOB_FIGHTER\<rparr>)
       (newgame_def0\<lparr>species := SP_RANDOM, job := JOB_FIGHTER\<rparr>) (sconst 0)
     = Some (Inl (End 1 ''Failed to find legal species.''))
   \<and> list_all (\<lambda>j. job_allowed ext_banned SP_HUMAN j = CC_BANNED) (all_jobs ext_banned)
   \<and> resolve_job ext_banned (newgame_def0\<lparr>species := SP_HUMAN\<rparr>)
       (newgame_def0\<lparr>species := SP_HUMAN, job := JOB_VIABLE\<rparr>) (sconst 0)
     = Some (Inl (End 1 ''Failed to find legal background.''))"
proof -
  have b: "species_allowed ext_banned = (\<lambda>jb sp. CC_BANNED)"
          "job_allowed ext_banned = (\<lambda>sp jb. CC_BANNED)"
    by (simp_all add: ext_banned_def ext0_def)
  show ?thesis
    using no_legal_candidate_is_fatal[of "newgame_def0\<lparr>job := JOB_FIGHTER\<rparr>"
            "newgame_def0\<lparr>species := SP_RANDOM, job := JOB_FIGHTER\<rparr>" ext_banned "sconst 0"]
          no_legal_candidate_is_fatal[of "newgame_def0\<lparr>species := SP_HUMAN\<rparr>"
            "newgame_def0\<lparr>species := SP_HUMAN, job := JOB_VIABLE\<rparr>" ext_banned "sconst 0"]
    by (simp add: b newgame_def0_def list_all_iff del: reservoir.simps reservoir_jobs.simps)
qed

subsection \<open>The unconstrained draw loops\<close>

lemma length_species_order: "length species_order = 27"
  by (simp add: species_order_def)

lemma random_species_loop_once:
  "random_species_loop g = Some (species_order ! (shd g mod 27), stl g)"
proof -
  have "shd g mod 27 < length species_order" by (simp add: length_species_order)
  then have "is_starting_species (species_order ! (shd g mod 27))"
    unfolding is_starting_species_def by (rule nth_mem)
  then show ?thesis
    by (subst random_species_loop.simps) (simp add: random2_def length_species_order)
qed

lemma drawn_job_Suc: "drawn_job env g (Suc n) = drawn_job env (stl g) n"
  by (simp add: drawn_job_def)

lemma random_job_loop_first:
  "is_starting_job (drawn_job env g n) \<Longrightarrow> \<forall>i<n. \<not> is_starting_job (drawn_job env g i) \<Longrightarrow>
   random_job_loop env g = Some (drawn_job env g n, sdrop (Suc n) g)"
proof (induction n arbitrary: g)
  case 0
  then show ?case
    by (subst random_job_loop.simps) (simp add: random2_def drawn_job_def)
next
  case (Suc n)
  from Suc.prems(2) have 0: "\<not> is_starting_job (drawn_job env g 0)" by blast
  have "\<forall>i<n. \<not> is_starting_job (drawn_job env (stl g) i)"
    using Suc.prems(2) by (auto simp add: drawn_job_Suc[symmetric])
  with Suc.prems(1) have "random_job_loop env (stl g)
      = Some (drawn_job env (stl g) n, sdrop (Suc n) (stl g))"
    by (intro Suc.IH) (simp_all add: drawn_job_Suc)
  with 0 show ?case
    by (subst random_job_loop.simps) (simp add: random2_def drawn_job_def)
qed

lemma random_job_loop_terminates:
  assumes "\<exists>n. is_starting_job (drawn_job env g n)"
  shows "\<exists>n. is_starting_job (drawn_job env g n)
             \<and> random_job_loop env g = Some (drawn_job env g n, sdrop (Suc n) g)"
proof -
  define n where "n = (LEAST n. is_starting_job (drawn_job env g n))"
  from assms have 1: "is_starting_job (drawn_job env g n)"
    unfolding n_def by (rule LeastI_ex)
  have 2: "\<forall>i<n. \<not> is_starting_job (drawn_job env g i)"
    unfolding n_def using not_less_Least by blast
  from random_job_loop_first[OF 1 2] 1 show ?thesis by blast
qed

lemma random_job_loop_starting:
  assumes "random_job_loop env g = Some r"
  shows "\<exists>n. is_starting_job (drawn_job env g n)"
proof (rule random_job_loop.raw_induct[rotated 1, OF assms])
  fix loop env g r
  assume ih: "\<And>env g r. loop env g = Some r \<Longrightarrow> \<exists>n. is_starting_job (drawn_job env g n)"
    and body: "(case random2 (NUM_JOBS env) g of
        (i, g') \<Rightarrow>
          if \<not> is_starting_job (job_of_int env (int i)) then loop env g'
          else Some (job_of_int env (int i), g')) = Some r"
  show "\<exists>n. is_starting_job (drawn_job env g n)"
  proof (cases "is_starting_job (drawn_job env g 0)")
    case True
    then show ?thesis by blast
  next
    case False
    with body have "loop env (stl g) = Some r"
      by (simp add: random2_def drawn_job_def)
    then obtain n where "is_starting_job (drawn_job env (stl g) n)"
      using ih by blast
    then have "is_starting_job (drawn_job env g (Suc n))" by (simp add: drawn_job_Suc)
    then show ?thesis by blast
  qed
qed

lemma random_job_loop_least:
  assumes "\<exists>n. is_starting_job (drawn_job env g n)"
  shows "\<exists>n. is_starting_job (drawn_job env g n)
             \<and> (\<forall>i<n. \<not> is_starting_job (drawn_job env g i))
             \<and> random_job_loop env g = Some (drawn_job env g n, sdrop (Suc n) g)"
proof -
  define n where "n = (LEAST n. is_starting_job (drawn_job env g n))"
  from assms have 1: "is_starting_job (drawn_job env g n)"
    unfolding n_def by (rule LeastI_ex)
  have 2: "\<forall>i<n. \<not> is_starting_job (drawn_job env g i)"
    unfolding n_def using not_less_Least by blast
  from random_job_loop_first[OF 1 2] 1 2 show ?thesis by blast
qed

lemma resolve_species_random_unconstrained:
  "job ng = JOB_UNKNOWN \<Longrightarrow>
   resolve_species_random env ng g
     = Some (Inr (ng\<lparr>species := species_order ! fst (random2 (length species_order) g)\<rparr>, stl g))"
  by (simp add: resolve_species_random_def random_species_loop_once random2_def
      length_species_order)

lemma resolve_species_unconstrained:
  assumes "species ng = SP_UNKNOWN" and "job ng = JOB_UNKNOWN"
    and "species ng_choice = SP_RANDOM
         \<or> species ng_choice = SP_VIABLE
           \<and> (\<forall>x\<in>set species_order. species_allowed env (job ng) x \<noteq> CC_UNRESTRICTED)"
  shows "resolve_species env ng ng_choice g = resolve_species_random env ng g"
  using assms resolve_species_viable_empty[of ng ng_choice env g]
  by (auto simp add: resolve_species_def)

lemma resolve_job_unconstrained:
  assumes "job ng = JOB_UNKNOWN" and "species ng = SP_UNKNOWN"
    and "job ng_choice = JOB_RANDOM
         \<or> job ng_choice = JOB_VIABLE
           \<and> (\<forall>x\<in>set (all_jobs env). job_allowed env (species ng) x \<noteq> CC_UNRESTRICTED)"
  shows "resolve_job env ng ng_choice g = resolve_job_random env ng g"
  using assms resolve_job_viable_empty[of ng ng_choice env g]
  by (auto simp add: resolve_job_def)

lemma resolve_job_random_unconstrained:
  assumes "species ng = SP_UNKNOWN"
  shows "((\<exists>n. is_starting_job (drawn_job env g n)) \<longrightarrow>
            (\<exists>n. is_starting_job (drawn_job env g n)
                \<and> (\<forall>i<n. \<not> is_starting_job (drawn_job env g i))
                \<and> resolve_job_random env ng g
                    = Some (Inr (ng\<lparr>job := drawn_job env g n\<rparr>, sdrop (Suc n) g))))
         \<and> ((\<exists>r. resolve_job_random env ng g = Some r)
              \<longleftrightarrow> (\<exists>n. is_starting_job (drawn_job env g n)))"
proof (intro conjI impI)
  assume "\<exists>n. is_starting_job (drawn_job env g n)"
  from random_job_loop_least[OF this] assms
  show "\<exists>n. is_starting_job (drawn_job env g n)
                \<and> (\<forall>i<n. \<not> is_starting_job (drawn_job env g i))
                \<and> resolve_job_random env ng g
                    = Some (Inr (ng\<lparr>job := drawn_job env g n\<rparr>, sdrop (Suc n) g))"
    by (auto simp add: resolve_job_random_def)
next
  show "(\<exists>r. resolve_job_random env ng g = Some r)
              \<longleftrightarrow> (\<exists>n. is_starting_job (drawn_job env g n))"
  proof
    assume "\<exists>r. resolve_job_random env ng g = Some r"
    with assms obtain r where "random_job_loop env g = Some r"
      by (auto simp add: resolve_job_random_def split: option.splits)
    then show "\<exists>n. is_starting_job (drawn_job env g n)" by (rule random_job_loop_starting)
  next
    assume "\<exists>n. is_starting_job (drawn_job env g n)"
    from random_job_loop_least[OF this] assms
    show "\<exists>r. resolve_job_random env ng g = Some r"
      by (auto simp add: resolve_job_random_def)
  qed
qed

text \<open>
  Claim C10. The unconstrained draw loop of \<^verbatim>\<open>_resolve_species\<close> returns after its first
  pass for every random source, with the species that pass drew, because every element
  of \<open>species_order\<close> is a starting species (\<open>is_starting_species\<close> is membership in
  \<open>species_order\<close>). The loop of \<^verbatim>\<open>_resolve_job\<close> returns for every random source that at
  some pass yields the index of a starting job, with the job of the first such pass;
  for no other source does it return.

  So do the resolvers where they run these loops, which is with both fields open and
  the request RANDOM, or VIABLE with no UNRESTRICTED candidate: \<^verbatim>\<open>_resolve_species\<close>
  returns for every random source, after one draw, with the species set to the starting
  species that draw names; \<^verbatim>\<open>_resolve_job\<close> returns exactly for the random sources that
  at some pass yield the index of a starting job, with the job set to the job of the
  first such pass and the random source as it is after that pass.
\<close>

theorem random_draw_loops_terminate:
  "random_species_loop g
     = Some (species_order ! fst (random2 (length species_order) g), stl g)
   \<and> list_all is_starting_species species_order
   \<and> (is_starting_species sp \<longleftrightarrow> sp \<in> set species_order)
   \<and> ((\<exists>n. is_starting_job (drawn_job env g n)) \<longrightarrow>
        (\<exists>n. is_starting_job (drawn_job env g n)
            \<and> random_job_loop env g = Some (drawn_job env g n, sdrop (Suc n) g)))
   \<and> ((\<exists>r. random_job_loop env g = Some r) \<longleftrightarrow> (\<exists>n. is_starting_job (drawn_job env g n)))
   \<and> (species ng = SP_UNKNOWN \<and> job ng = JOB_UNKNOWN
        \<and> (species ng_choice = SP_RANDOM
            \<or> species ng_choice = SP_VIABLE
              \<and> (\<forall>x\<in>set species_order.
                    species_allowed env (job ng) x \<noteq> CC_UNRESTRICTED)) \<longrightarrow>
      resolve_species env ng ng_choice g
        = Some (Inr (ng\<lparr>species := species_order ! fst (random2 (length species_order) g)\<rparr>,
                     stl g))
      \<and> is_starting_species (species_order ! fst (random2 (length species_order) g)))
   \<and> (job ng = JOB_UNKNOWN \<and> species ng = SP_UNKNOWN
        \<and> (job ng_choice = JOB_RANDOM
            \<or> job ng_choice = JOB_VIABLE
              \<and> (\<forall>x\<in>set (all_jobs env).
                    job_allowed env (species ng) x \<noteq> CC_UNRESTRICTED)) \<longrightarrow>
      ((\<exists>n. is_starting_job (drawn_job env g n)) \<longrightarrow>
         (\<exists>n. is_starting_job (drawn_job env g n)
             \<and> (\<forall>i<n. \<not> is_starting_job (drawn_job env g i))
             \<and> resolve_job env ng ng_choice g
                 = Some (Inr (ng\<lparr>job := drawn_job env g n\<rparr>, sdrop (Suc n) g))))
      \<and> ((\<exists>r. resolve_job env ng ng_choice g = Some r)
           \<longleftrightarrow> (\<exists>n. is_starting_job (drawn_job env g n))))"
proof (intro conjI)
  show "random_species_loop g
     = Some (species_order ! fst (random2 (length species_order) g), stl g)"
    by (simp add: random_species_loop_once random2_def length_species_order)
  show "list_all is_starting_species species_order"
    by (simp add: list_all_iff is_starting_species_def)
  show "is_starting_species sp \<longleftrightarrow> sp \<in> set species_order"
    by (simp add: is_starting_species_def)
  show "(\<exists>n. is_starting_job (drawn_job env g n)) \<longrightarrow>
        (\<exists>n. is_starting_job (drawn_job env g n)
            \<and> random_job_loop env g = Some (drawn_job env g n, sdrop (Suc n) g))"
    using random_job_loop_terminates by blast
  show "(\<exists>r. random_job_loop env g = Some r) \<longleftrightarrow> (\<exists>n. is_starting_job (drawn_job env g n))"
    using random_job_loop_terminates[of env g] random_job_loop_starting[of env g] by auto
  show "species ng = SP_UNKNOWN \<and> job ng = JOB_UNKNOWN
        \<and> (species ng_choice = SP_RANDOM
            \<or> species ng_choice = SP_VIABLE
              \<and> (\<forall>x\<in>set species_order.
                    species_allowed env (job ng) x \<noteq> CC_UNRESTRICTED)) \<longrightarrow>
      resolve_species env ng ng_choice g
        = Some (Inr (ng\<lparr>species := species_order ! fst (random2 (length species_order) g)\<rparr>,
                     stl g))
      \<and> is_starting_species (species_order ! fst (random2 (length species_order) g))"
  proof (intro impI conjI)
    assume a: "species ng = SP_UNKNOWN \<and> job ng = JOB_UNKNOWN
        \<and> (species ng_choice = SP_RANDOM
            \<or> species ng_choice = SP_VIABLE
              \<and> (\<forall>x\<in>set species_order.
                    species_allowed env (job ng) x \<noteq> CC_UNRESTRICTED))"
    then have "resolve_species env ng ng_choice g = resolve_species_random env ng g"
      using resolve_species_unconstrained[of ng ng_choice env g] by blast
    with a show "resolve_species env ng ng_choice g
        = Some (Inr (ng\<lparr>species := species_order ! fst (random2 (length species_order) g)\<rparr>,
                     stl g))"
      by (simp add: resolve_species_random_unconstrained)
    have "fst (random2 (length species_order) g) < length species_order"
      by (simp add: random2_def length_species_order)
    then show "is_starting_species (species_order ! fst (random2 (length species_order) g))"
      unfolding is_starting_species_def by (rule nth_mem)
  qed
  show "job ng = JOB_UNKNOWN \<and> species ng = SP_UNKNOWN
        \<and> (job ng_choice = JOB_RANDOM
            \<or> job ng_choice = JOB_VIABLE
              \<and> (\<forall>x\<in>set (all_jobs env).
                    job_allowed env (species ng) x \<noteq> CC_UNRESTRICTED)) \<longrightarrow>
      ((\<exists>n. is_starting_job (drawn_job env g n)) \<longrightarrow>
         (\<exists>n. is_starting_job (drawn_job env g n)
             \<and> (\<forall>i<n. \<not> is_starting_job (drawn_job env g i))
             \<and> resolve_job env ng ng_choice g
                 = Some (Inr (ng\<lparr>job := drawn_job env g n\<rparr>, sdrop (Suc n) g))))
      \<and> ((\<exists>r. resolve_job env ng ng_choice g = Some r)
           \<longleftrightarrow> (\<exists>n. is_starting_job (drawn_job env g n)))"
  proof
    assume a: "job ng = JOB_UNKNOWN \<and> species ng = SP_UNKNOWN
        \<and> (job ng_choice = JOB_RANDOM
            \<or> job ng_choice = JOB_VIABLE
              \<and> (\<forall>x\<in>set (all_jobs env).
                    job_allowed env (species ng) x \<noteq> CC_UNRESTRICTED))"
    then have e: "resolve_job env ng ng_choice g = resolve_job_random env ng g"
      using resolve_job_unconstrained[of ng ng_choice env g] by blast
    from a have "species ng = SP_UNKNOWN" by simp
    from resolve_job_random_unconstrained[OF this, of env g]
    show "((\<exists>n. is_starting_job (drawn_job env g n)) \<longrightarrow>
         (\<exists>n. is_starting_job (drawn_job env g n)
             \<and> (\<forall>i<n. \<not> is_starting_job (drawn_job env g i))
             \<and> resolve_job env ng ng_choice g
                 = Some (Inr (ng\<lparr>job := drawn_job env g n\<rparr>, sdrop (Suc n) g))))
      \<and> ((\<exists>r. resolve_job env ng ng_choice g = Some r)
           \<longleftrightarrow> (\<exists>n. is_starting_job (drawn_job env g n)))"
      unfolding e .
  qed
qed

theorem random_draw_loops_terminate_witness:
  "is_starting_job (drawn_job ext0 (0 ## 3 ## 4 ## sconst 0) 2)
   \<and> (\<exists>n. is_starting_job (drawn_job ext0 (0 ## 3 ## 4 ## sconst 0) n)
         \<and> random_job_loop ext0 (0 ## 3 ## 4 ## sconst 0)
           = Some (drawn_job ext0 (0 ## 3 ## 4 ## sconst 0) n,
                   sdrop (Suc n) (0 ## 3 ## 4 ## sconst 0)))
   \<and> random_species_loop (30 ## sconst 0) = Some (SP_HILL_ORC, sconst 0)
   \<and> species newgame_def0 = SP_UNKNOWN \<and> job newgame_def0 = JOB_UNKNOWN
   \<and> species (newgame_def0\<lparr>species := SP_RANDOM\<rparr>) = SP_RANDOM
   \<and> job (newgame_def0\<lparr>job := JOB_RANDOM\<rparr>) = JOB_RANDOM
   \<and> resolve_species ext0 newgame_def0 (newgame_def0\<lparr>species := SP_RANDOM\<rparr>) (30 ## sconst 0)
     = Some (Inr (newgame_def0\<lparr>species := SP_HILL_ORC\<rparr>, sconst 0))
   \<and> resolve_job ext0 newgame_def0 (newgame_def0\<lparr>job := JOB_RANDOM\<rparr>) (0 ## 3 ## 4 ## sconst 0)
     = Some (Inr (newgame_def0\<lparr>job := JOB_FIGHTER\<rparr>, sconst 0))
   \<and> (\<exists>r. resolve_job ext0 newgame_def0 (newgame_def0\<lparr>job := JOB_RANDOM\<rparr>)
             (0 ## 3 ## 4 ## sconst 0) = Some r)"
proof -
  let ?g = "0 ## 3 ## 4 ## sconst 0"
  let ?cs = "newgame_def0\<lparr>species := SP_RANDOM\<rparr>"
  let ?cj = "newgame_def0\<lparr>job := JOB_RANDOM\<rparr>"
  have d: "drawn_job ext0 ?g 0 = JOB_OTHER 0" "drawn_job ext0 ?g 1 = JOB_OTHER 0"
      "drawn_job ext0 ?g 2 = JOB_FIGHTER"
    by (simp_all add: drawn_job_def random2_def ext0_def numeral_2_eq_2)
  have s: "\<not> is_starting_job (JOB_OTHER 0)" "is_starting_job JOB_FIGHTER"
    by (simp_all add: is_starting_job_def jobs_order_def)
  have 1: "is_starting_job (drawn_job ext0 ?g 2)" by (simp only: d s)
  then have ex: "\<exists>n. is_starting_job (drawn_job ext0 ?g n)" by blast
  with random_draw_loops_terminate[where g = ?g and sp = SP_HUMAN and env = ext0]
  have 2: "\<exists>n. is_starting_job (drawn_job ext0 ?g n)
         \<and> random_job_loop ext0 ?g = Some (drawn_job ext0 ?g n, sdrop (Suc n) ?g)"
    by blast
  have 3: "random_species_loop (30 ## sconst 0) = Some (SP_HILL_ORC, sconst 0)"
    using random_draw_loops_terminate[where g = "30 ## sconst 0" and sp = SP_HUMAN
        and env = ext0, THEN conjunct1]
    by (simp add: random2_def species_order_def)
  have h: "species newgame_def0 = SP_UNKNOWN" "job newgame_def0 = JOB_UNKNOWN"
      "species ?cs = SP_RANDOM" "job ?cj = JOB_RANDOM"
    by (simp_all add: newgame_def0_def)
  have hs: "species newgame_def0 = SP_UNKNOWN \<and> job newgame_def0 = JOB_UNKNOWN
        \<and> (species ?cs = SP_RANDOM
            \<or> species ?cs = SP_VIABLE
              \<and> (\<forall>x\<in>set species_order.
                    species_allowed ext0 (job newgame_def0) x \<noteq> CC_UNRESTRICTED))"
    using h by simp
  have hj: "job newgame_def0 = JOB_UNKNOWN \<and> species newgame_def0 = SP_UNKNOWN
        \<and> (job ?cj = JOB_RANDOM
            \<or> job ?cj = JOB_VIABLE
              \<and> (\<forall>x\<in>set (all_jobs ext0).
                    job_allowed ext0 (species newgame_def0) x \<noteq> CC_UNRESTRICTED))"
    using h by simp
  have 4: "resolve_species ext0 newgame_def0 ?cs (30 ## sconst 0)
     = Some (Inr (newgame_def0\<lparr>species := SP_HILL_ORC\<rparr>, sconst 0))"
    using random_draw_loops_terminate[where g = "30 ## sconst 0" and env = ext0
        and ng = newgame_def0 and ng_choice = ?cs,
        THEN conjunct2, THEN conjunct2, THEN conjunct2, THEN conjunct2, THEN conjunct2,
        THEN conjunct1, THEN mp, OF hs, THEN conjunct1]
    by (simp add: random2_def species_order_def)
  note rj = random_draw_loops_terminate[where g = ?g and env = ext0
        and ng = newgame_def0 and ng_choice = ?cj,
        THEN conjunct2, THEN conjunct2, THEN conjunct2, THEN conjunct2, THEN conjunct2,
        THEN conjunct2, THEN mp, OF hj]
  from rj[THEN conjunct1, THEN mp, OF ex] obtain n where
    n: "is_starting_job (drawn_job ext0 ?g n)"
      "\<forall>i<n. \<not> is_starting_job (drawn_job ext0 ?g i)"
      "resolve_job ext0 newgame_def0 ?cj ?g
         = Some (Inr (newgame_def0\<lparr>job := drawn_job ext0 ?g n\<rparr>, sdrop (Suc n) ?g))"
    by blast
  from n(2) 1 have "\<not> 2 < n" by blast
  moreover from n(1) d(1) s(1) have "n \<noteq> 0" by (metis)
  moreover from n(1) d(2) s(1) have "n \<noteq> 1" by (metis)
  ultimately have n2: "n = 2" by linarith
  have sd: "sdrop (Suc 2) ?g = sconst 0" by (simp add: numeral_2_eq_2)
  have 5: "resolve_job ext0 newgame_def0 ?cj ?g
     = Some (Inr (newgame_def0\<lparr>job := JOB_FIGHTER\<rparr>, sconst 0))"
    using n(3) unfolding n2 d(3) sd .
  from rj[THEN conjunct2] ex
  have 6: "\<exists>r. resolve_job ext0 newgame_def0 ?cj ?g = Some r" by blast
  from 1 2 3 h 4 5 6 show ?thesis by (intro conjI) (simp_all only: simp_thms)
qed


subsection \<open>The order of resolution\<close>

lemma outcomes_1_1: "outcomes 1 1 = [[0], [1]]"
  by (simp add: numeral_2_eq_2 upt_conv_Cons)

text \<open>
  Claim C3, as amended. If exactly one of the species and the job of the request carries
  the VIABLE placeholder, \<^verbatim>\<open>_resolve_species_job\<close> resolves that VIABLE field last, without
  a draw: the species first when the job is VIABLE and the species is not, the job first
  when the species is VIABLE and the job is not. If both or neither carry VIABLE, the
  order is that of \<^verbatim>\<open>coinflip()\<close>, and of the two equally likely results of its
  \<^verbatim>\<open>random2(2)\<close> one resolves the species first and the other the job first.
\<close>

theorem resolution_order:
  "(species ng_choice \<noteq> SP_VIABLE \<and> job ng_choice = JOB_VIABLE \<longrightarrow>
      species_first ng_choice g = (True, g)
      \<and> resolved_last ng_choice g = Job \<and> carries_viable ng_choice (resolved_last ng_choice g)
      \<and> resolve_species_job env ng ng_choice g = species_then_job env ng ng_choice g)
   \<and> (species ng_choice = SP_VIABLE \<and> job ng_choice \<noteq> JOB_VIABLE \<longrightarrow>
      species_first ng_choice g = (False, g)
      \<and> resolved_last ng_choice g = Species \<and> carries_viable ng_choice (resolved_last ng_choice g)
      \<and> resolve_species_job env ng ng_choice g = job_then_species env ng ng_choice g)
   \<and> ((species ng_choice = SP_VIABLE) = (job ng_choice = JOB_VIABLE) \<longrightarrow>
      species_first ng_choice g = coinflip g
      \<and> resolve_species_job env ng ng_choice g =
          (if fst (coinflip g) then species_then_job env ng ng_choice (stl g)
           else job_then_species env ng ng_choice (stl g))
      \<and> prob (outcomes 1 1) (\<lambda>rs. resolved_last ng_choice (rs @- t) = Job) = 1 / 2
      \<and> prob (outcomes 1 1) (\<lambda>rs. resolved_last ng_choice (rs @- t) = Species) = 1 / 2)"
  by (auto simp add: species_first_def resolved_last_def resolve_species_job_def
      coinflip_def random2_def prob_def outcomes_1_1 Let_def)

theorem resolution_order_witness:
  "species (newgame_def0\<lparr>species := SP_RANDOM, job := JOB_VIABLE\<rparr>) \<noteq> SP_VIABLE
   \<and> job (newgame_def0\<lparr>species := SP_RANDOM, job := JOB_VIABLE\<rparr>) = JOB_VIABLE
   \<and> resolved_last (newgame_def0\<lparr>species := SP_RANDOM, job := JOB_VIABLE\<rparr>) (sconst 0) = Job
   \<and> species (newgame_def0\<lparr>species := SP_VIABLE, job := JOB_RANDOM\<rparr>) = SP_VIABLE
   \<and> job (newgame_def0\<lparr>species := SP_VIABLE, job := JOB_RANDOM\<rparr>) \<noteq> JOB_VIABLE
   \<and> resolved_last (newgame_def0\<lparr>species := SP_VIABLE, job := JOB_RANDOM\<rparr>) (sconst 0) = Species
   \<and> (species (newgame_def0\<lparr>species := SP_RANDOM, job := JOB_RANDOM\<rparr>) = SP_VIABLE)
       = (job (newgame_def0\<lparr>species := SP_RANDOM, job := JOB_RANDOM\<rparr>) = JOB_VIABLE)
   \<and> prob (outcomes 1 1)
       (\<lambda>rs. resolved_last (newgame_def0\<lparr>species := SP_RANDOM, job := JOB_RANDOM\<rparr>)
                (rs @- sconst 0) = Job) = 1 / 2"
  using resolution_order[of "newgame_def0\<lparr>species := SP_RANDOM, job := JOB_VIABLE\<rparr>" "sconst 0"
          ext0 newgame_def0 "sconst 0"]
        resolution_order[of "newgame_def0\<lparr>species := SP_VIABLE, job := JOB_RANDOM\<rparr>" "sconst 0"
          ext0 newgame_def0 "sconst 0"]
        resolution_order[of "newgame_def0\<lparr>species := SP_RANDOM, job := JOB_RANDOM\<rparr>" "sconst 0"
          ext0 newgame_def0 "sconst 0"]
  by (simp add: newgame_def0_def)

text \<open>
  Claim C3 as stated has the non-VIABLE field resolved last. For the request ``random
  species, recommended job'' exactly one field carries VIABLE, the job; the field
  resolved last is the job, not the species.
\<close>

theorem resolution_order_counterexample:
  "carries_viable (newgame_def0\<lparr>species := SP_RANDOM, job := JOB_VIABLE\<rparr>) Job
   \<and> \<not> carries_viable (newgame_def0\<lparr>species := SP_RANDOM, job := JOB_VIABLE\<rparr>) Species
   \<and> resolved_last (newgame_def0\<lparr>species := SP_RANDOM, job := JOB_VIABLE\<rparr>) (sconst 0) \<noteq> Species"
  by (simp add: resolved_last_def species_first_def newgame_def0_def)


subsection \<open>An empty pool of recommended values\<close>

lemma reservoir_pool:
  assumes "\<exists>c\<in>set cs. pred c"
  shows "fst (reservoir pred val cs (0, s, g)) \<noteq> 0
       \<and> fst (snd (reservoir pred val cs (0, s, g))) \<in> val ` {c \<in> set cs. pred c}"
  using assms reservoir_selected_first[OF assms, of val s g]
  by (auto simp add: reservoir_count filter_empty_conv)

lemma resolve_species_random_pool:
  assumes "job ng \<noteq> JOB_UNKNOWN"
    and "\<exists>sp\<in>set species_order. species_allowed env (job ng) sp \<noteq> CC_BANNED"
  shows "\<exists>ng' g'. resolve_species_random env ng g = Some (Inr (ng', g'))
           \<and> species ng' \<in> set species_order
           \<and> species_allowed env (job ng) (species ng') \<noteq> CC_BANNED"
proof -
  let ?p = "\<lambda>sp. is_good_combination env sp (job ng) False False"
  obtain k sp g' where r: "reservoir ?p (\<lambda>sp. sp) species_order (0, species ng, g) = (k, sp, g')"
    by (cases "reservoir ?p (\<lambda>sp. sp) species_order (0, species ng, g)") auto
  from assms(2) have "\<exists>c\<in>set species_order. ?p c" by (simp add: is_good_combination_def)
  from reservoir_pool[OF this, of "\<lambda>sp. sp" "species ng" g] r
  have "k \<noteq> 0" "sp \<in> set species_order" "species_allowed env (job ng) sp \<noteq> CC_BANNED"
    by (auto simp add: is_good_combination_def)
  with assms(1) r show ?thesis by (simp add: resolve_species_random_def)
qed

lemma resolve_job_random_pool:
  assumes "species ng \<noteq> SP_UNKNOWN"
    and "\<exists>j\<in>set (all_jobs env). job_allowed env (species ng) j \<noteq> CC_BANNED"
    and "\<forall>j\<in>set (all_jobs env). job_allowed env (species ng) j \<noteq> CC_BANNED \<longrightarrow> is_starting_job j"
  shows "\<exists>ng' g'. resolve_job_random env ng g = Some (Inr (ng', g'))
           \<and> job ng' \<in> set (all_jobs env)
           \<and> job_allowed env (species ng) (job ng') \<noteq> CC_BANNED"
proof -
  let ?p = "\<lambda>j. is_good_combination env (species ng) j True False"
  obtain k j g' where r: "reservoir ?p (\<lambda>j. j) (all_jobs env) (0, job ng, g) = (k, j, g')"
    by (cases "reservoir ?p (\<lambda>j. j) (all_jobs env) (0, job ng, g)") auto
  from assms(3) have "\<forall>j\<in>set (all_jobs env). ?p j \<longrightarrow> is_starting_job j"
    by (simp add: is_good_combination_def)
  then have rj: "reservoir_jobs ?p (all_jobs env) (0, job ng, g) = Inr (k, j, g')"
    using r by (simp add: reservoir_jobs_plain)
  from assms(2) have "\<exists>c\<in>set (all_jobs env). ?p c" by (simp add: is_good_combination_def)
  from reservoir_pool[OF this, of "\<lambda>j. j" "job ng" g] r
  have "k \<noteq> 0" "j \<in> set (all_jobs env)" "job_allowed env (species ng) j \<noteq> CC_BANNED"
    by (auto simp add: is_good_combination_def)
  with assms(1) rj show ?thesis by (simp add: resolve_job_random_def)
qed

lemma resolve_weapon_random_pool:
  assumes "weapons \<noteq> []"
  shows "\<exists>ng' g'. resolve_weapon_random ng weapons g = Inr (ng', g')
           \<and> weapon ng' \<in> fst ` set weapons"
  using assms by (simp add: resolve_weapon_random_def random2_def)

text \<open>
  Claim C4, as amended. In a resolution step whose request carries VIABLE, an empty pool
  of UNRESTRICTED candidates is no failure of its own: the step does exactly what the
  step for the request RANDOM does, on the same random source. With the other field
  concrete that is a draw from the pool of non-banned candidates, which yields one of
  them whenever that pool is not empty (for the job, given that every non-banned job is
  a starting job, as the assertion of line 329 demands); the weapon step draws from the
  candidate list, which holds no banned weapon, whenever the list is not empty.
\<close>

theorem viable_falls_through_to_random:
  "(species ng = SP_UNKNOWN \<and> species ng_choice = SP_VIABLE
      \<and> (\<forall>sp\<in>set species_order. species_allowed env (job ng) sp \<noteq> CC_UNRESTRICTED) \<longrightarrow>
        resolve_species env ng ng_choice g
          = resolve_species env ng (ng_choice\<lparr>species := SP_RANDOM\<rparr>) g
        \<and> (job ng \<noteq> JOB_UNKNOWN
             \<and> (\<exists>sp\<in>set species_order. species_allowed env (job ng) sp \<noteq> CC_BANNED) \<longrightarrow>
            (\<exists>ng' g'. resolve_species env ng ng_choice g = Some (Inr (ng', g'))
               \<and> species ng' \<in> set species_order
               \<and> species_allowed env (job ng) (species ng') \<noteq> CC_BANNED)))
   \<and> (job ng = JOB_UNKNOWN \<and> job ng_choice = JOB_VIABLE
      \<and> (\<forall>j\<in>set (all_jobs env). job_allowed env (species ng) j \<noteq> CC_UNRESTRICTED) \<longrightarrow>
        resolve_job env ng ng_choice g
          = resolve_job env ng (ng_choice\<lparr>job := JOB_RANDOM\<rparr>) g
        \<and> (species ng \<noteq> SP_UNKNOWN
             \<and> (\<exists>j\<in>set (all_jobs env). job_allowed env (species ng) j \<noteq> CC_BANNED)
             \<and> (\<forall>j\<in>set (all_jobs env). job_allowed env (species ng) j \<noteq> CC_BANNED
                   \<longrightarrow> is_starting_job j) \<longrightarrow>
            (\<exists>ng' g'. resolve_job env ng ng_choice g = Some (Inr (ng', g'))
               \<and> job ng' \<in> set (all_jobs env)
               \<and> job_allowed env (species ng) (job ng') \<noteq> CC_BANNED)))
   \<and> ((\<forall>wc\<in>set weapons. snd wc \<noteq> CC_UNRESTRICTED) \<longrightarrow>
        resolve_weapon_switch WPN_VIABLE ng ng_choice weapons g
          = resolve_weapon_switch WPN_RANDOM ng ng_choice weapons g
        \<and> (allowed_weapons ng_choice = [] \<and> weapon ng_choice = WPN_VIABLE \<longrightarrow>
             resolve_weapon ng ng_choice weapons g
               = resolve_weapon ng (ng_choice\<lparr>weapon := WPN_RANDOM\<rparr>) weapons g)
        \<and> (weapons \<noteq> [] \<longrightarrow>
            (\<exists>ng' g'. resolve_weapon_switch WPN_VIABLE ng ng_choice weapons g = Inr (ng', g')
               \<and> weapon ng' \<in> fst ` set weapons)))"
proof (intro conjI impI)
  assume a: "species ng = SP_UNKNOWN \<and> species ng_choice = SP_VIABLE
      \<and> (\<forall>sp\<in>set species_order. species_allowed env (job ng) sp \<noteq> CC_UNRESTRICTED)"
  then have v: "reservoir (\<lambda>sp. is_good_combination env sp (job ng) False True) (\<lambda>sp. sp)
            species_order (0, SP_UNKNOWN, g) = (0, SP_UNKNOWN, g)"
    by (intro reservoir_none) (simp add: is_good_combination_def)
  have ng: "ng\<lparr>species := SP_UNKNOWN\<rparr> = ng" using a by simp
  from a v show eq: "resolve_species env ng ng_choice g
          = resolve_species env ng (ng_choice\<lparr>species := SP_RANDOM\<rparr>) g"
    by (simp add: resolve_species_def ng)
  assume "job ng \<noteq> JOB_UNKNOWN
      \<and> (\<exists>sp\<in>set species_order. species_allowed env (job ng) sp \<noteq> CC_BANNED)"
  then show "\<exists>ng' g'. resolve_species env ng ng_choice g = Some (Inr (ng', g'))
               \<and> species ng' \<in> set species_order
               \<and> species_allowed env (job ng) (species ng') \<noteq> CC_BANNED"
    using resolve_species_random_pool[of ng env g] a
    unfolding eq by (simp add: resolve_species_def)
next
  assume a: "job ng = JOB_UNKNOWN \<and> job ng_choice = JOB_VIABLE
      \<and> (\<forall>j\<in>set (all_jobs env). job_allowed env (species ng) j \<noteq> CC_UNRESTRICTED)"
  then have v: "reservoir (\<lambda>j. is_good_combination env (species ng) j True True) (\<lambda>j. j)
            (all_jobs env) (0, JOB_UNKNOWN, g) = (0, JOB_UNKNOWN, g)"
    by (intro reservoir_none) (simp add: is_good_combination_def)
  have ng: "ng\<lparr>job := JOB_UNKNOWN\<rparr> = ng" using a by simp
  from a v show eq: "resolve_job env ng ng_choice g
          = resolve_job env ng (ng_choice\<lparr>job := JOB_RANDOM\<rparr>) g"
    by (simp add: resolve_job_def ng)
  assume "species ng \<noteq> SP_UNKNOWN
             \<and> (\<exists>j\<in>set (all_jobs env). job_allowed env (species ng) j \<noteq> CC_BANNED)
             \<and> (\<forall>j\<in>set (all_jobs env). job_allowed env (species ng) j \<noteq> CC_BANNED
                   \<longrightarrow> is_starting_job j)"
  then show "\<exists>ng' g'. resolve_job env ng ng_choice g = Some (Inr (ng', g'))
               \<and> job ng' \<in> set (all_jobs env)
               \<and> job_allowed env (species ng) (job ng') \<noteq> CC_BANNED"
    using resolve_job_random_pool[of ng env g] a
    unfolding eq by (simp add: resolve_job_def)
next
  assume a: "\<forall>wc\<in>set weapons. snd wc \<noteq> CC_UNRESTRICTED"
  then have v: "reservoir (\<lambda>choice. snd choice = CC_UNRESTRICTED) fst weapons (0, weapon ng, g)
      = (0, weapon ng, g)"
    by (intro reservoir_none) simp
  then show eq: "resolve_weapon_switch WPN_VIABLE ng ng_choice weapons g
          = resolve_weapon_switch WPN_RANDOM ng ng_choice weapons g"
    by (simp add: resolve_weapon_switch_def)
  show "resolve_weapon ng ng_choice weapons g
               = resolve_weapon ng (ng_choice\<lparr>weapon := WPN_RANDOM\<rparr>) weapons g"
    if "allowed_weapons ng_choice = [] \<and> weapon ng_choice = WPN_VIABLE"
    using that v by (simp add: resolve_weapon_def resolve_weapon_switch_def)
  show "\<exists>ng' g'. resolve_weapon_switch WPN_VIABLE ng ng_choice weapons g = Inr (ng', g')
               \<and> weapon ng' \<in> fst ` set weapons"
    if "weapons \<noteq> []"
    using resolve_weapon_random_pool[OF that, of ng g] unfolding eq
    by (simp add: resolve_weapon_switch_def)
qed

theorem viable_falls_through_to_random_witness:
  "(species (newgame_def0\<lparr>job := JOB_FIGHTER\<rparr>) = SP_UNKNOWN
      \<and> species (newgame_def0\<lparr>species := SP_VIABLE, job := JOB_FIGHTER\<rparr>) = SP_VIABLE
      \<and> list_all (\<lambda>sp.
            species_allowed ext_restricted (job (newgame_def0\<lparr>job := JOB_FIGHTER\<rparr>)) sp
              \<noteq> CC_UNRESTRICTED) species_order)
   \<and> (job (newgame_def0\<lparr>job := JOB_FIGHTER\<rparr>) \<noteq> JOB_UNKNOWN
      \<and> (\<exists>sp\<in>set species_order.
            species_allowed ext_restricted (job (newgame_def0\<lparr>job := JOB_FIGHTER\<rparr>)) sp
              \<noteq> CC_BANNED))
   \<and> (\<exists>ng' g'. resolve_species ext_restricted (newgame_def0\<lparr>job := JOB_FIGHTER\<rparr>)
                  (newgame_def0\<lparr>species := SP_VIABLE, job := JOB_FIGHTER\<rparr>) (sconst 0)
                = Some (Inr (ng', g'))
          \<and> species ng' \<in> set species_order
          \<and> species_allowed ext_restricted (job (newgame_def0\<lparr>job := JOB_FIGHTER\<rparr>))
                (species ng') \<noteq> CC_BANNED)
   \<and> (job (newgame_def0\<lparr>species := SP_TROLL\<rparr>) = JOB_UNKNOWN
      \<and> job (newgame_def0\<lparr>species := SP_TROLL, job := JOB_VIABLE\<rparr>) = JOB_VIABLE
      \<and> list_all (\<lambda>j.
            job_allowed ext_restricted (species (newgame_def0\<lparr>species := SP_TROLL\<rparr>)) j
              \<noteq> CC_UNRESTRICTED) (all_jobs ext_restricted))
   \<and> resolve_job ext_restricted (newgame_def0\<lparr>species := SP_TROLL\<rparr>)
       (newgame_def0\<lparr>species := SP_TROLL, job := JOB_VIABLE\<rparr>) (sconst 0)
     = resolve_job ext_restricted (newgame_def0\<lparr>species := SP_TROLL\<rparr>)
       (newgame_def0\<lparr>species := SP_TROLL, job := JOB_VIABLE\<rparr>\<lparr>job := JOB_RANDOM\<rparr>) (sconst 0)
   \<and> (job (newgame_def0\<lparr>species := SP_TROLL\<rparr>) = JOB_UNKNOWN
      \<and> job (newgame_def0\<lparr>species := SP_TROLL, job := JOB_VIABLE\<rparr>) = JOB_VIABLE
      \<and> list_all (\<lambda>j.
            job_allowed ext_allowed (species (newgame_def0\<lparr>species := SP_TROLL\<rparr>)) j
              \<noteq> CC_UNRESTRICTED) (all_jobs ext_allowed))
   \<and> (species (newgame_def0\<lparr>species := SP_TROLL\<rparr>) \<noteq> SP_UNKNOWN
      \<and> (\<exists>j\<in>set (all_jobs ext_allowed).
            job_allowed ext_allowed (species (newgame_def0\<lparr>species := SP_TROLL\<rparr>)) j
              \<noteq> CC_BANNED)
      \<and> list_all (\<lambda>j.
            job_allowed ext_allowed (species (newgame_def0\<lparr>species := SP_TROLL\<rparr>)) j
              \<noteq> CC_BANNED \<longrightarrow> is_starting_job j) (all_jobs ext_allowed))
   \<and> (\<exists>ng' g'. resolve_job ext_allowed (newgame_def0\<lparr>species := SP_TROLL\<rparr>)
                  (newgame_def0\<lparr>species := SP_TROLL, job := JOB_VIABLE\<rparr>) (sconst 0)
                = Some (Inr (ng', g'))
          \<and> job ng' \<in> set (all_jobs ext_allowed)
          \<and> job_allowed ext_allowed (species (newgame_def0\<lparr>species := SP_TROLL\<rparr>))
                (job ng') \<noteq> CC_BANNED)
   \<and> list_all (\<lambda>wc. snd wc \<noteq> CC_UNRESTRICTED)
         [(WPN_MACE, CC_RESTRICTED), (WPN_SPEAR, CC_RESTRICTED)]
   \<and> [(WPN_MACE, CC_RESTRICTED), (WPN_SPEAR, CC_RESTRICTED)] \<noteq> []
   \<and> (\<exists>ng' g'. resolve_weapon_switch WPN_VIABLE newgame_def0 newgame_def0
                  [(WPN_MACE, CC_RESTRICTED), (WPN_SPEAR, CC_RESTRICTED)] (sconst 1) = Inr (ng', g')
          \<and> weapon ng' \<in> fst ` set [(WPN_MACE, CC_RESTRICTED), (WPN_SPEAR, CC_RESTRICTED)])"
proof -
  let ?ng = "newgame_def0\<lparr>job := JOB_FIGHTER\<rparr>"
  let ?c = "newgame_def0\<lparr>species := SP_VIABLE, job := JOB_FIGHTER\<rparr>"
  let ?ng2 = "newgame_def0\<lparr>species := SP_TROLL\<rparr>"
  let ?c2 = "newgame_def0\<lparr>species := SP_TROLL, job := JOB_VIABLE\<rparr>"
  let ?ws = "[(WPN_MACE, CC_RESTRICTED), (WPN_SPEAR, CC_RESTRICTED)]"
  have r: "species_allowed ext_restricted =
             (\<lambda>jb sp. if sp = SP_TROLL \<and> jb = JOB_FIGHTER then CC_BANNED else CC_RESTRICTED)"
          "job_allowed ext_restricted =
             (\<lambda>sp jb. if sp = SP_TROLL \<and> jb = JOB_FIGHTER then CC_BANNED else CC_RESTRICTED)"
    by (simp_all add: ext_restricted_def ext0_def)
  have h: "SP_HUMAN \<in> set species_order" by (simp add: species_order_def)
  have a: "species ?ng = SP_UNKNOWN \<and> species ?c = SP_VIABLE
      \<and> (\<forall>sp\<in>set species_order. species_allowed ext_restricted (job ?ng) sp \<noteq> CC_UNRESTRICTED)"
    by (simp add: r newgame_def0_def)
  have b: "job ?ng \<noteq> JOB_UNKNOWN
      \<and> (\<exists>sp\<in>set species_order. species_allowed ext_restricted (job ?ng) sp \<noteq> CC_BANNED)"
    using h by (auto simp add: r newgame_def0_def)
  have c: "job ?ng2 = JOB_UNKNOWN \<and> job ?c2 = JOB_VIABLE
      \<and> (\<forall>j\<in>set (all_jobs ext_restricted).
            job_allowed ext_restricted (species ?ng2) j \<noteq> CC_UNRESTRICTED)"
    by (simp add: r newgame_def0_def)
  have ra: "job_allowed ext_allowed =
             (\<lambda>sp jb. if is_starting_job jb then CC_RESTRICTED else CC_BANNED)"
    by (simp add: ext_allowed_def ext0_def)
  have aj: "all_jobs ext_allowed = [JOB_OTHER 0, JOB_FIGHTER, JOB_WIZARD]"
    by (simp add: all_jobs_def ext_allowed_def ext0_def numeral_3_eq_3)
  have sj: "\<not> is_starting_job (JOB_OTHER 0)" "is_starting_job JOB_FIGHTER"
      "is_starting_job JOB_WIZARD"
    by (simp_all add: is_starting_job_def jobs_order_def)
  have ca: "job ?ng2 = JOB_UNKNOWN \<and> job ?c2 = JOB_VIABLE
      \<and> (\<forall>j\<in>set (all_jobs ext_allowed).
            job_allowed ext_allowed (species ?ng2) j \<noteq> CC_UNRESTRICTED)"
    by (simp add: ra newgame_def0_def)
  have cb: "species ?ng2 \<noteq> SP_UNKNOWN
      \<and> (\<exists>j\<in>set (all_jobs ext_allowed). job_allowed ext_allowed (species ?ng2) j \<noteq> CC_BANNED)
      \<and> (\<forall>j\<in>set (all_jobs ext_allowed). job_allowed ext_allowed (species ?ng2) j \<noteq> CC_BANNED
            \<longrightarrow> is_starting_job j)"
    by (simp add: ra aj sj newgame_def0_def)
  have d: "\<forall>wc\<in>set ?ws. snd wc \<noteq> CC_UNRESTRICTED" by simp
  have e: "?ws \<noteq> []" by simp
  note t1 = viable_falls_through_to_random[of ?ng ?c ext_restricted "sconst 0" ?ws,
      THEN conjunct1, THEN mp, OF a, THEN conjunct2, THEN mp, OF b]
  note t2 = viable_falls_through_to_random[of ?ng2 ?c2 ext_restricted "sconst 0" ?ws,
      THEN conjunct2, THEN conjunct1, THEN mp, OF c, THEN conjunct1]
  note t2a = viable_falls_through_to_random[of ?ng2 ?c2 ext_allowed "sconst 0" ?ws,
      THEN conjunct2, THEN conjunct1, THEN mp, OF ca, THEN conjunct2, THEN mp, OF cb]
  note t3 = viable_falls_through_to_random[of newgame_def0 newgame_def0 ext_restricted
      "sconst 1" ?ws, THEN conjunct2, THEN conjunct2, THEN mp, OF d, THEN conjunct2,
      THEN conjunct2, THEN mp, OF e]
  from a have a': "species ?ng = SP_UNKNOWN \<and> species ?c = SP_VIABLE
      \<and> list_all (\<lambda>sp. species_allowed ext_restricted (job ?ng) sp \<noteq> CC_UNRESTRICTED)
            species_order"
    by (simp add: list_all_iff)
  from c have c': "job ?ng2 = JOB_UNKNOWN \<and> job ?c2 = JOB_VIABLE
      \<and> list_all (\<lambda>j. job_allowed ext_restricted (species ?ng2) j \<noteq> CC_UNRESTRICTED)
            (all_jobs ext_restricted)"
    by (simp add: list_all_iff)
  from ca have ca': "job ?ng2 = JOB_UNKNOWN \<and> job ?c2 = JOB_VIABLE
      \<and> list_all (\<lambda>j. job_allowed ext_allowed (species ?ng2) j \<noteq> CC_UNRESTRICTED)
            (all_jobs ext_allowed)"
    by (simp add: list_all_iff)
  from cb have cb': "species ?ng2 \<noteq> SP_UNKNOWN
      \<and> (\<exists>j\<in>set (all_jobs ext_allowed). job_allowed ext_allowed (species ?ng2) j \<noteq> CC_BANNED)
      \<and> list_all (\<lambda>j. job_allowed ext_allowed (species ?ng2) j \<noteq> CC_BANNED
            \<longrightarrow> is_starting_job j) (all_jobs ext_allowed)"
    unfolding list_all_iff .
  from d have d': "list_all (\<lambda>wc. snd wc \<noteq> CC_UNRESTRICTED) ?ws" by simp
  from a' b t1 c' t2 ca' cb' t2a d' e t3 show ?thesis
    by (intro conjI) (simp_all only: simp_thms)
qed

text \<open>
  Claim C4 as stated has the step never fail. For the request ``recommended species''
  with the job Fighter fixed and an oracle that bans every species for fighters, the
  pool of UNRESTRICTED species is empty, and the step ends the process.
\<close>

theorem viable_falls_through_to_random_counterexample:
  "species (newgame_def0\<lparr>species := SP_VIABLE, job := JOB_FIGHTER\<rparr>) = SP_VIABLE
   \<and> job (newgame_def0\<lparr>job := JOB_FIGHTER\<rparr>) = JOB_FIGHTER
   \<and> list_all (\<lambda>sp. species_allowed ext_banned JOB_FIGHTER sp \<noteq> CC_UNRESTRICTED) species_order
   \<and> resolve_species ext_banned (newgame_def0\<lparr>job := JOB_FIGHTER\<rparr>)
       (newgame_def0\<lparr>species := SP_VIABLE, job := JOB_FIGHTER\<rparr>) (sconst 0)
     = Some (Inl (End 1 ''Failed to find legal species.''))"
  by (simp add: resolve_species_def resolve_species_random_def is_good_combination_def
      ext_banned_def ext0_def newgame_def0_def species_order_def)


subsection \<open>The weapon stage\<close>

text \<open>
  Claim C7. If the species is not Felid, the job has a weapon choice, and the list of
  non-banned weapon candidates computed for the pair has exactly one element,
  \<^verbatim>\<open>_choose_weapon\<close> returns true with that weapon written to the resolved record and to
  the request. The world is as before: no event was read, no prompt was shown, and no
  random number was drawn.
\<close>

theorem single_weapon_is_assigned:
  "species ng \<noteq> SP_FELID \<and> job_has_weapon_choice env (job ng) \<and> get_weapons env ng = [wc] \<longrightarrow>
     choose_weapon env ng ng_choice defaults w
       = Some (Inr (True, ng\<lparr>weapon := fst wc\<rparr>, ng_choice\<lparr>weapon := fst wc\<rparr>, w))"
  by (simp add: choose_weapon_def)

theorem single_weapon_is_assigned_witness:
  "species (newgame_def0\<lparr>species := SP_HUMAN, job := JOB_FIGHTER\<rparr>) \<noteq> SP_FELID
   \<and> job_has_weapon_choice
        (ext0\<lparr>weapon_restriction := (\<lambda>wp ng. if wp = WPN_MACE then CC_RESTRICTED else CC_BANNED)\<rparr>)
        (job (newgame_def0\<lparr>species := SP_HUMAN, job := JOB_FIGHTER\<rparr>))
   \<and> get_weapons
        (ext0\<lparr>weapon_restriction := (\<lambda>wp ng. if wp = WPN_MACE then CC_RESTRICTED else CC_BANNED)\<rparr>)
        (newgame_def0\<lparr>species := SP_HUMAN, job := JOB_FIGHTER\<rparr>) = [(WPN_MACE, CC_RESTRICTED)]
   \<and> choose_weapon
        (ext0\<lparr>weapon_restriction := (\<lambda>wp ng. if wp = WPN_MACE then CC_RESTRICTED else CC_BANNED)\<rparr>)
        (newgame_def0\<lparr>species := SP_HUMAN, job := JOB_FIGHTER\<rparr>)
        (newgame_def0\<lparr>species := SP_HUMAN, job := JOB_FIGHTER, weapon := WPN_SPEAR\<rparr>)
        newgame_def0 world0
     = Some (Inr (True,
         newgame_def0\<lparr>species := SP_HUMAN, job := JOB_FIGHTER\<rparr>\<lparr>weapon := fst (WPN_MACE, CC_RESTRICTED)\<rparr>,
         newgame_def0\<lparr>species := SP_HUMAN, job := JOB_FIGHTER, weapon := WPN_SPEAR\<rparr>
           \<lparr>weapon := fst (WPN_MACE, CC_RESTRICTED)\<rparr>,
         world0))"
proof -
  let ?env = "ext0\<lparr>weapon_restriction := (\<lambda>wp ng. if wp = WPN_MACE then CC_RESTRICTED else CC_BANNED)\<rparr>"
  let ?ng = "newgame_def0\<lparr>species := SP_HUMAN, job := JOB_FIGHTER\<rparr>"
  have a: "species ?ng \<noteq> SP_FELID" by (simp add: newgame_def0_def)
  have b: "job_has_weapon_choice ?env (job ?ng)" by (simp add: ext0_def newgame_def0_def)
  have c: "get_weapons ?env ?ng = [(WPN_MACE, CC_RESTRICTED)]"
    by (simp add: get_weapons_def ext0_def newgame_def0_def)
  from a b c have "species ?ng \<noteq> SP_FELID \<and> job_has_weapon_choice ?env (job ?ng)
      \<and> get_weapons ?env ?ng = [(WPN_MACE, CC_RESTRICTED)]" by blast
  from single_weapon_is_assigned[THEN mp, OF this] a b c show ?thesis by blast
qed

text \<open>
  Claim C8. If the species is Felid, or the job has no weapon choice, \<^verbatim>\<open>_choose_weapon\<close>
  returns true at once: the resolved record and the request are as before, so no weapon
  was assigned, and the world is as before, so no prompt was shown.
\<close>

theorem no_weapon_stage_is_trivial:
  "species ng = SP_FELID \<or> \<not> job_has_weapon_choice env (job ng) \<longrightarrow>
     choose_weapon env ng ng_choice defaults w = Some (Inr (True, ng, ng_choice, w))"
  by (simp add: choose_weapon_def)

theorem no_weapon_stage_is_trivial_witness:
  "species (newgame_def0\<lparr>species := SP_FELID, job := JOB_FIGHTER\<rparr>) = SP_FELID
   \<and> choose_weapon ext0 (newgame_def0\<lparr>species := SP_FELID, job := JOB_FIGHTER\<rparr>)
        (newgame_def0\<lparr>species := SP_FELID, job := JOB_FIGHTER\<rparr>) newgame_def0 world0
     = Some (Inr (True, newgame_def0\<lparr>species := SP_FELID, job := JOB_FIGHTER\<rparr>,
                  newgame_def0\<lparr>species := SP_FELID, job := JOB_FIGHTER\<rparr>, world0))
   \<and> weapon (newgame_def0\<lparr>species := SP_FELID, job := JOB_FIGHTER\<rparr>) = WPN_UNKNOWN
   \<and> \<not> job_has_weapon_choice ext0 (job (newgame_def0\<lparr>species := SP_HUMAN, job := JOB_WIZARD\<rparr>))
   \<and> choose_weapon ext0 (newgame_def0\<lparr>species := SP_HUMAN, job := JOB_WIZARD\<rparr>)
        (newgame_def0\<lparr>species := SP_HUMAN, job := JOB_WIZARD\<rparr>) newgame_def0 world0
     = Some (Inr (True, newgame_def0\<lparr>species := SP_HUMAN, job := JOB_WIZARD\<rparr>,
                  newgame_def0\<lparr>species := SP_HUMAN, job := JOB_WIZARD\<rparr>, world0))"
proof -
  let ?f = "newgame_def0\<lparr>species := SP_FELID, job := JOB_FIGHTER\<rparr>"
  let ?h = "newgame_def0\<lparr>species := SP_HUMAN, job := JOB_WIZARD\<rparr>"
  have a: "species ?f = SP_FELID" and u: "weapon ?f = WPN_UNKNOWN"
    by (simp_all add: newgame_def0_def)
  have b: "\<not> job_has_weapon_choice ext0 (job ?h)" by (simp add: ext0_def newgame_def0_def)
  from a have a': "species ?f = SP_FELID \<or> \<not> job_has_weapon_choice ext0 (job ?f)" by blast
  from b have b': "species ?h = SP_FELID \<or> \<not> job_has_weapon_choice ext0 (job ?h)" by blast
  from no_weapon_stage_is_trivial[THEN mp, OF a', of ?f newgame_def0 world0]
       no_weapon_stage_is_trivial[THEN mp, OF b', of ?h newgame_def0 world0] a u b
  show ?thesis by blast
qed

subsection \<open>The check after the species and job loop\<close>

text \<open>
  Claim C2. Whenever \<^verbatim>\<open>_choose_species_job\<close> returns, the oracle's restriction
  \<^verbatim>\<open>job_allowed\<close> of the species and job in the resolved record is not BANNED. If its
  loop ends with a banned pair, the check after the loop ends the process with exit
  code 1 and the message ``Incompatible species and background (\<dots>) selected.''
  instead of returning.
\<close>

theorem choose_species_job_never_banned:
  "(choose_species_job env ng ng_choice defaults w = Some (Inr (ng', ng_choice', w')) \<longrightarrow>
      job_allowed env (species ng') (job ng') \<noteq> CC_BANNED)
   \<and> (choose_species_job_resolved env ng ng_choice defaults w = Some (Inr (ng', ng_choice', w'))
        \<and> job_allowed env (species ng') (job ng') = CC_BANNED \<longrightarrow>
      choose_species_job env ng ng_choice defaults w
        = Some (Inl (End 1 (''Incompatible species and background ('' @
                              char_description env ng' @ '') selected.''))))"
proof (intro conjI impI)
  assume "choose_species_job env ng ng_choice defaults w = Some (Inr (ng', ng_choice', w'))"
  then obtain x where "choose_species_job_resolved env ng ng_choice defaults w = Some (Inr x)"
    and "(case x of (ng1, ng_choice1, w1) \<Rightarrow>
          if job_allowed env (species ng1) (job ng1) = CC_BANNED then
            Some (Inl (End 1 (''Incompatible species and background ('' @
                              char_description env ng1 @ '') selected.'')))
          else Some (Inr (ng1, ng_choice1, w1))) = Some (Inr (ng', ng_choice', w'))"
    unfolding choose_species_job_def and_then_Inr by blast
  then show "job_allowed env (species ng') (job ng') \<noteq> CC_BANNED"
    by (auto split: prod.splits if_splits)
next
  assume "choose_species_job_resolved env ng ng_choice defaults w = Some (Inr (ng', ng_choice', w'))
        \<and> job_allowed env (species ng') (job ng') = CC_BANNED"
  then show "choose_species_job env ng ng_choice defaults w
        = Some (Inl (End 1 (''Incompatible species and background ('' @
                              char_description env ng' @ '') selected.'')))"
    by (simp add: choose_species_job_def)
qed

lemma run_layout_finished:
  "finished st \<Longrightarrow> run_layout handler finished st evs = Some (st, evs)"
  by (subst run_layout.simps) simp

lemma run_layout_step:
  "\<not> finished st \<Longrightarrow>
   run_layout handler finished st evs
     = run_layout handler finished (handler st (shd evs)) (stl evs)"
  by (subst run_layout.simps) simp

lemma choose_species_job_loop_exit:
  "species ng_choice \<noteq> SP_UNKNOWN \<Longrightarrow> job ng_choice \<noteq> JOB_UNKNOWN \<Longrightarrow>
   choose_species_job_loop env defaults ng ng_choice w = Some (Inr (ng, ng_choice, w))"
  by (subst choose_species_job_loop.simps) simp

lemma choose_species_job_loop_job_prompt:
  "species ng_choice \<noteq> SP_UNKNOWN \<Longrightarrow> job ng_choice = JOB_UNKNOWN \<Longrightarrow>
   choose_species_job_loop env defaults ng ng_choice w =
     and_then (resolve_species_job_w env ng ng_choice w)
       (\<lambda>(ng2, w2).
     and_then (prompt_choice env C_JOB ng2 ng_choice defaults w2)
       (\<lambda>(ng3, ng_choice3, w3).
     and_then (resolve_species_job_w env ng3 ng_choice3 w3)
       (\<lambda>(ng4, w4). choose_species_job_loop env defaults ng4 ng_choice3 w4)))"
  by (subst choose_species_job_loop.simps) simp

theorem choose_species_job_never_banned_witness:
  "choose_species_job ext0 newgame_def0 (newgame_def0\<lparr>species := SP_HUMAN\<rparr>) newgame_def0
      (world0\<lparr>events := Button_activated 1 ## sconst WME_OTHER\<rparr>)
     = Some (Inr (newgame_def0\<lparr>species := SP_HUMAN, job := JOB_FIGHTER\<rparr>,
                  newgame_def0\<lparr>species := SP_HUMAN, job := JOB_FIGHTER\<rparr>,
                  world0\<lparr>prompted := [Prompt_job]\<rparr>))
   \<and> job_allowed ext0 (species (newgame_def0\<lparr>species := SP_HUMAN, job := JOB_FIGHTER\<rparr>))
        (job (newgame_def0\<lparr>species := SP_HUMAN, job := JOB_FIGHTER\<rparr>)) \<noteq> CC_BANNED
   \<and> choose_species_job_resolved ext_banned newgame_def0
        (newgame_def0\<lparr>species := SP_HUMAN, job := JOB_FIGHTER\<rparr>) newgame_def0 world0
     = Some (Inr (newgame_def0\<lparr>species := SP_HUMAN, job := JOB_FIGHTER\<rparr>,
                  newgame_def0\<lparr>species := SP_HUMAN, job := JOB_FIGHTER\<rparr>, world0))
   \<and> job_allowed ext_banned (species (newgame_def0\<lparr>species := SP_HUMAN, job := JOB_FIGHTER\<rparr>))
        (job (newgame_def0\<lparr>species := SP_HUMAN, job := JOB_FIGHTER\<rparr>)) = CC_BANNED
   \<and> choose_species_job ext_banned newgame_def0
        (newgame_def0\<lparr>species := SP_HUMAN, job := JOB_FIGHTER\<rparr>) newgame_def0 world0
     = Some (Inl (End 1 ''Incompatible species and background (Human Fighter) selected.''))"
proof -
  let ?hf = "newgame_def0\<lparr>species := SP_HUMAN, job := JOB_FIGHTER\<rparr>"
  let ?w = "world0\<lparr>events := Button_activated 1 ## sconst WME_OTHER\<rparr>"
  have run: "choose_species_job ext0 newgame_def0 (newgame_def0\<lparr>species := SP_HUMAN\<rparr>)
      newgame_def0 ?w = Some (Inr (?hf, ?hf, world0\<lparr>prompted := [Prompt_job]\<rparr>))"
    by (simp add: choose_species_job_def choose_species_job_resolved_def
        choose_species_job_loop_job_prompt choose_species_job_loop_exit
        resolve_species_job_w_def resolve_species_job_def species_first_def coinflip_def
        random2_def job_then_species_def species_then_job_def resolve_species_def
        resolve_job_def prompt_choice_def run_layout_step run_layout_finished
        choice_menu_handler_def menu_item_activated_def
        M_VIABLE_CHAR_def M_RANDOM_CHAR_def M_DEFAULT_CHOICE_def M_ABORT_def M_HELP_def
        M_APTITUDES_def M_VIABLE_def M_RANDOM_def
        is_starting_job_def jobs_order_def ext0_def newgame_def0_def world0_def)
  have res: "choose_species_job_resolved ext_banned newgame_def0 ?hf newgame_def0 world0
      = Some (Inr (?hf, ?hf, world0))"
    by (simp add: choose_species_job_resolved_def choose_species_job_loop_exit
        resolve_species_job_w_def resolve_species_job_def species_first_def coinflip_def
        random2_def job_then_species_def species_then_job_def resolve_species_def
        resolve_job_def newgame_def0_def world0_def)
  have ban: "job_allowed ext_banned (species ?hf) (job ?hf) = CC_BANNED"
    by (simp add: ext_banned_def ext0_def)
  have descr: "char_description ext_banned ?hf = ''Human Fighter''"
    by (simp add: char_description_def is_random_viable_choice_def is_random_choice_def
        is_random_species_def is_random_job_def ext_banned_def ext0_def newgame_def0_def)
  from choose_species_job_never_banned[of ext0 newgame_def0 "newgame_def0\<lparr>species := SP_HUMAN\<rparr>"
      newgame_def0 ?w ?hf ?hf "world0\<lparr>prompted := [Prompt_job]\<rparr>", THEN conjunct1] run
  have ok: "job_allowed ext0 (species ?hf) (job ?hf) \<noteq> CC_BANNED" by blast
  from choose_species_job_never_banned[of ext_banned newgame_def0 ?hf newgame_def0 world0
      ?hf ?hf world0, THEN conjunct2] res ban
  have "choose_species_job ext_banned newgame_def0 ?hf newgame_def0 world0
     = Some (Inl (End 1 (''Incompatible species and background ('' @
                              char_description ext_banned ?hf @ '') selected.'')))"
    by blast
  then have fatal: "choose_species_job ext_banned newgame_def0 ?hf newgame_def0 world0
     = Some (Inl (End 1 ''Incompatible species and background (Human Fighter) selected.''))"
    by (simp add: descr)
  from run ok res ban fatal show ?thesis by blast
qed


subsection \<open>The reroll loop\<close>

lemma run_layout_invariant:
  assumes run: "run_layout handler finished st evs = Some r"
  shows "(\<forall>s e. Inv s \<longrightarrow> Inv (handler s e)) \<longrightarrow> Inv st \<longrightarrow> Inv (fst r) \<and> finished (fst r)"
  using run
proof (rule run_layout.raw_induct[rotated 1])
  fix loop and h :: "'a \<Rightarrow> wm_event \<Rightarrow> 'a" and fin s es r
  assume ih: "\<And>h fin s es r. loop h fin s es = Some r
      \<Longrightarrow> (\<forall>s e. Inv s \<longrightarrow> Inv (h s e)) \<longrightarrow> Inv s \<longrightarrow> Inv (fst r) \<and> fin (fst r)"
    and body: "(if fin s then Some (s, es) else loop h fin (h s (shd es)) (stl es)) = Some r"
  show "(\<forall>s e. Inv s \<longrightarrow> Inv (h s e)) \<longrightarrow> Inv s \<longrightarrow> Inv (fst r) \<and> fin (fst r)"
  proof (cases "fin s")
    case True
    with body show ?thesis by auto
  next
    case False
    with body have "loop h fin (h s (shd es)) (stl es) = Some r" by simp
    from ih[OF this] show ?thesis by blast
  qed
qed

lemma choice_menu_handler_name:
  "name (m_ng_choice (choice_menu_handler env ct defaults st ev)) = name (m_ng_choice st)
   \<and> gtype (m_ng_choice (choice_menu_handler env ct defaults st ev)) = gtype (m_ng_choice st)"
  by (cases ev)
     (simp_all add: choice_menu_handler_def on_event_def menu_item_activated_def
        set_default_choice_def mark_fully_random_def Let_def)

lemma prompt_choice_name:
  assumes "prompt_choice env ct ng ng_choice defaults w = Some (Inr (ng', ng_choice', w'))"
  shows "name ng_choice' = name ng_choice \<and> gtype ng_choice' = gtype ng_choice"
proof -
  let ?st0 = "\<lparr>m_done = False, m_end_game = False, m_cancel = False, m_ng = ng,
              m_ng_choice = ng_choice\<rparr>"
  from assms obtain st evs where
    run: "run_layout (choice_menu_handler env ct defaults) m_done ?st0 (events w) = Some (st, evs)"
    and c: "ng_choice' = m_ng_choice st"
    unfolding prompt_choice_def by (auto split: option.splits if_splits)
  let ?Inv = "\<lambda>s. name (m_ng_choice s) = name ng_choice \<and> gtype (m_ng_choice s) = gtype ng_choice"
  from run_layout_invariant[OF run, of ?Inv]
  have "?Inv st" by (simp add: choice_menu_handler_name)
  with c show ?thesis by simp
qed

lemma parse_combo_name:
  "parse_combo env combo choice = Inr choice' \<Longrightarrow>
   name choice' = name choice \<and> gtype choice' = gtype choice \<and> fully_random choice' = fully_random choice"
  unfolding parse_combo_def Let_def
  by (auto split: if_splits sum.splits prod.splits)

lemma apply_allowed_name:
  "apply_allowed env choice g = Inr (choice', g') \<Longrightarrow>
   name choice' = name choice \<and> gtype choice' = gtype choice"
  unfolding apply_allowed_def
  by (auto split: if_splits sum.splits prod.splits dest!: parse_combo_name)

lemma apply_allowed_none:
  "allowed_combos choice = [] \<Longrightarrow> allowed_species choice = [] \<Longrightarrow> allowed_jobs choice = [] \<Longrightarrow>
   allowed_weapons choice = [] \<Longrightarrow> apply_allowed env choice g = Inr (choice, g)"
  by (simp add: apply_allowed_def)

lemma choose_species_job_loop_name:
  assumes "choose_species_job_loop env defaults ng ng_choice w = Some r"
  shows "\<forall>ng' ng_choice' w'. r = Inr (ng', ng_choice', w') \<longrightarrow>
           name ng_choice' = name ng_choice \<and> gtype ng_choice' = gtype ng_choice"
  using assms
proof (rule choose_species_job_loop.raw_induct[rotated 1])
  fix loop env defaults ng ng_choice w r
  assume ih: "\<And>env defaults ng ng_choice w r. loop env defaults ng ng_choice w = Some r \<Longrightarrow>
      \<forall>ng' ng_choice' w'. r = Inr (ng', ng_choice', w') \<longrightarrow>
           name ng_choice' = name ng_choice \<and> gtype ng_choice' = gtype ng_choice"
    and body: "(if species ng_choice = SP_UNKNOWN \<or> job ng_choice = JOB_UNKNOWN then
        and_then (if species ng_choice = SP_UNKNOWN
                  then prompt_choice env C_SPECIES ng ng_choice defaults w
                  else Some (Inr (ng, ng_choice, w)))
          (\<lambda>(ng1, ng_choice1, w1).
        and_then (resolve_species_job_w env ng1 ng_choice1 w1)
          (\<lambda>(ng2, w2).
        and_then (if job ng_choice1 = JOB_UNKNOWN
                  then prompt_choice env C_JOB ng2 ng_choice1 defaults w2
                  else Some (Inr (ng2, ng_choice1, w2)))
          (\<lambda>(ng3, ng_choice3, w3).
        and_then (resolve_species_job_w env ng3 ng_choice3 w3)
          (\<lambda>(ng4, w4). loop env defaults ng4 ng_choice3 w4))))
      else Some (Inr (ng, ng_choice, w))) = Some r"
  show "\<forall>ng' ng_choice' w'. r = Inr (ng', ng_choice', w') \<longrightarrow>
           name ng_choice' = name ng_choice \<and> gtype ng_choice' = gtype ng_choice"
  proof (intro allI impI)
    fix ng' ng_choice' w'
    assume r: "r = Inr (ng', ng_choice', w')"
    show "name ng_choice' = name ng_choice \<and> gtype ng_choice' = gtype ng_choice"
    proof (cases "species ng_choice = SP_UNKNOWN \<or> job ng_choice = JOB_UNKNOWN")
      case False
      with body r show ?thesis by simp
    next
      case True
      with body r obtain ng1 c1 w1 ng2 w2 ng3 c3 w3 ng4 w4 where
        p1: "(if species ng_choice = SP_UNKNOWN
                  then prompt_choice env C_SPECIES ng ng_choice defaults w
                  else Some (Inr (ng, ng_choice, w))) = Some (Inr (ng1, c1, w1))"
        and p2: "(if job c1 = JOB_UNKNOWN
                  then prompt_choice env C_JOB ng2 c1 defaults w2
                  else Some (Inr (ng2, c1, w2))) = Some (Inr (ng3, c3, w3))"
        and rec: "loop env defaults ng4 c3 w4 = Some (Inr (ng', ng_choice', w'))"
        by (simp add: and_then_Inr) blast
      from p1 have 1: "name c1 = name ng_choice \<and> gtype c1 = gtype ng_choice"
        by (auto split: if_splits dest: prompt_choice_name)
      from p2 have 2: "name c3 = name c1 \<and> gtype c3 = gtype c1"
        by (auto split: if_splits dest: prompt_choice_name)
      from ih[OF rec] have "name ng_choice' = name c3 \<and> gtype ng_choice' = gtype c3" by blast
      with 1 2 show ?thesis by simp
    qed
  qed
qed

lemma choose_species_job_name:
  assumes "choose_species_job env ng ng_choice defaults w = Some (Inr (ng', ng_choice', w'))"
  shows "name ng_choice' = name ng_choice \<and> gtype ng_choice' = gtype ng_choice"
proof -
  from assms obtain x where
    "choose_species_job_resolved env ng ng_choice defaults w = Some (Inr x)"
    and x: "(case x of (ng1, ng_choice1, w1) \<Rightarrow>
          if job_allowed env (species ng1) (job ng1) = CC_BANNED then
            Some (Inl (End 1 (''Incompatible species and background ('' @
                              char_description env ng1 @ '') selected.'')))
          else Some (Inr (ng1, ng_choice1, w1))) = Some (Inr (ng', ng_choice', w'))"
    unfolding choose_species_job_def and_then_Inr by blast
  then obtain y where
    l: "(case y of (ng1, w1) \<Rightarrow> choose_species_job_loop env defaults ng1 ng_choice w1)
          = Some (Inr x)"
    unfolding choose_species_job_resolved_def and_then_Inr by blast
  obtain ng1 w1 where y: "y = (ng1, w1)" by (cases y)
  from x have "x = (ng', ng_choice', w')" by (auto split: prod.splits if_splits)
  with l y have "choose_species_job_loop env defaults ng1 ng_choice w1
      = Some (Inr (ng', ng_choice', w'))" by simp
  from choose_species_job_loop_name[OF this] show ?thesis by blast
qed

lemma choose_species_job_random_choice:
  assumes "is_random_choice ng_choice"
    and "choose_species_job env ng ng_choice defaults w = Some (Inr (ng', ng_choice', w'))"
  shows "ng_choice' = ng_choice"
proof -
  from assms(1) have k: "species ng_choice \<noteq> SP_UNKNOWN" "job ng_choice \<noteq> JOB_UNKNOWN"
    by (auto simp add: is_random_choice_def is_random_species_def is_random_job_def)
  from assms(2) obtain x where
    "choose_species_job_resolved env ng ng_choice defaults w = Some (Inr x)"
    and x: "(case x of (ng1, ng_choice1, w1) \<Rightarrow>
          if job_allowed env (species ng1) (job ng1) = CC_BANNED then
            Some (Inl (End 1 (''Incompatible species and background ('' @
                              char_description env ng1 @ '') selected.'')))
          else Some (Inr (ng1, ng_choice1, w1))) = Some (Inr (ng', ng_choice', w'))"
    unfolding choose_species_job_def and_then_Inr by blast
  then obtain y where
    l: "(case y of (ng1, w1) \<Rightarrow> choose_species_job_loop env defaults ng1 ng_choice w1)
          = Some (Inr x)"
    unfolding choose_species_job_resolved_def and_then_Inr by blast
  obtain ng1 w1 where y: "y = (ng1, w1)" by (cases y)
  from x have "x = (ng', ng_choice', w')" by (auto split: prod.splits if_splits)
  with l y k show ?thesis by (simp add: choose_species_job_loop_exit)
qed

lemma resolve_pass_name:
  assumes "resolve_pass env ng choice defaults w = Some (Inr (ng2, choice2, w2))"
  shows "name choice2 = name choice \<and> gtype choice2 = gtype choice"
proof -
  from assms obtain choice1 g1 where a: "apply_allowed env choice (gen w) = Inr (choice1, g1)"
    and c: "choose_species_job env ng choice1 defaults (w\<lparr>gen := g1\<rparr>)
              = Some (Inr (ng2, choice2, w2))"
    unfolding resolve_pass_def by (auto split: sum.splits)
  from apply_allowed_name[OF a] choose_species_job_name[OF c] show ?thesis by simp
qed

lemma resolve_pass_random_choice:
  assumes "is_random_choice choice" and "allowed_combos choice = []"
    and "allowed_species choice = []" and "allowed_jobs choice = []"
    and "allowed_weapons choice = []"
    and "resolve_pass env ng choice defaults w = Some (Inr (ng2, choice2, w2))"
  shows "choice2 = choice"
  using assms(6) choose_species_job_random_choice[OF assms(1), of env ng defaults]
  unfolding resolve_pass_def by (simp add: apply_allowed_none assms)

lemma reroll_pass_Inr:
  "reroll_pass env ng choice defaults w = Some (Inr (ng2, choice2, reroll, w3)) \<longleftrightarrow>
   (\<exists>w2. resolve_pass env ng choice defaults w = Some (Inr (ng2, choice2, w2))
      \<and> (if fully_random choice2 then reroll_random ng2 w2 else Some (Inr (False, w2)))
          = Some (Inr (reroll, w3)))"
  unfolding reroll_pass_def by (auto simp add: and_then_Inr split: if_splits)

lemma choose_char_loop_reject:
  "reroll_pass env ng choice defaults w = Some (Inr (ng2, choice2, True, w3)) \<Longrightarrow>
   choose_char_loop env ng_reset ng choice defaults w
     = choose_char_loop env ng_reset ng_reset choice2 defaults w3"
  by (subst choose_char_loop.simps) simp

lemma choose_char_loop_accept:
  "reroll_pass env ng choice defaults w = Some (Inr (ng2, choice2, False, w3)) \<Longrightarrow>
   choose_weapon env ng2 choice2 defaults w3 = Some (Inr (True, ng4, choice4, w4)) \<Longrightarrow>
   choose_char_loop env ng_reset ng choice defaults w = Some (Inr (ng4, choice4, w4))"
  by (subst choose_char_loop.simps) simp

lemma choose_char_loop_quit:
  "resolve_pass env ng choice defaults w = Some (Inr (ng2, choice2, w2)) \<Longrightarrow>
   fully_random choice2 \<Longrightarrow> reroll_random ng2 w2 = Some (Inl e) \<Longrightarrow>
   choose_char_loop env ng_reset ng choice defaults w = Some (Inl e)"
  by (subst choose_char_loop.simps) (simp add: reroll_pass_def)

lemma choose_char_loop_weapon_abort:
  "reroll_pass env ng choice defaults w = Some (Inr (ng2, choice2, False, w3)) \<Longrightarrow>
   choose_weapon env ng2 choice2 defaults w3 = Some (Inr (False, ng4, choice4, w4)) \<Longrightarrow>
   choose_char_loop env ng_reset ng choice defaults w
     = choose_char_loop env ng_reset ng_reset ng_reset choice4 w4"
  by (subst choose_char_loop.simps) simp

lemma choose_char_loop_ends:
  "reroll_pass env ng choice defaults w = Some (Inl e) \<Longrightarrow>
   choose_char_loop env ng_reset ng choice defaults w = Some (Inl e)"
  by (subst choose_char_loop.simps) simp

lemma choose_char_normal:
  "gtype ng \<noteq> GAME_TYPE_TUTORIAL \<Longrightarrow> gtype ng \<noteq> GAME_TYPE_HINTS \<Longrightarrow>
   choose_char env ng choice defaults w = choose_char_loop env ng ng choice defaults w"
  by (simp add: choose_char_def)

lemma reroll_random_key:
  "events w = WME_KEYDOWN k ## evs \<Longrightarrow>
   reroll_random ng w =
     (if k = CK_ESCAPE \<or> k = Key CHR ''q'' \<or> k = Key CHR ''Q'' \<or> seen_hups w
      then Some (Inl Game_ended_abort)
      else Some (Inr (k = Key CHR ''n'' \<or> k = Key CHR ''N'' \<or> k = CK_TAB
                        \<or> k = Key CHR ''!'' \<or> k = Key CHR ''#'',
             w\<lparr>events := evs, prompted := prompted w @ [Prompt_reroll]\<rparr>)))"
  by (simp add: reroll_random_def run_layout_step run_layout_finished reroll_handler_def)

lemma resolve_weapon_frame:
  "resolve_weapon ng ng_choice weapons g = Inr (ng', g') \<Longrightarrow> ng' = ng\<lparr>weapon := weapon ng'\<rparr>"
  unfolding resolve_weapon_def resolve_weapon_switch_def resolve_weapon_random_def
  by (auto split: if_splits prod.splits)

lemma resolve_weapon_w_frame:
  "resolve_weapon_w ng ng_choice weapons w = Some (Inr (ng', w')) \<Longrightarrow>
   ng' = ng\<lparr>weapon := weapon ng'\<rparr>"
  unfolding resolve_weapon_w_def
  by (auto split: sum.splits dest: resolve_weapon_frame)

lemma choose_weapon_frame:
  assumes "choose_weapon env ng ng_choice defaults w = Some (Inr (chosen, ng', ng_choice', w'))"
  shows "ng' = ng\<lparr>weapon := weapon ng'\<rparr>"
proof (cases "species ng = SP_FELID \<or> \<not> job_has_weapon_choice env (job ng)
              \<or> get_weapons env ng = [] \<or> length (get_weapons env ng) = 1")
  case True
  with assms show ?thesis
    by (auto simp add: choose_weapon_def Let_def split: if_splits)
next
  case False
  with assms obtain ng1 w1 where
    1: "resolve_weapon_w ng ng_choice (get_weapons env ng) w = Some (Inr (ng1, w1))"
    and 2: "(if weapon ng1 = WPN_UNKNOWN then
                  and_then (prompt_weapon env ng1 ng_choice defaults (get_weapons env ng) w1)
                    (\<lambda>(ret, ng_choice2, w2).
                       if \<not> ret then Some (Inr (False, ng1, ng_choice2, w2))
                       else
                         and_then (resolve_weapon_w ng1 ng_choice2 (get_weapons env ng) w2)
                           (\<lambda>(ng3, w3). Some (Inr (True, ng3, ng_choice2, w3))))
                else Some (Inr (True, ng1, ng_choice, w1)))
            = Some (Inr (chosen, ng', ng_choice', w'))"
    by (auto simp add: choose_weapon_def Let_def and_then_Inr split: if_splits)
  from resolve_weapon_w_frame[OF 1] have f1: "ng1 = ng\<lparr>weapon := weapon ng1\<rparr>" .
  have "ng' = ng1\<lparr>weapon := weapon ng'\<rparr>"
  proof (cases "weapon ng1 = WPN_UNKNOWN")
    case False
    with 2 show ?thesis by simp
  next
    case True
    with 2 obtain ret c2 w2 where
      3: "(if \<not> ret then Some (Inr (False, ng1, c2, w2))
           else and_then (resolve_weapon_w ng1 c2 (get_weapons env ng) w2)
                  (\<lambda>(ng3, w3). Some (Inr (True, ng3, c2, w3))))
          = Some (Inr (chosen, ng', ng_choice', w'))"
      by (auto simp add: and_then_Inr)
    show ?thesis
    proof (cases ret)
      case False
      with 3 show ?thesis by simp
    next
      case True
      with 3 obtain ng3 w3 where
        "resolve_weapon_w ng1 c2 (get_weapons env ng) w2 = Some (Inr (ng3, w3))" "ng' = ng3"
        by (auto simp add: and_then_Inr)
      then show ?thesis using resolve_weapon_w_frame by blast
    qed
  qed
  with f1 show ?thesis by (metis newgame_def.update_convs(7) newgame_def.surjective
      newgame_def.select_convs)
qed

lemma after_rejections_Suc:
  "after_rejections env ng_reset defaults (Suc n) st = Some (ng', choice', w') \<longleftrightarrow>
   (\<exists>ng choice w ng2.
      after_rejections env ng_reset defaults n st = Some (ng, choice, w)
      \<and> reroll_pass env ng choice defaults w = Some (Inr (ng2, choice', True, w'))
      \<and> ng' = ng_reset)"
  by (auto split: option.splits sum.splits prod.splits bool.splits)

lemma after_rejections_props:
  "after_rejections env ng_reset defaults n (ng, choice, w) = Some (ng', choice', w') \<Longrightarrow>
   (0 < n \<longrightarrow> ng' = ng_reset)
   \<and> name choice' = name choice \<and> gtype choice' = gtype choice
   \<and> choose_char_loop env ng_reset ng choice defaults w
       = choose_char_loop env ng_reset ng' choice' defaults w'"
proof (induction n arbitrary: ng' choice' w')
  case 0
  then show ?case by simp
next
  case (Suc n)
  from Suc.prems obtain ng1 c1 w1 ng2 where
    n: "after_rejections env ng_reset defaults n (ng, choice, w) = Some (ng1, c1, w1)"
    and p: "reroll_pass env ng1 c1 defaults w1 = Some (Inr (ng2, choice', True, w'))"
    and r: "ng' = ng_reset"
    unfolding after_rejections_Suc by blast
  from Suc.IH[OF n] have ih: "name c1 = name choice" "gtype c1 = gtype choice"
    "choose_char_loop env ng_reset ng choice defaults w
       = choose_char_loop env ng_reset ng1 c1 defaults w1" by simp_all
  from p obtain w2 where "resolve_pass env ng1 c1 defaults w1 = Some (Inr (ng2, choice', w2))"
    unfolding reroll_pass_Inr by blast
  from resolve_pass_name[OF this] have nm: "name choice' = name c1" "gtype choice' = gtype c1"
    by simp_all
  from choose_char_loop_reject[OF p, of ng_reset] ih r nm show ?case by simp
qed

lemma after_rejections_random_choice:
  assumes "is_random_choice choice" and "allowed_combos choice = []"
    and "allowed_species choice = []" and "allowed_jobs choice = []"
    and "allowed_weapons choice = []"
  shows "after_rejections env ng_reset defaults n (ng, choice, w) = Some (ng', choice', w') \<Longrightarrow>
         choice' = choice"
proof (induction n arbitrary: ng' choice' w')
  case 0
  then show ?case by simp
next
  case (Suc n)
  from Suc.prems obtain ng1 c1 w1 ng2 where
    n: "after_rejections env ng_reset defaults n (ng, choice, w) = Some (ng1, c1, w1)"
    and p: "reroll_pass env ng1 c1 defaults w1 = Some (Inr (ng2, choice', True, w'))"
    unfolding after_rejections_Suc by blast
  from Suc.IH[OF n] have c1: "c1 = choice" .
  from p obtain w2 where "resolve_pass env ng1 choice defaults w1 = Some (Inr (ng2, choice', w2))"
    unfolding reroll_pass_Inr c1 by blast
  from resolve_pass_random_choice[OF assms this] show ?case .
qed

text \<open>
  Claim C9, as amended. The snapshot \<open>ng_reset\<close> is the resolved record with which
  \<^verbatim>\<open>_choose_char\<close> is entered. Each rejection sets the resolved record back to the
  snapshot and leaves the request as the attempt left it; the attempt never changes the
  name and the game type of the request. So after any number \<open>n\<close> of rejections the loop
  goes on from the snapshot, the request of the last attempt and the unchanged defaults.
  If the species and the job of the request are both RANDOM or VIABLE and the request
  has no allow-lists, the attempt does not change the request at all, so the records at
  the start of attempt \<open>n + 1\<close> are those at the start of attempt 1. Accepting keeps the
  current resolved character: it goes on to the weapon stage, which changes its weapon
  only, and the loop returns it when that stage succeeds. Quitting (Escape, \<^verbatim>\<open>q\<close> or
  \<^verbatim>\<open>Q\<close>) at the confirmation ends the loop with the abort signal.
\<close>

theorem reroll_loop:
  "(gtype ng \<noteq> GAME_TYPE_TUTORIAL \<and> gtype ng \<noteq> GAME_TYPE_HINTS \<longrightarrow>
      choose_char env ng choice defaults w = choose_char_loop env ng ng choice defaults w)
   \<and> (after_rejections env ng_reset defaults n (ng, choice, w) = Some (ng', choice', w') \<longrightarrow>
      (0 < n \<longrightarrow> ng' = ng_reset)
      \<and> name choice' = name choice \<and> gtype choice' = gtype choice
      \<and> (is_random_choice choice \<and> allowed_combos choice = [] \<and> allowed_species choice = []
           \<and> allowed_jobs choice = [] \<and> allowed_weapons choice = [] \<longrightarrow> choice' = choice)
      \<and> choose_char_loop env ng_reset ng choice defaults w
          = choose_char_loop env ng_reset ng' choice' defaults w')
   \<and> (reroll_pass env ng choice defaults w = Some (Inr (ng_res, choice_res, False, w_ans))
        \<and> choose_weapon env ng_res choice_res defaults w_ans = Some (Inr (True, ng_fin, choice_fin, w_fin)) \<longrightarrow>
      choose_char_loop env ng_reset ng choice defaults w = Some (Inr (ng_fin, choice_fin, w_fin))
      \<and> ng_fin = ng_res\<lparr>weapon := weapon ng_fin\<rparr>)
   \<and> (resolve_pass env ng choice defaults w = Some (Inr (ng_res, choice_res, w_res))
        \<and> fully_random choice_res \<and> events w_res = WME_KEYDOWN k ## evs
        \<and> (k = CK_ESCAPE \<or> k = Key CHR ''q'' \<or> k = Key CHR ''Q'') \<longrightarrow>
      choose_char_loop env ng_reset ng choice defaults w = Some (Inl Game_ended_abort))"
proof (intro conjI impI)
  assume "gtype ng \<noteq> GAME_TYPE_TUTORIAL \<and> gtype ng \<noteq> GAME_TYPE_HINTS"
  then show "choose_char env ng choice defaults w = choose_char_loop env ng ng choice defaults w"
    by (simp add: choose_char_normal)
next
  assume a: "after_rejections env ng_reset defaults n (ng, choice, w) = Some (ng', choice', w')"
  from after_rejections_props[OF a]
  show "0 < n \<Longrightarrow> ng' = ng_reset" and "name choice' = name choice"
    and "gtype choice' = gtype choice"
    and "choose_char_loop env ng_reset ng choice defaults w
          = choose_char_loop env ng_reset ng' choice' defaults w'"
    by simp_all
  show "choice' = choice"
    if "is_random_choice choice \<and> allowed_combos choice = [] \<and> allowed_species choice = []
           \<and> allowed_jobs choice = [] \<and> allowed_weapons choice = []"
    using that after_rejections_random_choice[OF _ _ _ _ _ a] by blast
next
  assume a: "reroll_pass env ng choice defaults w = Some (Inr (ng_res, choice_res, False, w_ans))
        \<and> choose_weapon env ng_res choice_res defaults w_ans = Some (Inr (True, ng_fin, choice_fin, w_fin))"
  then show "choose_char_loop env ng_reset ng choice defaults w = Some (Inr (ng_fin, choice_fin, w_fin))"
    using choose_char_loop_accept by blast
  from a show "ng_fin = ng_res\<lparr>weapon := weapon ng_fin\<rparr>"
    using choose_weapon_frame by blast
next
  assume a: "resolve_pass env ng choice defaults w = Some (Inr (ng_res, choice_res, w_res))
        \<and> fully_random choice_res \<and> events w_res = WME_KEYDOWN k ## evs
        \<and> (k = CK_ESCAPE \<or> k = Key CHR ''q'' \<or> k = Key CHR ''Q'')"
  then have "reroll_random ng_res w_res = Some (Inl Game_ended_abort)"
    by (auto simp add: reroll_random_key)
  with a show "choose_char_loop env ng_reset ng choice defaults w = Some (Inl Game_ended_abort)"
    using choose_char_loop_quit by blast
qed

lemma random_job_loop_hit:
  "is_starting_job (job_of_int env (int (shd g mod NUM_JOBS env))) \<Longrightarrow>
   random_job_loop env g = Some (job_of_int env (int (shd g mod NUM_JOBS env)), stl g)"
  by (subst random_job_loop.simps) (simp add: random2_def)

lemma choose_species_job_loop_enter:
  "species ng_choice = SP_UNKNOWN \<or> job ng_choice = JOB_UNKNOWN \<Longrightarrow>
   choose_species_job_loop env defaults ng ng_choice w =
        and_then (if species ng_choice = SP_UNKNOWN
                  then prompt_choice env C_SPECIES ng ng_choice defaults w
                  else Some (Inr (ng, ng_choice, w)))
          (\<lambda>(ng1, ng_choice1, w1).
        and_then (resolve_species_job_w env ng1 ng_choice1 w1)
          (\<lambda>(ng2, w2).
        and_then (if job ng_choice1 = JOB_UNKNOWN
                  then prompt_choice env C_JOB ng2 ng_choice1 defaults w2
                  else Some (Inr (ng2, ng_choice1, w2)))
          (\<lambda>(ng3, ng_choice3, w3).
        and_then (resolve_species_job_w env ng3 ng_choice3 w3)
          (\<lambda>(ng4, w4). choose_species_job_loop env defaults ng4 ng_choice3 w4))))"
  by (subst choose_species_job_loop.simps) simp

lemma all_jobs_ext0: "all_jobs ext0 = [JOB_OTHER 0, JOB_FIGHTER, JOB_WIZARD]"
  by (simp add: all_jobs_def ext0_def numeral_3_eq_3)

lemma is_starting_job_simps:
  "\<not> is_starting_job (JOB_OTHER n)" "is_starting_job JOB_FIGHTER" "is_starting_job JOB_WIZARD"
  by (simp_all add: is_starting_job_def jobs_order_def)

lemma ext0_simps:
  "job_allowed ext0 sp jb = (if is_starting_job jb then CC_UNRESTRICTED else CC_BANNED)"
  "species_allowed ext0 jb sp = (if is_starting_job jb then CC_UNRESTRICTED else CC_BANNED)"
  "weapon_restriction ext0 wp ng = CC_UNRESTRICTED"
  "NUM_JOBS ext0 = 3"
  "job_of_int ext0 i = (if i = 0 then JOB_OTHER 0 else if i = 1 then JOB_FIGHTER else JOB_WIZARD)"
  "species_of_int ext0 i = (if i = 0 then SP_HUMAN else SP_FELID)"
  "weapon_of_int ext0 i = (if i = 0 then WPN_MACE else WPN_SPEAR)"
  "job_gets_ranged_weapons ext0 jb = False"
  "job_gets_good_weapons ext0 jb = False"
  "job_has_weapon_choice ext0 jb = (jb = JOB_FIGHTER)"
  by (simp_all add: ext0_def)

lemma resolve_pass_random_request:
  "resolve_pass ext0 newgame_def0 random_request newgame_def0 (world1 evs ps)
     = Some (Inr (newgame_def0\<lparr>species := SP_DEEP_ELF, job := JOB_FIGHTER\<rparr>, random_request,
                  world1 evs ps))"
  by (simp add: resolve_pass_def apply_allowed_def choose_species_job_def
      choose_species_job_resolved_def choose_species_job_loop_exit resolve_species_job_w_def
      resolve_species_job_def species_first_def coinflip_def random2_def species_then_job_def
      resolve_species_def resolve_species_random_def random_species_loop_once
      resolve_job_def resolve_job_random_def all_jobs_ext0 is_good_combination_def
      one_chance_in_def is_starting_job_simps ext0_simps species_order_def
      random_request_def newgame_def0_def world1_def)

lemma newgame_def0_simps:
  "name newgame_def0 = []" "gtype newgame_def0 = GAME_TYPE_NORMAL"
  "species newgame_def0 = SP_UNKNOWN" "job newgame_def0 = JOB_UNKNOWN"
  "weapon newgame_def0 = WPN_UNKNOWN" "fully_random newgame_def0 = False"
  "allowed_species newgame_def0 = []" "allowed_jobs newgame_def0 = []"
  "allowed_weapons newgame_def0 = []" "allowed_combos newgame_def0 = []"
  by (simp_all add: newgame_def0_def)

lemma random_request_simps:
  "species random_request = SP_RANDOM" "job random_request = JOB_RANDOM"
  "weapon random_request = WPN_UNKNOWN" "fully_random random_request = True"
  "allowed_species random_request = []" "allowed_jobs random_request = []"
  "allowed_weapons random_request = []" "allowed_combos random_request = []"
  by (simp_all add: random_request_def newgame_def0_def)

lemma world1_simps:
  "gen (world1 evs ps) = sconst 1" "events (world1 evs ps) = evs"
  "seen_hups (world1 evs ps) = False" "prompted (world1 evs ps) = ps"
  "world1 evs ps\<lparr>gen := sconst 1\<rparr> = world1 evs ps"
  "world1 evs ps\<lparr>events := evs', prompted := ps'\<rparr> = world1 evs' ps'"
  by (simp_all add: world1_def)

lemma reroll_random_world1:
  "reroll_random ng (world1 (WME_KEYDOWN k ## evs) ps) =
     (if k = CK_ESCAPE \<or> k = Key CHR ''q'' \<or> k = Key CHR ''Q''
      then Some (Inl Game_ended_abort)
      else Some (Inr (k = Key CHR ''n'' \<or> k = Key CHR ''N'' \<or> k = CK_TAB
                        \<or> k = Key CHR ''!'' \<or> k = Key CHR ''#'',
             world1 evs (ps @ [Prompt_reroll]))))"
  using reroll_random_key[of "world1 (WME_KEYDOWN k ## evs) ps" k evs ng]
  by (simp add: world1_def)

lemma reroll_pass_random_request:
  "reroll_pass ext0 newgame_def0 random_request newgame_def0
     (world1 (WME_KEYDOWN (Key CHR ''n'') ## evs) ps)
   = Some (Inr (newgame_def0\<lparr>species := SP_DEEP_ELF, job := JOB_FIGHTER\<rparr>, random_request,
                True, world1 evs (ps @ [Prompt_reroll])))"
  "reroll_pass ext0 newgame_def0 random_request newgame_def0
     (world1 (WME_KEYDOWN (Key CHR ''y'') ## evs) ps)
   = Some (Inr (newgame_def0\<lparr>species := SP_DEEP_ELF, job := JOB_FIGHTER\<rparr>, random_request,
                False, world1 evs (ps @ [Prompt_reroll])))"
  by (simp_all add: reroll_pass_def resolve_pass_random_request reroll_random_world1
      random_request_simps)

lemma get_weapons_fighter:
  "get_weapons ext0 (newgame_def0\<lparr>species := SP_DEEP_ELF, job := JOB_FIGHTER\<rparr>) =
     [(WPN_SHORT_SWORD, CC_UNRESTRICTED), (WPN_MACE, CC_UNRESTRICTED),
      (WPN_HAND_AXE, CC_UNRESTRICTED), (WPN_SPEAR, CC_UNRESTRICTED),
      (WPN_FALCHION, CC_UNRESTRICTED), (WPN_QUARTERSTAFF, CC_UNRESTRICTED),
      (WPN_UNARMED, CC_UNRESTRICTED)]"
  by (simp add: get_weapons_def ext0_simps)

lemma choose_weapon_fighter:
  "choose_weapon ext0 (newgame_def0\<lparr>species := SP_DEEP_ELF, job := JOB_FIGHTER\<rparr>)
     random_request newgame_def0 (world1 (Button_activated 0 ## evs) ps)
   = Some (Inr (True,
        newgame_def0\<lparr>species := SP_DEEP_ELF, job := JOB_FIGHTER, weapon := WPN_MACE\<rparr>,
        random_request\<lparr>weapon := WPN_MACE\<rparr>, world1 evs (ps @ [Prompt_weapon])))"
  by (simp add: choose_weapon_def get_weapons_fighter ext0_simps resolve_weapon_w_def
      resolve_weapon_def resolve_weapon_switch_def fixup_weapon_def prompt_weapon_def
      run_layout_step run_layout_finished weapon_menu_handler_def
      M_ABORT_def M_APTITUDES_def M_HELP_def M_DEFAULT_CHOICE_def M_VIABLE_def M_RANDOM_def
      random_request_simps newgame_def0_simps world1_simps)

theorem reroll_loop_witness:
  "is_random_choice random_request \<and> allowed_combos random_request = []
   \<and> allowed_species random_request = [] \<and> allowed_jobs random_request = []
   \<and> allowed_weapons random_request = []
   \<and> after_rejections ext0 newgame_def0 newgame_def0 2
        (newgame_def0, random_request,
         world1 (WME_KEYDOWN (Key CHR ''n'') ## WME_KEYDOWN (Key CHR ''n'') ##
                 WME_KEYDOWN (Key CHR ''y'') ## Button_activated 0 ## sconst WME_OTHER) [])
      = Some (newgame_def0, random_request,
         world1 (WME_KEYDOWN (Key CHR ''y'') ## Button_activated 0 ## sconst WME_OTHER)
           [Prompt_reroll, Prompt_reroll])
   \<and> choose_char_loop ext0 newgame_def0 newgame_def0 random_request newgame_def0
        (world1 (WME_KEYDOWN (Key CHR ''n'') ## WME_KEYDOWN (Key CHR ''n'') ##
                 WME_KEYDOWN (Key CHR ''y'') ## Button_activated 0 ## sconst WME_OTHER) [])
      = Some (Inr (newgame_def0\<lparr>species := SP_DEEP_ELF, job := JOB_FIGHTER, weapon := WPN_MACE\<rparr>,
                   random_request\<lparr>weapon := WPN_MACE\<rparr>,
                   world1 (sconst WME_OTHER)
                     [Prompt_reroll, Prompt_reroll, Prompt_reroll, Prompt_weapon]))
   \<and> choose_char ext0 newgame_def0 random_request newgame_def0
        (world1 (WME_KEYDOWN (Key CHR ''n'') ## WME_KEYDOWN (Key CHR ''n'') ##
                 WME_KEYDOWN (Key CHR ''y'') ## Button_activated 0 ## sconst WME_OTHER) [])
      = Some (Inr (newgame_def0\<lparr>species := SP_DEEP_ELF, job := JOB_FIGHTER, weapon := WPN_MACE\<rparr>,
                   random_request\<lparr>weapon := WPN_MACE\<rparr>,
                   world1 (sconst WME_OTHER)
                     [Prompt_reroll, Prompt_reroll, Prompt_reroll, Prompt_weapon]))
   \<and> choose_char_loop ext0 newgame_def0 newgame_def0 random_request newgame_def0
        (world1 (WME_KEYDOWN (Key CHR ''q'') ## sconst WME_OTHER) [])
      = Some (Inl Game_ended_abort)"
proof -
  let ?w0 = "world1 (WME_KEYDOWN (Key CHR ''n'') ## WME_KEYDOWN (Key CHR ''n'') ##
                 WME_KEYDOWN (Key CHR ''y'') ## Button_activated 0 ## sconst WME_OTHER) []"
  let ?w2 = "world1 (WME_KEYDOWN (Key CHR ''y'') ## Button_activated 0 ## sconst WME_OTHER)
           [Prompt_reroll, Prompt_reroll]"
  let ?w3 = "world1 (Button_activated 0 ## sconst WME_OTHER)
           [Prompt_reroll, Prompt_reroll, Prompt_reroll]"
  let ?w4 = "world1 (sconst WME_OTHER) [Prompt_reroll, Prompt_reroll, Prompt_reroll, Prompt_weapon]"
  let ?wq = "world1 (WME_KEYDOWN (Key CHR ''q'') ## sconst WME_OTHER) []"
  let ?ng2 = "newgame_def0\<lparr>species := SP_DEEP_ELF, job := JOB_FIGHTER\<rparr>"
  let ?ng4 = "newgame_def0\<lparr>species := SP_DEEP_ELF, job := JOB_FIGHTER, weapon := WPN_MACE\<rparr>"
  have rc: "is_random_choice random_request \<and> allowed_combos random_request = []
      \<and> allowed_species random_request = [] \<and> allowed_jobs random_request = []
      \<and> allowed_weapons random_request = []"
    by (simp add: random_request_simps is_random_choice_def
        is_random_species_def is_random_job_def)
  have two: "after_rejections ext0 newgame_def0 newgame_def0 2 (newgame_def0, random_request, ?w0)
      = Some (newgame_def0, random_request, ?w2)"
    by (simp add: numeral_2_eq_2 reroll_pass_random_request)
  have acc: "reroll_pass ext0 newgame_def0 random_request newgame_def0 ?w2
      = Some (Inr (?ng2, random_request, False, ?w3))
      \<and> choose_weapon ext0 ?ng2 random_request newgame_def0 ?w3
      = Some (Inr (True, ?ng4, random_request\<lparr>weapon := WPN_MACE\<rparr>, ?w4))"
    by (simp add: reroll_pass_random_request choose_weapon_fighter)
  have quit: "resolve_pass ext0 newgame_def0 random_request newgame_def0 ?wq
      = Some (Inr (?ng2, random_request, ?wq))
      \<and> fully_random random_request
      \<and> events ?wq = WME_KEYDOWN (Key CHR ''q'') ## sconst WME_OTHER
      \<and> (Key CHR ''q'' = CK_ESCAPE \<or> Key CHR ''q'' = Key CHR ''q'' \<or> Key CHR ''q'' = Key CHR ''Q'')"
    by (simp add: resolve_pass_random_request random_request_simps world1_simps)
  note t0 = reroll_loop[where env = ext0 and ng = newgame_def0 and choice = random_request
      and defaults = newgame_def0 and w = ?w0, THEN conjunct1]
  note t1 = reroll_loop[where env = ext0 and ng_reset = newgame_def0 and defaults = newgame_def0
      and n = 2 and ng = newgame_def0 and choice = random_request and w = ?w0
      and ng' = newgame_def0 and choice' = random_request and w' = ?w2,
      THEN conjunct2, THEN conjunct1, THEN mp, OF two]
  note t2 = reroll_loop[where env = ext0 and ng_reset = newgame_def0 and defaults = newgame_def0
      and ng = newgame_def0 and choice = random_request and w = ?w2
      and ng_res = ?ng2 and choice_res = random_request and w_ans = ?w3 and ng_fin = ?ng4
      and choice_fin = "random_request\<lparr>weapon := WPN_MACE\<rparr>" and w_fin = ?w4,
      THEN conjunct2, THEN conjunct2, THEN conjunct1, THEN mp, OF acc]
  note t3 = reroll_loop[where env = ext0 and ng_reset = newgame_def0 and defaults = newgame_def0
      and ng = newgame_def0 and choice = random_request and w = ?wq
      and ng_res = ?ng2 and choice_res = random_request and w_res = ?wq
      and k = "Key CHR ''q''" and evs = "sconst WME_OTHER",
      THEN conjunct2, THEN conjunct2, THEN conjunct2, THEN mp, OF quit]
  from t1 t2 have run: "choose_char_loop ext0 newgame_def0 newgame_def0 random_request newgame_def0 ?w0
      = Some (Inr (?ng4, random_request\<lparr>weapon := WPN_MACE\<rparr>, ?w4))"
    by simp
  from t0 run have whole: "choose_char ext0 newgame_def0 random_request newgame_def0 ?w0
      = Some (Inr (?ng4, random_request\<lparr>weapon := WPN_MACE\<rparr>, ?w4))"
    by (simp add: newgame_def0_simps)
  from rc two run whole t3 show ?thesis by blast
qed

lemma choose_weapon_fighter_abort:
  "choose_weapon ext0 (newgame_def0\<lparr>species := SP_DEEP_ELF, job := JOB_FIGHTER\<rparr>)
     random_request newgame_def0 (world1 (WME_KEYDOWN (Key CHR '' '') ## evs) ps)
   = Some (Inr (False,
        newgame_def0\<lparr>species := SP_DEEP_ELF, job := JOB_FIGHTER, weapon := WPN_UNKNOWN\<rparr>,
        random_request, world1 evs (ps @ [Prompt_weapon])))"
  by (simp add: choose_weapon_def get_weapons_fighter ext0_simps resolve_weapon_w_def
      resolve_weapon_def resolve_weapon_switch_def fixup_weapon_def prompt_weapon_def
      run_layout_step run_layout_finished weapon_menu_handler_def
      random_request_simps newgame_def0_simps world1_simps)

lemma reroll_pass_quit_species_menu:
  "reroll_pass ext0 newgame_def0 newgame_def0 random_request
     (world1 (WME_KEYDOWN (Key CHR ''X'') ## evs) ps) = Some (Inl (End 0 []))"
  by (simp add: reroll_pass_def resolve_pass_def apply_allowed_def choose_species_job_def
      choose_species_job_resolved_def choose_species_job_loop_enter resolve_species_job_w_def
      resolve_species_job_def species_first_def coinflip_def random2_def species_then_job_def
      resolve_species_def resolve_job_def prompt_choice_def run_layout_step
      run_layout_finished choice_menu_handler_def on_event_def
      newgame_def0_simps world1_simps)

text \<open>
  Claim C9 as stated has the request at the start of attempt \<open>N + 1\<close> identical to that
  at the start of attempt 1, and has accepting exit the loop with the resolved character.
  For a fully-random request that leaves the species open, the first attempt asks for
  the species; after the rejection the request holds the species the player picked, and
  the second attempt starts from it. And a player who accepts the combination, backs
  out of the weapon menu with the space bar and leaves the species menu that follows
  with \<^verbatim>\<open>X\<close> ends the process: the loop does not return the character that was accepted.
\<close>

theorem reroll_loop_counterexample:
  "fully_random open_species_request
   \<and> after_rejections ext0 newgame_def0 newgame_def0 1
        (newgame_def0, open_species_request,
         world1 (Button_activated 0 ## WME_KEYDOWN (Key CHR ''n'') ## sconst WME_OTHER) [])
      = Some (newgame_def0, open_species_request\<lparr>species := SP_HUMAN\<rparr>,
         world1 (sconst WME_OTHER) [Prompt_species, Prompt_reroll])
   \<and> species (open_species_request\<lparr>species := SP_HUMAN\<rparr>) \<noteq> species open_species_request
   \<and> reroll_pass ext0 newgame_def0 random_request newgame_def0
        (world1 (WME_KEYDOWN (Key CHR ''y'') ## WME_KEYDOWN (Key CHR '' '') ##
                 WME_KEYDOWN (Key CHR ''X'') ## sconst WME_OTHER) [])
      = Some (Inr (newgame_def0\<lparr>species := SP_DEEP_ELF, job := JOB_FIGHTER\<rparr>, random_request,
                   False,
                   world1 (WME_KEYDOWN (Key CHR '' '') ## WME_KEYDOWN (Key CHR ''X'') ##
                           sconst WME_OTHER) [Prompt_reroll]))
   \<and> choose_char_loop ext0 newgame_def0 newgame_def0 random_request newgame_def0
        (world1 (WME_KEYDOWN (Key CHR ''y'') ## WME_KEYDOWN (Key CHR '' '') ##
                 WME_KEYDOWN (Key CHR ''X'') ## sconst WME_OTHER) [])
      = Some (Inl (End 0 []))"
proof -
  have pass: "resolve_pass ext0 newgame_def0 open_species_request newgame_def0
        (world1 (Button_activated 0 ## WME_KEYDOWN (Key CHR ''n'') ## sconst WME_OTHER) [])
      = Some (Inr (newgame_def0\<lparr>species := SP_HUMAN, job := JOB_FIGHTER\<rparr>,
                   open_species_request\<lparr>species := SP_HUMAN\<rparr>,
                   world1 (WME_KEYDOWN (Key CHR ''n'') ## sconst WME_OTHER) [Prompt_species]))"
    by (simp add: resolve_pass_def apply_allowed_def choose_species_job_def
      choose_species_job_resolved_def choose_species_job_loop_exit
      choose_species_job_loop_enter resolve_species_job_w_def
      resolve_species_job_def species_first_def coinflip_def random2_def species_then_job_def
      resolve_species_def resolve_job_def resolve_job_random_def random_job_loop_hit
      prompt_choice_def run_layout_step run_layout_finished
      choice_menu_handler_def menu_item_activated_def
      M_VIABLE_CHAR_def M_RANDOM_CHAR_def M_DEFAULT_CHOICE_def M_ABORT_def M_HELP_def
      M_APTITUDES_def M_VIABLE_def M_RANDOM_def
      is_starting_job_simps ext0_simps
      open_species_request_def newgame_def0_def world1_def)
  then have "reroll_pass ext0 newgame_def0 open_species_request newgame_def0
        (world1 (Button_activated 0 ## WME_KEYDOWN (Key CHR ''n'') ## sconst WME_OTHER) [])
      = Some (Inr (newgame_def0\<lparr>species := SP_HUMAN, job := JOB_FIGHTER\<rparr>,
                   open_species_request\<lparr>species := SP_HUMAN\<rparr>, True,
                   world1 (sconst WME_OTHER) [Prompt_species, Prompt_reroll]))"
    by (simp add: reroll_pass_def reroll_random_world1 open_species_request_def)
  then have leak: "fully_random open_species_request
   \<and> after_rejections ext0 newgame_def0 newgame_def0 1
        (newgame_def0, open_species_request,
         world1 (Button_activated 0 ## WME_KEYDOWN (Key CHR ''n'') ## sconst WME_OTHER) [])
      = Some (newgame_def0, open_species_request\<lparr>species := SP_HUMAN\<rparr>,
         world1 (sconst WME_OTHER) [Prompt_species, Prompt_reroll])
   \<and> species (open_species_request\<lparr>species := SP_HUMAN\<rparr>) \<noteq> species open_species_request"
    by (simp add: open_species_request_def newgame_def0_def)
  let ?w = "world1 (WME_KEYDOWN (Key CHR ''y'') ## WME_KEYDOWN (Key CHR '' '') ##
                 WME_KEYDOWN (Key CHR ''X'') ## sconst WME_OTHER) []"
  have acc: "reroll_pass ext0 newgame_def0 random_request newgame_def0 ?w
      = Some (Inr (newgame_def0\<lparr>species := SP_DEEP_ELF, job := JOB_FIGHTER\<rparr>, random_request,
                   False,
                   world1 (WME_KEYDOWN (Key CHR '' '') ## WME_KEYDOWN (Key CHR ''X'') ##
                           sconst WME_OTHER) [Prompt_reroll]))"
    by (simp add: reroll_pass_random_request)
  have "choose_char_loop ext0 newgame_def0 newgame_def0 random_request newgame_def0 ?w
      = choose_char_loop ext0 newgame_def0 newgame_def0 newgame_def0 random_request
          (world1 (WME_KEYDOWN (Key CHR ''X'') ## sconst WME_OTHER) [Prompt_reroll, Prompt_weapon])"
    using choose_char_loop_weapon_abort[OF acc choose_weapon_fighter_abort] by simp
  also have "\<dots> = Some (Inl (End 0 []))"
    by (rule choose_char_loop_ends) (rule reroll_pass_quit_species_menu)
  finally show ?thesis using leak acc by blast
qed

end
